(* ===== verification/Prelude.thy ===== *)
theory Prelude
  imports Main "HOL-Library.Word"
begin

text \<open>
  Shared vocabulary of the development: the exceptions the handlers can raise (Python's
  and the AWS services'), the result type \<open>'a res\<close> with its bind and map, Python
  dictionaries as association lists with Python's assignment, character classes and the
  string helpers the handlers use (\<open>str.rstrip\<close>, \<open>str.join\<close>, \<open>str(int)\<close>).
  Facts collected in \<open>model_simps\<close> are the generic simplification rules the component
  theories rely on.
\<close>

named_theorems model_simps "generic rewriting facts of the handler model"

section \<open>Exceptions and results\<close>

text \<open>
  One constructor per kind of exception that reaches the Lambda runtime. \<open>KeyError\<close>
  carries the missing key. \<open>DecimalOverflow\<close>, \<open>DecimalInexact\<close> and
  \<open>DecimalRounded\<close> are the \<open>decimal.Overflow\<close>, \<open>Inexact\<close> and \<open>Rounded\<close>
  traps of boto3's DynamoDB number context; \<open>ParamValidationError\<close> is botocore's check of
  request parameters against the API shapes. \<open>ConnectionFailure\<close> is urllib3's
  \<open>MaxRetryError\<close>. \<open>UnrepresentableChar\<close> and \<open>FuelExhausted\<close> are not Python
  exceptions: the first marks a \<open>\uXXXX\<close> escape above U+00FF, outside the 8-bit
  alphabet of the model; the second marks an exhausted fuel bound, and the decoder's
  theory proves that it never occurs.
\<close>

datatype exn =
    KeyError string
  | TypeError
  | AttributeError
  | JSONDecodeError
  | DecimalOverflow
  | DecimalInexact
  | DecimalRounded
  | ParamValidationError
  | ValidationException
  | ResourceNotFoundException
  | ConnectionFailure
  | UnrepresentableChar
  | FuelExhausted

type_synonym 'a res = "exn + 'a"

definition res_bind :: "'a res \<Rightarrow> ('a \<Rightarrow> 'b res) \<Rightarrow> 'b res" where
  "res_bind m f = (case m of Inl e \<Rightarrow> Inl e | Inr x \<Rightarrow> f x)"

text \<open>A Python list comprehension whose element computation may raise: the first
  exception, in list order, is the result.\<close>

fun res_map :: "('a \<Rightarrow> 'b res) \<Rightarrow> 'a list \<Rightarrow> 'b list res" where
  "res_map f [] = Inr []"
| "res_map f (x # xs) = res_bind (f x) (\<lambda>y. res_bind (res_map f xs) (\<lambda>ys. Inr (y # ys)))"

section \<open>Python dictionaries\<close>

text \<open>
  A Python \<open>dict\<close> is an association list with distinct keys in insertion order.
  \<open>d[k] = v\<close> replaces the value in place when \<open>k\<close> is present (the key keeps its
  position) and appends otherwise; \<open>dict(pairs)\<close> is the assignments in order.
\<close>

fun dict_set :: "('k \<times> 'v) list \<Rightarrow> 'k \<Rightarrow> 'v \<Rightarrow> ('k \<times> 'v) list" where
  "dict_set [] k v = [(k, v)]"
| "dict_set ((k', v') # d) k v = (if k' = k then (k, v) # d else (k', v') # dict_set d k v)"

definition dict_of_pairs :: "('k \<times> 'v) list \<Rightarrow> ('k \<times> 'v) list" where
  "dict_of_pairs ps = foldl (\<lambda>d (k, v). dict_set d k v) [] ps"

section \<open>Characters\<close>

text \<open>
  A character of the model is a code point below 256 (\<open>of_char\<close>), so the Latin-1
  range of Python's strings is covered exactly. Character classes are decided on the
  code point, as CPython decides them.
\<close>

abbreviation cp :: "char \<Rightarrow> nat" where
  "cp c \<equiv> of_char c"

definition is_digit :: "char \<Rightarrow> bool" where
  "is_digit c \<longleftrightarrow> 48 \<le> cp c \<and> cp c \<le> 57"

definition is_alpha :: "char \<Rightarrow> bool" where
  "is_alpha c \<longleftrightarrow> (65 \<le> cp c \<and> cp c \<le> 90) \<or> (97 \<le> cp c \<and> cp c \<le> 122)"

definition ident_char :: "char \<Rightarrow> bool" where
  "ident_char c \<longleftrightarrow> is_alpha c \<or> is_digit c \<or> c = CHR ''_''"

definition hex_val :: "char \<Rightarrow> nat option" where
  "hex_val c =
     (let n = cp c in
      if 48 \<le> n \<and> n \<le> 57 then Some (n - 48)
      else if 65 \<le> n \<and> n \<le> 70 then Some (n - 55)
      else if 97 \<le> n \<and> n \<le> 102 then Some (n - 87)
      else None)"

text \<open>Lower-case hexadecimal digit of \<open>n < 16\<close>, as in CPython's \<open>Py_hexdigits\<close>.\<close>

definition hex_char :: "nat \<Rightarrow> char" where
  "hex_char n = (if n < 10 then char_of (48 + n) else char_of (87 + n))"

definition upper_char :: "char \<Rightarrow> char" where
  "upper_char c = (if 97 \<le> cp c \<and> cp c \<le> 122 then char_of (cp c - 32) else c)"

definition upper :: "string \<Rightarrow> string" where
  "upper s = map upper_char s"

section \<open>Decimal representation of integers\<close>

text \<open>\<open>str(n)\<close> for a Python \<open>int\<close>: decimal digits, a minus sign when negative.\<close>

fun nat_to_str :: "nat \<Rightarrow> string" where
  "nat_to_str n = (if n < 10 then [char_of (48 + n)] else nat_to_str (n div 10) @ [char_of (48 + n mod 10)])"

declare nat_to_str.simps [simp del]

definition int_to_str :: "int \<Rightarrow> string" where
  "int_to_str i = (if i < 0 then CHR ''-'' # nat_to_str (nat (- i)) else nat_to_str (nat i))"

section \<open>String helpers\<close>

text \<open>\<open>sep.join(xs)\<close>.\<close>

fun py_join :: "string \<Rightarrow> string list \<Rightarrow> string" where
  "py_join sep [] = []"
| "py_join sep [x] = x"
| "py_join sep (x # xs) = x @ sep @ py_join sep xs"

text \<open>\<open>s.rstrip(chars)\<close> removes every trailing character that occurs in \<open>chars\<close>:
  a set of characters, not a suffix.\<close>

definition py_rstrip :: "string \<Rightarrow> string \<Rightarrow> string" where
  "py_rstrip cs s = rev (dropWhile (\<lambda>c. c \<in> set cs) (rev s))"

section \<open>Lemmas\<close>

subsection \<open>Exceptions and results\<close>

lemma res_bind_Inl [simp, model_simps]: "res_bind (Inl e) f = Inl e"
  by (simp add: res_bind_def)

lemma res_bind_Inr [simp, model_simps]: "res_bind (Inr x) f = f x"
  by (simp add: res_bind_def)

lemma res_bind_eq_Inr [model_simps]:
  "res_bind m f = Inr y \<longleftrightarrow> (\<exists>x. m = Inr x \<and> f x = Inr y)"
  by (cases m) auto

lemma res_bind_eq_Inl [model_simps]:
  "res_bind m f = Inl e \<longleftrightarrow> m = Inl e \<or> (\<exists>x. m = Inr x \<and> f x = Inl e)"
  by (cases m) simp_all

lemma res_bind_cong [fundef_cong]:
  "m = m' \<Longrightarrow> (\<And>x. m' = Inr x \<Longrightarrow> f x = g x) \<Longrightarrow> res_bind m f = res_bind m' g"
  by (cases m) auto

lemma res_bind_assoc [model_simps]:
  "res_bind (res_bind m f) g = res_bind m (\<lambda>x. res_bind (f x) g)"
  by (cases m) auto

lemma res_map_cong [fundef_cong]:
  "xs = ys \<Longrightarrow> (\<And>x. x \<in> set ys \<Longrightarrow> f x = g x) \<Longrightarrow> res_map f xs = res_map g ys"
  by (induction ys arbitrary: xs) auto

lemma res_map_Inr_iff [model_simps]:
  "res_map f xs = Inr ys \<longleftrightarrow> list_all2 (\<lambda>x y. f x = Inr y) xs ys"
  by (induction xs arbitrary: ys) (auto simp: res_bind_eq_Inr list_all2_Cons1)

lemma res_map_Inr_map [model_simps]: "(\<And>x. x \<in> set xs \<Longrightarrow> f x = Inr (g x)) \<Longrightarrow>
  res_map f xs = Inr (map g xs)"
  by (induction xs) auto

subsection \<open>Python dictionaries\<close>

lemma map_of_dict_set [simp, model_simps]: "map_of (dict_set d k v) = (map_of d)(k \<mapsto> v)"
  by (induction d) (auto simp: fun_eq_iff)

lemma keys_dict_set [model_simps]:
  "map fst (dict_set d k v) = (if k \<in> set (map fst d) then map fst d else map fst d @ [k])"
  by (induction d) (force simp: image_iff)+

lemma distinct_dict_set [simp, model_simps]:
  "distinct (map fst d) \<Longrightarrow> distinct (map fst (dict_set d k v))"
  by (simp add: keys_dict_set)

lemma dict_set_new [model_simps]: "k \<notin> set (map fst d) \<Longrightarrow> dict_set d k v = d @ [(k, v)]"
  by (induction d) auto

lemma foldl_dict_set_distinct:
  "distinct (map fst d) \<Longrightarrow> distinct (map fst (foldl (\<lambda>d (k, v). dict_set d k v) d ps))"
  by (induction ps arbitrary: d) auto

lemma distinct_dict_of_pairs [simp, model_simps]: "distinct (map fst (dict_of_pairs ps))"
  by (simp add: dict_of_pairs_def foldl_dict_set_distinct)

lemma foldl_dict_set_map_of:
  "map_of (foldl (\<lambda>d (k, v). dict_set d k v) d ps) = map_of d ++ map_of (rev ps)"
  by (induction ps arbitrary: d) (auto simp: map_add_def fun_eq_iff split: option.splits)

lemma map_of_dict_of_pairs [simp, model_simps]: "map_of (dict_of_pairs ps) = map_of (rev ps)"
  by (simp add: dict_of_pairs_def foldl_dict_set_map_of)

lemma dict_of_pairs_distinct [model_simps]:
  "distinct (map fst ps) \<Longrightarrow> dict_of_pairs ps = ps"
proof -
  have "distinct (map fst (d @ ps)) \<Longrightarrow> foldl (\<lambda>d (k, v). dict_set d k v) d ps = d @ ps" for d
  proof (induction ps arbitrary: d)
    case Nil
    then show ?case by simp
  next
    case (Cons p ps)
    obtain k v where p: "p = (k, v)" by (cases p)
    from Cons.prems p have "dict_set d k v = d @ [(k, v)]" by (simp add: dict_set_new)
    with Cons p show ?case by simp
  qed
  then show "distinct (map fst ps) \<Longrightarrow> dict_of_pairs ps = ps"
    by (simp add: dict_of_pairs_def)
qed

subsection \<open>Characters\<close>

lemma hex_val_hex_char [simp, model_simps]: "n < 16 \<Longrightarrow> hex_val (hex_char n) = Some n"
  by (auto simp: hex_val_def hex_char_def Let_def)

lemma of_char_hex_char_ascii [model_simps]: "n < 16 \<Longrightarrow> cp (hex_char n) < 128"
  by (auto simp: hex_char_def)

subsection \<open>Decimal representation of integers\<close>

lemma nat_to_str_digits [model_simps]: "c \<in> set (nat_to_str n) \<Longrightarrow> is_digit c"
proof (induction n rule: nat_to_str.induct)
  case (1 n)
  have "is_digit (char_of (48 + m))" if "m < 10" for m :: nat
    using that by (simp add: is_digit_def of_char_of)
  with "1" show ?case
    by (cases "n < 10") (auto simp: nat_to_str.simps [of n])
qed

lemma nat_to_str_nonempty [simp, model_simps]: "nat_to_str n \<noteq> []"
  by (subst nat_to_str.simps) simp

lemma nat_to_str_length_le [model_simps]:
  "length (nat_to_str n) \<le> Suc k \<longleftrightarrow> n < 10 ^ Suc k"
proof (induction n arbitrary: k rule: nat_to_str.induct)
  case (1 n)
  show ?case
  proof (cases "n < 10")
    case True
    have "(10::nat) ^ 1 \<le> 10 ^ Suc k" by (rule power_increasing) simp_all
    with True have "n < 10 ^ Suc k" by (metis power_one_right less_le_trans)
    with True show ?thesis by (simp add: nat_to_str.simps [of n] del: power_Suc)
  next
    case False
    then have len: "length (nat_to_str n) = Suc (length (nat_to_str (n div 10)))"
      by (simp add: nat_to_str.simps [of n])
    show ?thesis
    proof (cases k)
      case 0
      with False len show ?thesis by simp
    next
      case (Suc k')
      have "n div 10 < 10 ^ Suc k' \<longleftrightarrow> n < 10 ^ Suc (Suc k')"
        by (simp add: div_less_iff_less_mult mult.commute)
      with "1.IH" [OF False, of k'] len Suc show ?thesis by simp
    qed
  qed
qed

subsection \<open>String helpers\<close>

lemma py_rstrip_append_stop [model_simps]:
  assumes "set t \<subseteq> set cs" and "c \<notin> set cs"
  shows "py_rstrip cs (s @ [c] @ t) = s @ [c]"
proof -
  have "dropWhile (\<lambda>c. c \<in> set cs) (rev t @ c # rev s) = dropWhile (\<lambda>c. c \<in> set cs) (c # rev s)"
    by (rule dropWhile_append2) (use assms(1) in auto)
  with assms(2) show ?thesis by (simp add: py_rstrip_def)
qed

lemma py_rstrip_all [model_simps]:
  assumes "set s \<subseteq> set cs"
  shows "py_rstrip cs (p @ s) = py_rstrip cs p"
proof -
  have "dropWhile (\<lambda>c. c \<in> set cs) (rev s @ rev p) = dropWhile (\<lambda>c. c \<in> set cs) (rev p)"
    by (rule dropWhile_append2) (use assms in auto)
  then show ?thesis by (simp add: py_rstrip_def)
qed

lemma py_rstrip_id_iff: "py_rstrip cs s = s \<longleftrightarrow> s = [] \<or> last s \<notin> set cs"
proof (cases s rule: rev_cases)
  case (snoc s0 c)
  have "length (py_rstrip cs s0) \<le> length s0"
    using length_dropWhile_le [of "\<lambda>c. c \<in> set cs" "rev s0"] by (simp add: py_rstrip_def)
  with snoc show ?thesis
    by (cases "c \<in> set cs") (auto simp: py_rstrip_def dest: arg_cong [of _ _ length])
qed (simp add: py_rstrip_def)

lemma py_join_last:
  "xs \<noteq> [] \<Longrightarrow> \<exists>p. py_join sep xs = p @ last xs"
proof (induction xs)
  case (Cons x xs)
  then show ?case by (cases xs) auto
qed simp

end
