(* ===== verification/Json.thy ===== *)
theory Json
  imports Prelude
begin

text \<open>
  The Python values the handlers see: the Lambda event and every decoded request body
  are JSON documents turned into Python objects by \<open>json.loads\<close>. This theory holds
  their datatype, Python's \<open>str()\<close>/\<open>repr()\<close> of them (used by the f-strings of
  all four handlers), \<open>json.dumps\<close> with its default settings (used for every
  response body and for the webhook payload), and the three Python operations the
  handlers apply to decoded values: subscription \<open>v[k]\<close>, \<open>v.get(k)\<close> and
  iteration.
\<close>

section \<open>Values\<close>

text \<open>
  \<open>JObj\<close> is a Python \<open>dict\<close> (insertion-ordered, distinct keys when produced by
  the decoder); \<open>JInt\<close> is Python's unbounded \<open>int\<close>. \<open>JFloat t\<close> is a Python
  \<open>float\<close>, represented by its printed form \<open>t\<close> (\<open>nan\<close>, \<open>inf\<close>, \<open>-inf\<close> or
  the decimal literal it was read from); the model does not compute binary doubles.
\<close>

datatype json =
    JNull
  | JBool bool
  | JInt int
  | JFloat string
  | JStr string
  | JArr "json list"
  | JObj "(string \<times> json) list"

section \<open>str() and repr()\<close>

text \<open>
  CPython's \<open>unicode_repr\<close>: the quote is \<open>'\<close> unless the string contains \<open>'\<close>
  and no \<open>"\<close>; the quote and the backslash are escaped; tab, newline and carriage
  return by name; other control characters, DEL and the non-printable Latin-1 code points
  (U+0080 to U+00A0 and U+00AD) as \<open>\xHH\<close> in lower-case hexadecimal.
\<close>

definition latin1_printable :: "char \<Rightarrow> bool" where
  "latin1_printable c \<longleftrightarrow> \<not> (128 \<le> cp c \<and> cp c \<le> 160) \<and> cp c \<noteq> 173"

definition hex2 :: "nat \<Rightarrow> string" where
  "hex2 n = [hex_char (n div 16 mod 16), hex_char (n mod 16)]"

definition repr_char :: "char \<Rightarrow> char \<Rightarrow> string" where
  "repr_char q c =
     (if c = q \<or> c = CHR 0x5C then [CHR 0x5C, c]
      else if c = CHR 0x09 then [CHR 0x5C, CHR ''t'']
      else if c = CHR 0x0A then [CHR 0x5C, CHR ''n'']
      else if c = CHR 0x0D then [CHR 0x5C, CHR ''r'']
      else if cp c < 32 \<or> cp c = 127 then [CHR 0x5C, CHR ''x''] @ hex2 (cp c)
      else if cp c < 127 then [c]
      else if latin1_printable c then [c]
      else [CHR 0x5C, CHR ''x''] @ hex2 (cp c))"

definition str_repr :: "string \<Rightarrow> string" where
  "str_repr s =
     (let q = (if CHR 0x27 \<in> set s \<and> CHR 0x22 \<notin> set s then CHR 0x22 else CHR 0x27)
      in q # concat (map (repr_char q) s) @ [q])"

text \<open>
  \<open>repr()\<close> of a value: \<open>None\<close>, \<open>True\<close>/\<open>False\<close>, the decimal integer, the
  float's printed form, the quoted string, and lists and dicts with \<open>", "\<close> between
  items and \<open>": "\<close> between key and value, every item by \<open>repr()\<close>.
\<close>

fun py_repr :: "json \<Rightarrow> string"
and repr_items :: "json list \<Rightarrow> string"
and repr_entries :: "(string \<times> json) list \<Rightarrow> string" where
  "py_repr JNull = ''None''"
| "py_repr (JBool b) = (if b then ''True'' else ''False'')"
| "py_repr (JInt n) = int_to_str n"
| "py_repr (JFloat t) = t"
| "py_repr (JStr s) = str_repr s"
| "py_repr (JArr xs) = ''['' @ repr_items xs @ '']''"
| "py_repr (JObj d) = ''{'' @ repr_entries d @ ''}''"
| "repr_items [] = []"
| "repr_items [x] = py_repr x"
| "repr_items (x # xs) = py_repr x @ '', '' @ repr_items xs"
| "repr_entries [] = []"
| "repr_entries [(k, v)] = str_repr k @ '': '' @ py_repr v"
| "repr_entries ((k, v) # d) = str_repr k @ '': '' @ py_repr v @ '', '' @ repr_entries d"

text \<open>\<open>str()\<close>, which is what an f-string substitutes: a string is itself, every other
  value is its \<open>repr()\<close>.\<close>

definition py_str :: "json \<Rightarrow> string" where
  "py_str v = (case v of JStr s \<Rightarrow> s | _ \<Rightarrow> py_repr v)"

section \<open>json.dumps\<close>

text \<open>
  CPython's C encoder with the defaults \<open>ensure_ascii=True\<close>, \<open>allow_nan=True\<close>,
  separators \<open>", "\<close> and \<open>": "\<close>: a character from space to tilde other than
  \<open>"\<close> and backslash is itself; \<open>"\<close>, backslash, backspace, form feed,
  newline, carriage return and tab have two-character escapes; every other character is
  \<open>\u\<close> and four lower-case hexadecimal digits.
\<close>

definition hex4 :: "nat \<Rightarrow> string" where
  "hex4 n = [hex_char (n div 4096 mod 16), hex_char (n div 256 mod 16),
             hex_char (n div 16 mod 16), hex_char (n mod 16)]"

definition json_escape :: "char \<Rightarrow> string" where
  "json_escape c =
     (if 32 \<le> cp c \<and> cp c \<le> 126 \<and> c \<noteq> CHR 0x5C \<and> c \<noteq> CHR 0x22 then [c]
      else CHR 0x5C #
        (if c = CHR 0x22 then [CHR 0x22]
         else if c = CHR 0x5C then [CHR 0x5C]
         else if c = CHR 0x08 then ''b''
         else if c = CHR 0x0C then ''f''
         else if c = CHR 0x0A then ''n''
         else if c = CHR 0x0D then ''r''
         else if c = CHR 0x09 then ''t''
         else CHR ''u'' # hex4 (cp c)))"

definition json_str :: "string \<Rightarrow> string" where
  "json_str s = CHR 0x22 # concat (map json_escape s) @ [CHR 0x22]"

definition float_dumps :: "string \<Rightarrow> string" where
  "float_dumps t =
     (if t = ''nan'' then ''NaN'' else if t = ''inf'' then ''Infinity''
      else if t = ''-inf'' then ''-Infinity'' else t)"

fun json_dumps :: "json \<Rightarrow> string"
and dumps_items :: "json list \<Rightarrow> string"
and dumps_entries :: "(string \<times> json) list \<Rightarrow> string" where
  "json_dumps JNull = ''null''"
| "json_dumps (JBool b) = (if b then ''true'' else ''false'')"
| "json_dumps (JInt n) = int_to_str n"
| "json_dumps (JFloat t) = float_dumps t"
| "json_dumps (JStr s) = json_str s"
| "json_dumps (JArr xs) = ''['' @ dumps_items xs @ '']''"
| "json_dumps (JObj d) = ''{'' @ dumps_entries d @ ''}''"
| "dumps_items [] = []"
| "dumps_items [x] = json_dumps x"
| "dumps_items (x # xs) = json_dumps x @ '', '' @ dumps_items xs"
| "dumps_entries [] = []"
| "dumps_entries [(k, v)] = json_str k @ '': '' @ json_dumps v"
| "dumps_entries ((k, v) # d) = json_str k @ '': '' @ json_dumps v @ '', '' @ dumps_entries d"

section \<open>Python operations on decoded values\<close>

text \<open>
  \<open>v[k]\<close> with a string key: a dict looks the key up (\<open>KeyError\<close> when absent);
  lists, strings, numbers, booleans and \<open>None\<close> raise \<open>TypeError\<close>.
\<close>

definition py_getitem :: "json \<Rightarrow> string \<Rightarrow> json res" where
  "py_getitem v k =
     (case v of
        JObj d \<Rightarrow> (case map_of d k of None \<Rightarrow> Inl (KeyError k) | Some x \<Rightarrow> Inr x)
      | _ \<Rightarrow> Inl TypeError)"

text \<open>\<open>v.get(k)\<close>: \<open>None\<close> for an absent key; only dicts have the method.\<close>

definition py_dict_get :: "json \<Rightarrow> string \<Rightarrow> json res" where
  "py_dict_get v k =
     (case v of
        JObj d \<Rightarrow> Inr (case map_of d k of None \<Rightarrow> JNull | Some x \<Rightarrow> x)
      | _ \<Rightarrow> Inl AttributeError)"

text \<open>\<open>for x in v\<close>: a list yields its elements, a dict its keys, a string its
  one-character strings; numbers, booleans and \<open>None\<close> are not iterable.\<close>

definition py_iter :: "json \<Rightarrow> json list res" where
  "py_iter v =
     (case v of
        JArr xs \<Rightarrow> Inr xs
      | JObj d \<Rightarrow> Inr (map (JStr \<circ> fst) d)
      | JStr s \<Rightarrow> Inr (map (\<lambda>c. JStr [c]) s)
      | _ \<Rightarrow> Inl TypeError)"

text \<open>\<open>d.items()\<close>: only dicts have the method.\<close>

definition py_items :: "json \<Rightarrow> (string \<times> json) list res" where
  "py_items v = (case v of JObj d \<Rightarrow> Inr d | _ \<Rightarrow> Inl AttributeError)"

section \<open>Well-formed values\<close>

text \<open>Every dict at every depth has distinct keys, as Python's \<open>dict\<close> has.\<close>

fun json_wf :: "json \<Rightarrow> bool"
and items_wf :: "json list \<Rightarrow> bool"
and entries_wf :: "(string \<times> json) list \<Rightarrow> bool" where
  "json_wf (JArr xs) = items_wf xs"
| "json_wf (JObj d) = (distinct (map fst d) \<and> entries_wf d)"
| "json_wf JNull = True"
| "json_wf (JBool b) = True"
| "json_wf (JInt n) = True"
| "json_wf (JFloat t) = True"
| "json_wf (JStr s) = True"
| "items_wf [] = True"
| "items_wf (x # xs) = (json_wf x \<and> items_wf xs)"
| "entries_wf [] = True"
| "entries_wf ((k, v) # d) = (json_wf v \<and> entries_wf d)"

section \<open>Lemmas\<close>

lemma py_str_JStr [simp, model_simps]: "py_str (JStr s) = s"
  by (simp add: py_str_def)

lemma py_getitem_JObj [simp, model_simps]:
  "py_getitem (JObj d) k = (case map_of d k of None \<Rightarrow> Inl (KeyError k) | Some x \<Rightarrow> Inr x)"
  by (simp add: py_getitem_def)

lemma py_dict_get_JObj [simp, model_simps]:
  "py_dict_get (JObj d) k = Inr (case map_of d k of None \<Rightarrow> JNull | Some x \<Rightarrow> x)"
  by (simp add: py_dict_get_def)

lemma py_iter_JArr [simp, model_simps]: "py_iter (JArr xs) = Inr xs"
  by (simp add: py_iter_def)

lemma py_items_JObj [simp, model_simps]: "py_items (JObj d) = Inr d"
  by (simp add: py_items_def)

lemma json_escape_ascii [model_simps]: "x \<in> set (json_escape c) \<Longrightarrow> cp x < 128"
  by (auto simp: json_escape_def hex4_def of_char_hex_char_ascii split: if_splits)

lemma json_str_ascii [model_simps]: "x \<in> set (json_str s) \<Longrightarrow> cp x < 128"
  by (auto simp: json_str_def dest: json_escape_ascii)

lemma items_wf_append [simp]: "items_wf (xs @ ys) = (items_wf xs \<and> items_wf ys)"
  by (induction xs) auto

lemma entries_wf_dict_set: "entries_wf d \<Longrightarrow> json_wf v \<Longrightarrow> entries_wf (dict_set d k v)"
  by (induction d) auto

end
