(* ===== verification/Lambda.thy ===== *)
theory Lambda
  imports Json
begin

text \<open>
  What the three record handlers share: their module initialisation reads the table name
  from the environment (\<open>os.environ['TABLE_NAME']\<close>, a \<open>KeyError\<close> at import time
  when it is missing), and each returns an API-Gateway proxy response, a dict with an
  integer \<open>statusCode\<close> and a \<open>body\<close> that is \<open>json.dumps({'message': m})\<close>.
\<close>

record api_response =
  status_code :: int
  resp_body :: string

type_synonym env = "string \<rightharpoonup> string"

text \<open>\<open>os.environ[k]\<close>.\<close>

definition getenv :: "env \<Rightarrow> string \<Rightarrow> string res" where
  "getenv e k = (case e k of None \<Rightarrow> Inl (KeyError k) | Some v \<Rightarrow> Inr v)"

text \<open>\<open>table = dynamodb.Table(os.environ['TABLE_NAME'])\<close>: the handle only records the
  name; no request is made until an operation is called.\<close>

definition table_init :: "env \<Rightarrow> string res" where
  "table_init e = getenv e ''TABLE_NAME''"

text \<open>\<open>{'statusCode': code, 'body': json.dumps({'message': m})}\<close>.\<close>

definition message_response :: "int \<Rightarrow> string \<Rightarrow> api_response" where
  "message_response code m =
     \<lparr>status_code = code, resp_body = json_dumps (JObj [(''message'', JStr m)])\<rparr>"

section \<open>Lemmas\<close>

lemma message_response_body [model_simps]:
  "resp_body (message_response code m) = ''{'' @ json_str ''message'' @ '': '' @ json_str m @ ''}''"
  by (simp add: message_response_def)

lemma message_response_ascii [model_simps]:
  "c \<in> set (resp_body (message_response code m)) \<Longrightarrow> cp c < 128"
  by (auto simp: message_response_body json_str_ascii)

end
