(* ===== verification/Json_Decode.thy ===== *)
theory Json_Decode
  imports Json
begin

text \<open>
  \<open>json.loads\<close> as CPython's C scanner (\<open>Modules/_json.c\<close>) runs it in strict mode:
  \<open>scan\<close> in mode \<open>Value\<close> dispatches on the first character, \<open>scan_string\<close> is
  \<open>scanstring\<close>, \<open>scan_number\<close> is \<open>_match_number_unicode\<close>, and the object and
  array loops follow \<open>_parse_object_unicode\<close> and \<open>_parse_array_unicode\<close>.
  Every failure is \<open>JSONDecodeError\<close>, as Python raises it (the message is not
  modelled). The recursion between values and containers is bounded by a fuel argument;
  \<open>json_loads\<close> supplies \<open>3 * length s + 1\<close>, and \<open>json_loads_fuel_enough\<close>
  proves that this never runs out.
\<close>

definition json_ws :: "char \<Rightarrow> bool" where
  "json_ws c \<longleftrightarrow> c = CHR '' '' \<or> c = CHR 0x09 \<or> c = CHR 0x0A \<or> c = CHR 0x0D"

abbreviation skip_ws :: "string \<Rightarrow> string" where
  "skip_ws s \<equiv> dropWhile json_ws s"

section \<open>Strings\<close>

text \<open>The one-character escapes of JSON after a backslash.\<close>

definition simple_escape :: "char \<Rightarrow> char option" where
  "simple_escape e =
     (if e = CHR 0x22 then Some (CHR 0x22)
      else if e = CHR 0x5C then Some (CHR 0x5C)
      else if e = CHR ''/'' then Some (CHR ''/'')
      else if e = CHR ''b'' then Some (CHR 0x08)
      else if e = CHR ''f'' then Some (CHR 0x0C)
      else if e = CHR ''n'' then Some (CHR 0x0A)
      else if e = CHR ''r'' then Some (CHR 0x0D)
      else if e = CHR ''t'' then Some (CHR 0x09)
      else None)"

text \<open>The four hexadecimal digits of a \<open>\uXXXX\<close> escape, each checked as the C scanner
  checks them.\<close>

fun hex4_val :: "string \<Rightarrow> nat option" where
  "hex4_val (a # b # c # d # _) =
     (case (hex_val a, hex_val b, hex_val c, hex_val d) of
        (Some w, Some x, Some y, Some z) \<Rightarrow> Some (w * 4096 + x * 256 + y * 16 + z)
      | _ \<Rightarrow> None)"
| "hex4_val _ = None"

text \<open>
  \<open>scan_string acc s\<close> reads the rest of a string literal after its opening quote,
  with the characters read so far reversed in \<open>acc\<close>; it returns the string and the
  input after the closing quote. A control character below U+0020 is an error (strict
  mode); an escape for a code point above U+00FF is outside the model's alphabet.
\<close>

fun scan_string :: "string \<Rightarrow> string \<Rightarrow> (string \<times> string) res" where
  "scan_string acc [] = Inl JSONDecodeError"
| "scan_string acc (c # cs) =
     (if c = CHR 0x22 then Inr (rev acc, cs)
      else if c = CHR 0x5C then
        (case cs of
           [] \<Rightarrow> Inl JSONDecodeError
         | e # rest \<Rightarrow>
             (if e = CHR ''u'' then
                (case hex4_val rest of
                   None \<Rightarrow> Inl JSONDecodeError
                 | Some n \<Rightarrow>
                     if n < 256 then scan_string (char_of n # acc) (drop 4 rest)
                     else Inl UnrepresentableChar)
              else
                (case simple_escape e of
                   None \<Rightarrow> Inl JSONDecodeError
                 | Some d \<Rightarrow> scan_string (d # acc) rest)))
      else if cp c < 32 then Inl JSONDecodeError
      else scan_string (c # acc) cs)"

section \<open>Numbers\<close>

text \<open>
  \<open>-?(0|[1-9][0-9]*)(\.[0-9]+)?([eE][-+]?[0-9]+)?\<close>, matched greedily with the
  C scanner's backtracking: a \<open>.\<close> not followed by a digit and an exponent without
  digits are left unread. A match with neither fraction nor exponent is an \<open>int\<close>,
  any other a \<open>float\<close> (kept as its literal).
\<close>

definition digits_val :: "string \<Rightarrow> nat" where
  "digits_val ds = foldl (\<lambda>n c. 10 * n + (cp c - 48)) 0 ds"

definition scan_int_part :: "string \<Rightarrow> (string \<times> string) option" where
  "scan_int_part s =
     (case s of
        [] \<Rightarrow> None
      | c # r \<Rightarrow>
          if c = CHR ''0'' then Some (''0'', r)
          else if is_digit c then Some (c # takeWhile is_digit r, dropWhile is_digit r)
          else None)"

definition scan_frac :: "string \<Rightarrow> string \<times> string" where
  "scan_frac s =
     (case s of
        c # d # r \<Rightarrow>
          if c = CHR ''.'' \<and> is_digit d
          then (c # d # takeWhile is_digit r, dropWhile is_digit r) else ([], s)
      | _ \<Rightarrow> ([], s))"

definition scan_exp :: "string \<Rightarrow> string \<times> string" where
  "scan_exp s =
     (case s of
        e # r \<Rightarrow>
          if e = CHR ''e'' \<or> e = CHR ''E'' then
            (let (sg, r') = (case r of
                               c # r'' \<Rightarrow> if c = CHR ''+'' \<or> c = CHR ''-'' then ([c], r'') else ([], r)
                             | [] \<Rightarrow> ([], r));
                 ds = takeWhile is_digit r'
             in if ds = [] then ([], s) else (e # sg @ ds, dropWhile is_digit r'))
          else ([], s)
      | [] \<Rightarrow> ([], s))"

definition scan_sign :: "string \<Rightarrow> bool \<times> string" where
  "scan_sign s = (case s of c # r \<Rightarrow> if c = CHR ''-'' then (True, r) else (False, s) | [] \<Rightarrow> (False, s))"

definition number_value :: "bool \<Rightarrow> string \<Rightarrow> string \<Rightarrow> string \<Rightarrow> json" where
  "number_value neg ip fr ex =
     (if fr = [] \<and> ex = []
      then JInt (if neg then - int (digits_val ip) else int (digits_val ip))
      else JFloat ((if neg then ''-'' else []) @ ip @ fr @ ex))"

definition scan_number :: "string \<Rightarrow> (json \<times> string) option" where
  "scan_number s =
     (case scan_sign s of
        (neg, s1) \<Rightarrow>
          (case scan_int_part s1 of
             None \<Rightarrow> None
           | Some (ip, s2) \<Rightarrow>
               (case scan_frac s2 of
                  (fr, s3) \<Rightarrow> (case scan_exp s3 of (ex, s4) \<Rightarrow> Some (number_value neg ip fr ex, s4)))))"

section \<open>Values, objects and arrays\<close>

text \<open>
  One scanner with fuel, in five modes: \<open>Value\<close> reads one value at the start of its
  input (\<open>scan_once_unicode\<close>); \<open>Object\<close> and \<open>Array\<close> start after the opening
  bracket; \<open>Members d\<close> and \<open>Items acc\<close> are the loops of
  \<open>_parse_object_unicode\<close> and \<open>_parse_array_unicode\<close>, with the members read so
  far. A repeated key replaces the earlier value in place, as \<open>PyDict_SetItem\<close> does.
\<close>

text \<open>The keywords \<open>null\<close>, \<open>true\<close>, \<open>false\<close>, \<open>NaN\<close>, \<open>Infinity\<close>,
  \<open>-Infinity\<close>, and otherwise a number: the cases of \<open>scan_once_unicode\<close> that do
  not recurse.\<close>

definition scan_literal :: "string \<Rightarrow> (json \<times> string) res" where
  "scan_literal s =
     (if take 4 s = ''null'' then Inr (JNull, drop 4 s)
      else if take 4 s = ''true'' then Inr (JBool True, drop 4 s)
      else if take 5 s = ''false'' then Inr (JBool False, drop 5 s)
      else if take 3 s = ''NaN'' then Inr (JFloat ''nan'', drop 3 s)
      else if take 8 s = ''Infinity'' then Inr (JFloat ''inf'', drop 8 s)
      else if take 9 s = ''-Infinity'' then Inr (JFloat ''-inf'', drop 9 s)
      else (case scan_number s of None \<Rightarrow> Inl JSONDecodeError | Some vr \<Rightarrow> Inr vr))"

datatype scan_mode =
    Value
  | Object
  | Members "(string \<times> json) list"
  | Array
  | Items "json list"

fun scan :: "nat \<Rightarrow> scan_mode \<Rightarrow> string \<Rightarrow> (json \<times> string) res" where
  "scan 0 m s = Inl FuelExhausted"
| "scan (Suc f) Value s =
     (case s of
        [] \<Rightarrow> Inl JSONDecodeError
      | c # r \<Rightarrow>
          if c = CHR 0x22 then res_bind (scan_string [] r) (\<lambda>(str, r'). Inr (JStr str, r'))
          else if c = CHR ''{'' then scan f Object r
          else if c = CHR ''['' then scan f Array r
          else scan_literal s)"
| "scan (Suc f) Object s =
     (case skip_ws s of
        c # r \<Rightarrow> if c = CHR ''}'' then Inr (JObj [], r) else scan f (Members []) (skip_ws s)
      | [] \<Rightarrow> scan f (Members []) [])"
| "scan (Suc f) (Members d) s =
     (case s of
        [] \<Rightarrow> Inl JSONDecodeError
      | q # r \<Rightarrow>
          if q \<noteq> CHR 0x22 then Inl JSONDecodeError
          else res_bind (scan_string [] r) (\<lambda>(k, r1).
            case skip_ws r1 of
              [] \<Rightarrow> Inl JSONDecodeError
            | col # r2 \<Rightarrow>
                if col \<noteq> CHR '':'' then Inl JSONDecodeError
                else res_bind (scan f Value (skip_ws r2)) (\<lambda>(v, r3).
                  case skip_ws r3 of
                    [] \<Rightarrow> Inl JSONDecodeError
                  | c # r4 \<Rightarrow>
                      if c = CHR ''}'' then Inr (JObj (dict_set d k v), r4)
                      else if c = CHR '','' then scan f (Members (dict_set d k v)) (skip_ws r4)
                      else Inl JSONDecodeError)))"
| "scan (Suc f) Array s =
     (case skip_ws s of
        c # r \<Rightarrow> if c = CHR '']'' then Inr (JArr [], r) else scan f (Items []) (skip_ws s)
      | [] \<Rightarrow> Inl JSONDecodeError)"
| "scan (Suc f) (Items acc) s =
     res_bind (scan f Value s) (\<lambda>(v, r).
       case skip_ws r of
         [] \<Rightarrow> Inl JSONDecodeError
       | c # r' \<Rightarrow>
           if c = CHR '']'' then Inr (JArr (acc @ [v]), r')
           else if c = CHR '','' then scan f (Items (acc @ [v])) (skip_ws r')
           else Inl JSONDecodeError)"

text \<open>\<open>json.loads(s)\<close> for a \<open>str\<close>: leading whitespace, one value, trailing
  whitespace, and nothing else (\<open>"Extra data"\<close>).\<close>

definition json_loads :: "string \<Rightarrow> json res" where
  "json_loads s =
     (let s1 = skip_ws s
      in res_bind (scan (3 * length s1 + 1) Value s1)
           (\<lambda>(v, r). if skip_ws r = [] then Inr v else Inl JSONDecodeError))"

text \<open>\<open>json.loads(x)\<close> on a Python value: only \<open>str\<close> is accepted (JSON documents
  hold no \<open>bytes\<close>); any other type raises \<open>TypeError\<close>.\<close>

definition py_json_loads :: "json \<Rightarrow> json res" where
  "py_json_loads x = (case x of JStr s \<Rightarrow> json_loads s | _ \<Rightarrow> Inl TypeError)"

section \<open>Termination of the scanner\<close>

text \<open>
  The fuel each mode needs: three units per input character, plus one or two for the
  bracket levels a mode is entered with. \<open>scan_ok s x\<close> says that \<open>x\<close> did not run
  out of fuel and that a success consumed at least one character of \<open>s\<close>.
\<close>

definition fuel_need :: "scan_mode \<Rightarrow> string \<Rightarrow> nat" where
  "fuel_need m s = 3 * length s +
     (case m of Value \<Rightarrow> 0 | Object \<Rightarrow> 2 | Array \<Rightarrow> 2 | Members _ \<Rightarrow> 1 | Items _ \<Rightarrow> 1)"

definition scan_ok :: "string \<Rightarrow> ('a \<times> string) res \<Rightarrow> bool" where
  "scan_ok s x \<longleftrightarrow> x \<noteq> Inl FuelExhausted \<and> (\<forall>v r. x = Inr (v, r) \<longrightarrow> length r < length s)"

abbreviation fuel_ih :: "nat \<Rightarrow> bool" where
  "fuel_ih f \<equiv> (\<forall>m s. fuel_need m s < f \<longrightarrow> scan_ok s (scan f m s))"

text \<open>The invariant of the loop modes: the members or items read so far are well formed.\<close>

definition mode_wf :: "scan_mode \<Rightarrow> bool" where
  "mode_wf m = (case m of Members d \<Rightarrow> distinct (map fst d) \<and> entries_wf d | Items acc \<Rightarrow> items_wf acc | _ \<Rightarrow> True)"

section \<open>Lemmas\<close>

subsection \<open>Every successful scan consumes input\<close>

lemma scan_string_rest: "scan_string acc s = Inr (k, r) \<Longrightarrow> length r < length s"
proof (induction acc s rule: scan_string.induct)
  case (1 acc)
  then show ?case by simp
next
  case (2 acc c cs)
  show ?case
  proof (cases "c = CHR 0x22 \<or> c = CHR 0x5C")
    case False
    with "2.prems" have "\<not> cp c < 32" and "scan_string (c # acc) cs = Inr (k, r)"
      by (simp_all split: if_splits)
    with False "2.IH"(3) show ?thesis by (simp add: less_SucI)
  next
    case True
    then show ?thesis
    proof
      assume "c = CHR 0x22"
      with "2.prems" show ?thesis by simp
    next
      assume bs: "c = CHR 0x5C"
      with "2.prems" obtain e rest where cs: "cs = e # rest" by (cases cs) auto
      show ?thesis
      proof (cases "e = CHR ''u''")
        case True
        with "2.prems" bs cs obtain n where "hex4_val rest = Some n" "n < 256"
          and "scan_string (char_of n # acc) (drop 4 rest) = Inr (k, r)"
          by (auto split: option.splits if_splits)
        with "2.IH"(1) bs cs True show ?thesis by fastforce
      next
        case False
        with "2.prems" bs cs obtain d where "simple_escape e = Some d"
          and "scan_string (d # acc) rest = Inr (k, r)"
          by (auto split: option.splits)
        with "2.IH"(2) bs cs False show ?thesis by fastforce
      qed
    qed
  qed
qed

lemma scan_string_no_fuel: "scan_string acc s \<noteq> Inl FuelExhausted"
  by (induction acc s rule: scan_string.induct) (auto split: list.splits option.splits)

lemma scan_sign_rest: "scan_sign s = (neg, r) \<Longrightarrow> length r \<le> length s"
  by (auto simp: scan_sign_def split: list.splits if_splits)

lemma scan_int_part_rest: "scan_int_part s = Some (ip, r) \<Longrightarrow> length r < length s"
  by (auto simp: scan_int_part_def le_imp_less_Suc length_dropWhile_le split: list.splits if_splits)

lemma scan_frac_rest: "scan_frac s = (fr, r) \<Longrightarrow> length r \<le> length s"
  by (auto simp: scan_frac_def le_SucI length_dropWhile_le split: list.splits if_splits)

lemma scan_exp_rest: "scan_exp s = (ex, r) \<Longrightarrow> length r \<le> length s"
  by (auto simp: scan_exp_def Let_def le_SucI length_dropWhile_le split: list.splits if_splits prod.splits)

lemma scan_number_rest: "scan_number s = Some (v, r) \<Longrightarrow> length r < length s"
  by (fastforce simp: scan_number_def split: prod.splits option.splits
        dest!: scan_sign_rest scan_int_part_rest scan_frac_rest scan_exp_rest)

subsection \<open>The scanner never runs out of fuel\<close>

lemma scan_ok_Inl [simp]: "scan_ok s (Inl e) \<longleftrightarrow> e \<noteq> FuelExhausted"
  by (simp add: scan_ok_def)

lemma scan_ok_Inr [simp]: "scan_ok s (Inr (v, r)) \<longleftrightarrow> length r < length s"
  by (simp add: scan_ok_def)

lemma scan_ok_mono: "scan_ok s x \<Longrightarrow> length s \<le> length t \<Longrightarrow> scan_ok t x"
  by (auto simp: scan_ok_def)

lemma scan_ok_bind:
  assumes "scan_ok t m" and "length t \<le> length s"
    and "\<And>v r. m = Inr (v, r) \<Longrightarrow> length r < length t \<Longrightarrow> scan_ok s (f (v, r))"
  shows "scan_ok s (res_bind m f)"
  using assms by (cases m) (auto simp: scan_ok_def)

lemma scan_string_ok: "scan_ok s (scan_string acc s)"
  using scan_string_no_fuel scan_string_rest by (auto simp: scan_ok_def)

lemma length_skip_ws: "length (skip_ws s) \<le> length s"
  by (rule length_dropWhile_le)

lemma drop_lit_shorter: "take n s = t \<Longrightarrow> t \<noteq> [] \<Longrightarrow> length (drop n s) < length s"
  by (cases s; cases n) auto

lemma scan_ok_literal_branch:
  "t \<noteq> [] \<Longrightarrow> scan_ok s x \<Longrightarrow> scan_ok s (if take n s = t then Inr (v, drop n s) else x)"
  by (auto dest: drop_lit_shorter)

lemma scan_literal_ok: "scan_ok s (scan_literal s)"
  unfolding scan_literal_def
  by (intro scan_ok_literal_branch) (auto split: option.splits dest: scan_number_rest)

text \<open>The loop continuation after a member or an item: a closing bracket ends the
  container, a comma continues it on a strictly shorter input.\<close>

lemma scan_ok_continue:
  assumes lr: "length r < length s"
    and k: "\<And>c r'. skip_ws r = c # r' \<Longrightarrow> length (skip_ws r') < length s \<Longrightarrow> scan_ok (skip_ws r') (k r')"
  shows "scan_ok s (case skip_ws r of [] \<Rightarrow> Inl JSONDecodeError
                   | c # r' \<Rightarrow> if c = close then Inr (w, r')
                               else if c = CHR '','' then k r' else Inl JSONDecodeError)"
proof (cases "skip_ws r")
  case Nil
  show ?thesis by (simp only: Nil list.case scan_ok_Inl) simp
next
  case (Cons c r')
  have "length r' < length r"
    using Cons length_skip_ws[of r] by simp
  moreover have "length (skip_ws r') \<le> length r'" by (rule length_skip_ws)
  ultimately have "length (skip_ws r') < length s" "length r' < length s" using lr by simp_all
  with Cons k[OF Cons] show ?thesis by (auto intro: scan_ok_mono)
qed

lemma scan_value_step:
  assumes ih: "fuel_ih f" and need: "fuel_need Value s < Suc f"
  shows "scan_ok s (scan (Suc f) Value s)"
proof (cases s)
  case Nil
  then show ?thesis by simp
next
  case (Cons c r)
  from need Cons have fr: "fuel_need Object r < f" "fuel_need Array r < f"
    by (simp_all add: fuel_need_def)
  consider (str) "c = CHR 0x22" | (obj) "c \<noteq> CHR 0x22" "c = CHR ''{''"
    | (arr) "c \<noteq> CHR 0x22" "c \<noteq> CHR ''{''" "c = CHR ''[''"
    | (other) "c \<noteq> CHR 0x22" "c \<noteq> CHR ''{''" "c \<noteq> CHR ''[''"
    by blast
  then show ?thesis
  proof cases
    case str
    have "scan_ok s (res_bind (scan_string [] r) (\<lambda>(str, r'). Inr (JStr str, r')))"
      by (rule scan_ok_bind [OF scan_string_ok]) (auto simp: Cons)
    with Cons str show ?thesis by simp
  next
    case obj
    from ih fr have "scan_ok r (scan f Object r)" by blast
    with Cons obj show ?thesis by (auto intro: scan_ok_mono)
  next
    case arr
    from ih fr have "scan_ok r (scan f Array r)" by blast
    with Cons arr show ?thesis by (auto intro: scan_ok_mono)
  next
    case other
    have "scan_ok s (scan_literal s)" by (rule scan_literal_ok)
    with Cons other show ?thesis by simp
  qed
qed

lemma scan_object_step:
  assumes ih: "fuel_ih f" and need: "fuel_need Object s < Suc f"
  shows "scan_ok s (scan (Suc f) Object s)"
proof (cases "skip_ws s")
  case Nil
  from need have "fuel_need (Members []) [] < f" by (simp add: fuel_need_def)
  with ih have "scan_ok [] (scan f (Members []) [])" by blast
  moreover have "scan (Suc f) Object s = scan f (Members []) []"
    by (simp only: scan.simps Nil list.case)
  ultimately show ?thesis by (auto intro: scan_ok_mono)
next
  case (Cons c r)
  have le: "length (skip_ws s) \<le> length s" by (rule length_skip_ws)
  with need have "fuel_need (Members []) (skip_ws s) < f" by (simp add: fuel_need_def)
  with ih have "scan_ok (skip_ws s) (scan f (Members []) (skip_ws s))" by blast
  with Cons le show ?thesis by (auto intro: scan_ok_mono)
qed

lemma scan_array_step:
  assumes ih: "fuel_ih f" and need: "fuel_need Array s < Suc f"
  shows "scan_ok s (scan (Suc f) Array s)"
proof (cases "skip_ws s")
  case Nil
  have "scan (Suc f) Array s = Inl JSONDecodeError"
    by (simp only: scan.simps Nil list.case)
  then show ?thesis by simp
next
  case (Cons c r)
  have le: "length (skip_ws s) \<le> length s" by (rule length_skip_ws)
  with need have "fuel_need (Items []) (skip_ws s) < f" by (simp add: fuel_need_def)
  with ih have "scan_ok (skip_ws s) (scan f (Items []) (skip_ws s))" by blast
  with Cons le show ?thesis by (auto intro: scan_ok_mono)
qed

lemma scan_items_step:
  assumes ih: "fuel_ih f" and need: "fuel_need (Items acc) s < Suc f"
  shows "scan_ok s (scan (Suc f) (Items acc) s)"
proof -
  from need have "fuel_need Value s < f" by (simp add: fuel_need_def)
  with ih have val: "scan_ok s (scan f Value s)" by blast
  have cont: "scan_ok t (scan f (Items xs) t)" if "length t < length s" for t xs
  proof -
    from that need have "fuel_need (Items xs) t < f" by (simp add: fuel_need_def)
    with ih show ?thesis by blast
  qed
  show ?thesis
    unfolding scan.simps
    by (rule scan_ok_bind [OF val order_refl]) (auto intro!: scan_ok_continue cont)
qed

lemma scan_members_step:
  assumes ih: "fuel_ih f" and need: "fuel_need (Members d) s < Suc f"
  shows "scan_ok s (scan (Suc f) (Members d) s)"
proof (cases s)
  case Nil
  then show ?thesis by simp
next
  case (Cons q r)
  have val: "scan_ok t (scan f Value t)" if "length t < length s" for t
  proof -
    from that need have "fuel_need Value t < f" by (simp add: fuel_need_def)
    with ih show ?thesis by blast
  qed
  have cont: "scan_ok t (scan f (Members d') t)" if "length t < length s" for t d'
  proof -
    from that need have "fuel_need (Members d') t < f" by (simp add: fuel_need_def)
    with ih show ?thesis by blast
  qed
  have after_key: "scan_ok s
      (case skip_ws r1 of [] \<Rightarrow> Inl JSONDecodeError
       | col # r2 \<Rightarrow>
           if col \<noteq> CHR '':'' then Inl JSONDecodeError
           else res_bind (scan f Value (skip_ws r2)) (\<lambda>(v, r3).
             case skip_ws r3 of [] \<Rightarrow> Inl JSONDecodeError
             | c # r4 \<Rightarrow>
                 if c = CHR ''}'' then Inr (JObj (dict_set d k v), r4)
                 else if c = CHR '','' then scan f (Members (dict_set d k v)) (skip_ws r4)
                 else Inl JSONDecodeError))"
    if r1: "length r1 < length s" for k r1
  proof (cases "skip_ws r1")
    case Nil
    show ?thesis by (simp only: Nil list.case scan_ok_Inl) simp
  next
    case (Cons col r2)
    have "length (skip_ws r2) < length s"
      using Cons r1 length_skip_ws[of r1] length_skip_ws[of r2] by simp
    then have "scan_ok (skip_ws r2) (scan f Value (skip_ws r2))" by (rule val)
    then have "scan_ok s (res_bind (scan f Value (skip_ws r2)) (\<lambda>(v, r3).
             case skip_ws r3 of [] \<Rightarrow> Inl JSONDecodeError
             | c # r4 \<Rightarrow>
                 if c = CHR ''}'' then Inr (JObj (dict_set d k v), r4)
                 else if c = CHR '','' then scan f (Members (dict_set d k v)) (skip_ws r4)
                 else Inl JSONDecodeError))"
      by (rule scan_ok_bind)
        (use \<open>length (skip_ws r2) < length s\<close> in \<open>auto intro!: scan_ok_continue cont\<close>)
    with Cons show ?thesis by simp
  qed
  show ?thesis
  proof (cases "q = CHR 0x22")
    case False
    with Cons show ?thesis by simp
  next
    case True
    have rl: "length r < length s" using Cons by simp
    have "scan_ok s (res_bind (scan_string [] r) (\<lambda>(k, r1).
      case skip_ws r1 of [] \<Rightarrow> Inl JSONDecodeError
       | col # r2 \<Rightarrow>
           if col \<noteq> CHR '':'' then Inl JSONDecodeError
           else res_bind (scan f Value (skip_ws r2)) (\<lambda>(v, r3).
             case skip_ws r3 of [] \<Rightarrow> Inl JSONDecodeError
             | c # r4 \<Rightarrow>
                 if c = CHR ''}'' then Inr (JObj (dict_set d k v), r4)
                 else if c = CHR '','' then scan f (Members (dict_set d k v)) (skip_ws r4)
                 else Inl JSONDecodeError)))"
      by (rule scan_ok_bind [OF scan_string_ok]) (use rl in \<open>auto intro!: after_key\<close>)
    with Cons True show ?thesis by simp
  qed
qed

theorem scan_fuel_enough: "fuel_need m s < f \<Longrightarrow> scan_ok s (scan f m s)"
proof (induction f arbitrary: m s)
  case 0
  then show ?case by simp
next
  case (Suc f)
  then have ih: "fuel_ih f" by blast
  from Suc.prems show ?case
    by (cases m) (auto simp del: scan.simps intro: scan_value_step [OF ih] scan_object_step [OF ih]
          scan_members_step [OF ih] scan_array_step [OF ih] scan_items_step [OF ih])
qed

subsection \<open>Decoded dicts have distinct keys\<close>

lemma scan_literal_wf: "scan_literal s = Inr (v, r) \<Longrightarrow> json_wf v"
  by (auto simp: scan_literal_def scan_number_def number_value_def split: if_splits option.splits prod.splits)

lemma members_inv:
  assumes "scan (Suc f) (Members d) s = Inr (v, r)"
  obtains r0 k r1 r2 v0 r3 c r4 where "s = CHR 0x22 # r0"
    and "scan_string [] r0 = Inr (k, r1)" and "skip_ws r1 = CHR '':'' # r2"
    and "scan f Value (skip_ws r2) = Inr (v0, r3)" and "skip_ws r3 = c # r4"
    and "(if c = CHR ''}'' then Inr (JObj (dict_set d k v0), r4)
          else if c = CHR '','' then scan f (Members (dict_set d k v0)) (skip_ws r4)
          else Inl JSONDecodeError) = Inr (v, r)"
proof -
  from assms obtain q r0 where s: "s = q # r0" by (cases s) auto
  with assms have q: "q = CHR 0x22" by (cases "q = CHR 0x22") auto
  from assms s q obtain k r1 where ks: "scan_string [] r0 = Inr (k, r1)"
    and h1: "(case skip_ws r1 of
              [] \<Rightarrow> Inl JSONDecodeError
            | col # r2 \<Rightarrow>
                if col \<noteq> CHR '':'' then Inl JSONDecodeError
                else res_bind (scan f Value (skip_ws r2)) (\<lambda>(v, r3).
                  case skip_ws r3 of
                    [] \<Rightarrow> Inl JSONDecodeError
                  | c # r4 \<Rightarrow>
                      if c = CHR ''}'' then Inr (JObj (dict_set d k v), r4)
                      else if c = CHR '','' then scan f (Members (dict_set d k v)) (skip_ws r4)
                      else Inl JSONDecodeError)) = Inr (v, r)"
    by (auto simp: res_bind_eq_Inr)
  obtain c0 r2 where col: "skip_ws r1 = c0 # r2"
    using h1 by (cases "skip_ws r1") (simp_all del: dropWhile_eq_Nil_conv dropWhile_eq_Cons_conv)
  with h1 have c0: "c0 = CHR '':''" by (cases "c0 = CHR '':''") (simp_all del: dropWhile_eq_Cons_conv)
  with h1 col obtain v0 r3 where sv: "scan f Value (skip_ws r2) = Inr (v0, r3)"
    and h2: "(case skip_ws r3 of
                    [] \<Rightarrow> Inl JSONDecodeError
                  | c # r4 \<Rightarrow>
                      if c = CHR ''}'' then Inr (JObj (dict_set d k v0), r4)
                      else if c = CHR '','' then scan f (Members (dict_set d k v0)) (skip_ws r4)
                      else Inl JSONDecodeError) = Inr (v, r)"
    by (auto simp: res_bind_eq_Inr simp del: dropWhile_eq_Cons_conv)
  obtain c r4 where cr: "skip_ws r3 = c # r4"
    using h2 by (cases "skip_ws r3") (simp_all del: dropWhile_eq_Nil_conv dropWhile_eq_Cons_conv)
  with h2 have "(if c = CHR ''}'' then Inr (JObj (dict_set d k v0), r4)
          else if c = CHR '','' then scan f (Members (dict_set d k v0)) (skip_ws r4)
          else Inl JSONDecodeError) = Inr (v, r)" by (simp del: dropWhile_eq_Cons_conv)
  with s q ks col c0 sv cr that show ?thesis by blast
qed

lemma scan_wf: "scan f m s = Inr (v, r) \<Longrightarrow> mode_wf m \<Longrightarrow> json_wf v"
proof (induction f m s arbitrary: v r rule: scan.induct)
  case (1 m s)
  then show ?case by simp
next
  case (2 f s)
  then show ?case
    by (auto simp: res_bind_eq_Inr mode_wf_def split: list.splits if_splits prod.splits dest: scan_literal_wf)
next
  case (3 f s)
  have m: "mode_wf (Members [])" by (simp add: mode_wf_def)
  show ?case
  proof (cases "skip_ws s")
    case Nil
    with "3.prems"(1) have "scan f (Members []) [] = Inr (v, r)" by (simp del: dropWhile_eq_Nil_conv)
    from "3.IH"(1) [OF Nil this m] show ?thesis .
  next
    case (Cons c r)
    with "3.prems" "3.IH"(2) m show ?thesis
      by (auto simp del: dropWhile_eq_Nil_conv dropWhile_eq_Cons_conv split: if_splits)
  qed
next
  case (4 f d s)
  from "4.prems"(1) obtain r0 k r1 r2 v0 r3 c r4 where s: "s = CHR 0x22 # r0"
    and ks: "scan_string [] r0 = Inr (k, r1)" and col: "skip_ws r1 = CHR '':'' # r2"
    and sv: "scan f Value (skip_ws r2) = Inr (v0, r3)" and cr: "skip_ws r3 = c # r4"
    and rest: "(if c = CHR ''}'' then Inr (JObj (dict_set d k v0), r4)
                else if c = CHR '','' then scan f (Members (dict_set d k v0)) (skip_ws r4)
                else Inl JSONDecodeError) = Inr (v, r)"
    by (rule members_inv)
  have wf0: "json_wf v0"
    using "4.IH"(1) [OF s _ ks refl col _ sv] by (simp add: mode_wf_def)
  have m: "mode_wf (Members (dict_set d k v0))"
    using "4.prems"(2) wf0 by (simp add: mode_wf_def entries_wf_dict_set)
  show ?case
  proof (cases "c = CHR ''}''")
    case True
    with rest m show ?thesis by (auto simp: mode_wf_def)
  next
    case False
    with rest have c: "c = CHR '',''" and sc: "scan f (Members (dict_set d k v0)) (skip_ws r4) = Inr (v, r)"
      by (auto split: if_splits)
    from "4.IH"(2) [OF s _ ks refl col _ sv refl cr False c sc m] show ?thesis by simp
  qed
next
  case (5 f s)
  have m: "mode_wf (Items [])" by (simp add: mode_wf_def)
  show ?case
  proof (cases "skip_ws s")
    case Nil
    with "5.prems" show ?thesis by (simp del: dropWhile_eq_Nil_conv)
  next
    case (Cons c r)
    with "5.prems" "5.IH" m show ?thesis
      by (auto simp del: dropWhile_eq_Nil_conv dropWhile_eq_Cons_conv split: if_splits)
  qed
next
  case (6 f acc s)
  from "6.prems"(1) obtain v0 r0 where sv: "scan f Value s = Inr (v0, r0)"
    and rest: "(case skip_ws r0 of [] \<Rightarrow> Inl JSONDecodeError
               | c # r' \<Rightarrow> if c = CHR '']'' then Inr (JArr (acc @ [v0]), r')
                          else if c = CHR '','' then scan f (Items (acc @ [v0])) (skip_ws r')
                          else Inl JSONDecodeError) = Inr (v, r)"
    by (auto simp: res_bind_eq_Inr simp del: dropWhile_eq_Nil_conv dropWhile_eq_Cons_conv)
  have wf0: "json_wf v0" using "6.IH"(1) [OF sv] by (simp add: mode_wf_def)
  show ?case
  proof (cases "skip_ws r0")
    case Nil
    with rest show ?thesis by (simp del: dropWhile_eq_Nil_conv)
  next
    case (Cons c r')
    show ?thesis
    proof (cases "c = CHR '']''")
      case True
      with rest Cons "6.prems"(2) wf0 show ?thesis
        by (auto simp: mode_wf_def simp del: dropWhile_eq_Nil_conv dropWhile_eq_Cons_conv)
    next
      case False
      with rest Cons have c: "c = CHR '',''" and sc: "scan f (Items (acc @ [v0])) (skip_ws r') = Inr (v, r)"
        by (auto split: if_splits simp del: dropWhile_eq_Nil_conv dropWhile_eq_Cons_conv)
      have "mode_wf (Items (acc @ [v0]))" using "6.prems"(2) wf0 by (simp add: mode_wf_def)
      from "6.IH"(2) [OF sv refl Cons False c sc this] show ?thesis .
    qed
  qed

qed

theorem json_loads_wf:
  assumes "json_loads s = Inr v"
  shows "json_wf v"
proof -
  from assms obtain r where "scan (3 * length (skip_ws s) + 1) Value (skip_ws s) = Inr (v, r)"
    by (auto simp: json_loads_def Let_def res_bind_eq_Inr split: if_splits simp del: scan.simps)
  then show ?thesis by (rule scan_wf) (simp add: mode_wf_def)
qed



end
