(* ===== verification/Json_Roundtrip.thy ===== *)
theory Json_Roundtrip
  imports Json_Decode Lambda
begin

text \<open>
  \<open>json.loads\<close> inverts \<open>json.dumps\<close>: for every value without a finite float,
  decoding the encoder's output gives the value back. The handlers rely on it twice:
  every response body and every webhook payload is \<open>json.dumps\<close> of a dict, read by a
  JSON client on the other side; and a client builds its request bodies with it. Finite floats are excluded because the model keeps a
  float as its literal text and does not compute \<open>float.__repr__\<close>.
\<close>

section \<open>Definitions\<close>

text \<open>The values the round trip covers: no finite float (\<open>nan\<close> and the infinities
  are written as \<open>NaN\<close> and \<open>Infinity\<close> and read back), and dicts with distinct keys
  at every depth, as every Python dict has.\<close>

fun dumpable :: "json \<Rightarrow> bool"
and items_dumpable :: "json list \<Rightarrow> bool"
and entries_dumpable :: "(string \<times> json) list \<Rightarrow> bool" where
  "dumpable (JFloat t) = (t = ''nan'' \<or> t = ''inf'' \<or> t = ''-inf'')"
| "dumpable (JArr xs) = items_dumpable xs"
| "dumpable (JObj d) = (distinct (map fst d) \<and> entries_dumpable d)"
| "dumpable JNull = True"
| "dumpable (JBool b) = True"
| "dumpable (JInt n) = True"
| "dumpable (JStr s) = True"
| "items_dumpable [] = True"
| "items_dumpable (x # xs) = (dumpable x \<and> items_dumpable xs)"
| "entries_dumpable [] = True"
| "entries_dumpable ((k, v) # d) = (dumpable v \<and> entries_dumpable d)"

text \<open>What may follow a value inside a document the encoder wrote: the end, a
  separator or a closing bracket.\<close>

definition json_stop :: "string \<Rightarrow> bool" where
  "json_stop r \<longleftrightarrow> (case r of [] \<Rightarrow> True | c # _ \<Rightarrow> c = CHR '','' \<or> c = CHR '']'' \<or> c = CHR ''}'')"

section \<open>Lemmas\<close>

subsection \<open>Strings\<close>

lemma hex4_val_hex4: "n < 256 \<Longrightarrow> hex4_val (hex4 n @ r) = Some n"
proof -
  assume n: "n < 256"
  then have "n div 16 mod 16 = n div 16" "n div 256 = 0" "n div 4096 = 0" by simp_all
  moreover have "n div 16 * 16 + n mod 16 = n" by simp
  ultimately show ?thesis by (simp add: hex4_def)
qed

lemma length_hex4: "length (hex4 n) = 4"
  by (simp add: hex4_def)

lemma scan_string_escape:
  "scan_string acc (json_escape c @ r) = scan_string (c # acc) r"
proof -
  consider (plain) "32 \<le> cp c \<and> cp c \<le> 126 \<and> c \<noteq> CHR 0x5C \<and> c \<noteq> CHR 0x22"
    | (quote) "c = CHR 0x22" | (bsl) "c = CHR 0x5C"
    | (named) "c \<in> {CHR 0x08, CHR 0x0C, CHR 0x0A, CHR 0x0D, CHR 0x09}"
    | (hex) "\<not> (32 \<le> cp c \<and> cp c \<le> 126)" "c \<notin> {CHR 0x22, CHR 0x5C, CHR 0x08, CHR 0x0C, CHR 0x0A, CHR 0x0D, CHR 0x09}"
    by force
  then show ?thesis
  proof cases
    case plain
    then have "c \<noteq> CHR 0x22" "c \<noteq> CHR 0x5C" "\<not> cp c < 32" by auto
    with plain show ?thesis by (simp add: json_escape_def)
  next
    case quote
    then show ?thesis by (simp add: json_escape_def simple_escape_def)
  next
    case bsl
    then show ?thesis by (simp add: json_escape_def simple_escape_def)
  next
    case named
    then show ?thesis by (auto simp: json_escape_def simple_escape_def)
  next
    case hex
    have lt: "cp c < 256" by simp
    from hex have "json_escape c = CHR 0x5C # CHR ''u'' # hex4 (cp c)"
      by (auto simp: json_escape_def)
    with lt show ?thesis by (simp add: hex4_val_hex4 length_hex4)
  qed
qed

lemma scan_string_json_str:
  "scan_string acc (concat (map json_escape s) @ CHR 0x22 # r) = Inr (rev acc @ s, r)"
  by (induction s arbitrary: acc) (simp_all add: scan_string_escape)

subsection \<open>Integers\<close>

lemma json_stop_not_digit: "json_stop r \<Longrightarrow> takeWhile is_digit r = [] \<and> dropWhile is_digit r = r"
  by (cases r) (auto simp: json_stop_def is_digit_def)

lemma digits_val_snoc: "digits_val (xs @ [c]) = 10 * digits_val xs + (cp c - 48)"
  by (simp add: digits_val_def)

lemma digits_val_nat_to_str: "digits_val (nat_to_str m) = m"
proof (induction m rule: nat_to_str.induct)
  case (1 m)
  show ?case
  proof (cases "m < 10")
    case True
    then show ?thesis by (simp add: nat_to_str.simps [of m] digits_val_def of_char_of)
  next
    case False
    have "cp (char_of (48 + m mod 10) :: char) = 48 + m mod 10" by (simp add: of_char_of)
    with False "1.IH" show ?thesis
      by (simp add: nat_to_str.simps [of m] digits_val_snoc)
  qed
qed

lemma nat_to_str_hd:
  "0 < m \<Longrightarrow> \<exists>c ds. nat_to_str m = c # ds \<and> c \<noteq> CHR ''0''"
proof (induction m rule: nat_to_str.induct)
  case (1 m)
  show ?case
  proof (cases "m < 10")
    case True
    have cpeq: "cp (char_of (48 + m) :: char) = 48 + m" using True by (simp add: of_char_of)
    have "char_of (48 + m) \<noteq> (CHR ''0'' :: char)"
    proof
      assume "char_of (48 + m) = (CHR ''0'' :: char)"
      then have "cp (char_of (48 + m) :: char) = 48" by simp
      with cpeq "1.prems" show False by simp
    qed
    with True show ?thesis by (simp add: nat_to_str.simps [of m])
  next
    case False
    then have "0 < m div 10" by simp
    with "1.IH" False obtain c ds where "nat_to_str (m div 10) = c # ds" "c \<noteq> CHR ''0''" by blast
    with False show ?thesis by (simp add: nat_to_str.simps [of m])
  qed
qed

lemma char_of_48: "char_of (48 :: nat) = CHR ''0''"
  by code_simp

lemma scan_int_part_nat:
  assumes "json_stop r"
  shows "scan_int_part (nat_to_str m @ r) = Some (nat_to_str m, r)"
proof (cases "m = 0")
  case True
  then show ?thesis by (simp add: nat_to_str.simps [of 0] scan_int_part_def char_of_48)
next
  case False
  then obtain c ds where m: "nat_to_str m = c # ds" and c: "c \<noteq> CHR ''0''"
    using nat_to_str_hd by blast
  have dig: "\<forall>x\<in>set (c # ds). is_digit x" using nat_to_str_digits m by metis
  then have "takeWhile is_digit (ds @ r) = ds" "dropWhile is_digit (ds @ r) = r"
    using json_stop_not_digit [OF assms] by (simp_all add: takeWhile_append2 dropWhile_append2)
  with m c dig show ?thesis by (simp add: scan_int_part_def)
qed

lemma scan_frac_stop: "json_stop r \<Longrightarrow> scan_frac r = ([], r)"
  by (auto simp: json_stop_def scan_frac_def split: list.splits)

lemma scan_exp_stop: "json_stop r \<Longrightarrow> scan_exp r = ([], r)"
  by (auto simp: json_stop_def scan_exp_def split: list.splits)

lemma scan_number_int:
  assumes "json_stop r"
  shows "scan_number (int_to_str n @ r) = Some (JInt n, r)"
proof (cases "n < 0")
  case True
  then show ?thesis
    using assms by (simp add: int_to_str_def scan_number_def scan_sign_def scan_int_part_nat scan_frac_stop
                              scan_exp_stop number_value_def digits_val_nat_to_str)
next
  case False
  obtain c ds where m: "nat_to_str (nat n) = c # ds" and "is_digit c"
    using nat_to_str_nonempty nat_to_str_digits by (metis list.exhaust list.set_intros(1))
  then have "c \<noteq> CHR ''-''" by (auto simp: is_digit_def)
  from scan_int_part_nat [OF assms, of "nat n"] m
  have "scan_int_part (c # ds @ r) = Some (c # ds, r)" by simp
  moreover from digits_val_nat_to_str [of "nat n"] m have "digits_val (c # ds) = nat n" by simp
  ultimately show ?thesis using False m assms \<open>c \<noteq> CHR ''-''\<close>
    by (simp add: int_to_str_def scan_number_def scan_sign_def scan_frac_stop scan_exp_stop number_value_def)
qed

lemma int_to_str_Cons:
  "\<exists>c s. int_to_str n = c # s \<and> c \<notin> {CHR ''n'', CHR ''t'', CHR ''f'', CHR ''N'', CHR ''I'', CHR 0x22, CHR ''{'', CHR ''[''} \<and>
     (c = CHR ''-'' \<longrightarrow> (\<exists>d s'. s = d # s' \<and> d \<noteq> CHR ''I''))"
proof -
  have dg: "\<exists>d s'. nat_to_str m = d # s' \<and> is_digit d" for m
    using nat_to_str_nonempty nat_to_str_digits by (metis list.exhaust list.set_intros(1))
  show ?thesis
  proof (cases "n < 0")
    case True
    with dg [of "nat (- n)"] show ?thesis by (auto simp: int_to_str_def is_digit_def)
  next
    case False
    with dg [of "nat n"] show ?thesis by (auto simp: int_to_str_def is_digit_def)
  qed
qed

lemma scan_literal_int: "json_stop r \<Longrightarrow> scan_literal (int_to_str n @ r) = Inr (JInt n, r)"
  using int_to_str_Cons [of n] scan_number_int [of r n]
  by (auto simp: scan_literal_def)

subsection \<open>Values, arrays and objects\<close>

text \<open>Each part of the encoder's output is read back by the scanner mode that the
  decoder enters there, with the fuel the termination proof provides.\<close>

lemma json_dumps_hd:
  assumes "dumpable v"
  shows "\<exists>c s. json_dumps v = c # s \<and> \<not> json_ws c \<and> c \<noteq> CHR '']'' \<and> c \<noteq> CHR ''}''"
proof (cases v)
  case (JInt n)
  have dg: "\<exists>d s'. nat_to_str m = d # s' \<and> is_digit d" for m
    using nat_to_str_nonempty nat_to_str_digits by (metis list.exhaust list.set_intros(1))
  have sp: "\<not> json_ws d \<and> d \<noteq> CHR '']'' \<and> d \<noteq> CHR ''}''" if "is_digit d" for d
    using that by (auto simp: is_digit_def json_ws_def)
  show ?thesis
  proof (cases "n < 0")
    case True
    with JInt show ?thesis by (simp add: int_to_str_def json_ws_def)
  next
    case False
    from dg [of "nat n"] obtain d s' where "nat_to_str (nat n) = d # s'" "is_digit d" by blast
    with False JInt sp show ?thesis by (simp add: int_to_str_def)
  qed
next
  case (JFloat t)
  with assms show ?thesis by (auto simp: float_dumps_def json_ws_def)
next
  case (JStr s)
  then show ?thesis by (simp add: json_str_def json_ws_def)
qed (simp_all add: json_ws_def)

lemma skip_ws_dumps: "dumpable v \<Longrightarrow> skip_ws (json_dumps v @ r) = json_dumps v @ r"
  using json_dumps_hd [of v] by auto

lemma skip_ws_dumps_items:
  "items_dumpable (x # xs) \<Longrightarrow> skip_ws (dumps_items (x # xs) @ r) = dumps_items (x # xs) @ r"
  using json_dumps_hd [of x] by (cases xs) auto

lemma skip_ws_dumps_entries:
  "skip_ws (dumps_entries (kv # d) @ r) = dumps_entries (kv # d) @ r"
  by (cases kv; cases d) (auto simp: json_str_def json_ws_def)

lemma scan_dumps:
  "dumpable v \<Longrightarrow> json_stop r \<Longrightarrow> fuel_need Value (json_dumps v @ r) < f \<Longrightarrow>
     scan f Value (json_dumps v @ r) = Inr (v, r)"
  "xs \<noteq> [] \<Longrightarrow> items_dumpable xs \<Longrightarrow> fuel_need (Items acc) (dumps_items xs @ CHR '']'' # r) < f \<Longrightarrow>
     scan f (Items acc) (dumps_items xs @ CHR '']'' # r) = Inr (JArr (acc @ xs), r)"
  "d \<noteq> [] \<Longrightarrow> entries_dumpable d \<Longrightarrow> distinct (map fst (pre @ d)) \<Longrightarrow>
   fuel_need (Members pre) (dumps_entries d @ CHR ''}'' # r) < f \<Longrightarrow>
     scan f (Members pre) (dumps_entries d @ CHR ''}'' # r) = Inr (JObj (pre @ d), r)"
proof (induction v and xs and d arbitrary: r f and acc r f and pre r f
       rule: json_dumps_dumps_items_dumps_entries.induct)
  case 1
  then obtain f' where "f = Suc f'" by (cases f) (auto simp: fuel_need_def)
  then show ?case by (simp add: scan_literal_def)
next
  case (2 b)
  then obtain f' where "f = Suc f'" by (cases f) (auto simp: fuel_need_def)
  then show ?case by (cases b) (simp_all add: scan_literal_def)
next
  case (3 n)
  then obtain f' where f: "f = Suc f'" by (cases f) (auto simp: fuel_need_def)
  obtain c s where "int_to_str n = c # s" "c \<notin> {CHR 0x22, CHR ''{'', CHR ''[''}"
    using int_to_str_Cons [of n] by auto
  with f "3.prems"(2) show ?case by (simp add: scan_literal_int [symmetric])
next
  case (4 t)
  then obtain f' where "f = Suc f'" by (cases f) (auto simp: fuel_need_def)
  with "4.prems"(1) show ?case by (auto simp: float_dumps_def scan_literal_def)
next
  case (5 s)
  then obtain f' where "f = Suc f'" by (cases f) (auto simp: fuel_need_def)
  then show ?case by (simp add: json_str_def scan_string_json_str)
next
  case (6 xs)
  then obtain f' where f: "f = Suc (Suc f')"
    by (cases f; cases "f - 1") (auto simp: fuel_need_def)
  show ?case
  proof (cases xs)
    case Nil
    with f show ?thesis by (simp add: json_ws_def)
  next
    case (Cons x xs')
    let ?S = "dumps_items xs @ CHR '']'' # r"
    have sk: "skip_ws ?S = ?S"
      using skip_ws_dumps_items [of x xs' "CHR '']'' # r"] "6.prems"(1) Cons by simp
    from json_dumps_hd [of x] "6.prems"(1) Cons obtain c s where "dumps_items xs = c # s" "c \<noteq> CHR '']''"
      by (cases xs') auto
    then have hd: "\<exists>s'. ?S = c # s' \<and> c \<noteq> CHR '']''" by simp
    have "fuel_need (Items []) ?S < f'"
      using "6.prems"(3) f by (simp add: fuel_need_def)
    then have "scan f' (Items []) ?S = Inr (JArr xs, r)"
      using "6.IH" "6.prems"(1) Cons by simp
    with f sk hd Cons show ?thesis by auto
  qed
next
  case (7 d)
  then obtain f' where f: "f = Suc (Suc f')"
    by (cases f; cases "f - 1") (auto simp: fuel_need_def)
  show ?case
  proof (cases d)
    case Nil
    with f show ?thesis by (simp add: json_ws_def)
  next
    case (Cons kv d')
    let ?S = "dumps_entries d @ CHR ''}'' # r"
    have sk: "skip_ws ?S = ?S"
      using skip_ws_dumps_entries [of kv d' "CHR ''}'' # r"] Cons by simp
    obtain k v where kv: "kv = (k, v)" by (cases kv)
    have hd: "\<exists>s'. ?S = CHR 0x22 # s'"
      using Cons kv by (cases d') (auto simp: json_str_def)
    have "fuel_need (Members []) ?S < f'"
      using "7.prems"(3) f by (simp add: fuel_need_def)
    then have "scan f' (Members []) ?S = Inr (JObj d, r)"
      using "7.IH" "7.prems"(1) Cons by simp
    with f sk hd Cons show ?thesis by auto
  qed
next
  case 8
  then show ?case by simp
next
  case (9 x)
  then obtain f' where f: "f = Suc f'" by (cases f) (auto simp: fuel_need_def)
  have "json_stop (CHR '']'' # r)" by (simp add: json_stop_def)
  moreover have "fuel_need Value (json_dumps x @ CHR '']'' # r) < f'"
    using "9.prems"(3) f by (simp add: fuel_need_def)
  ultimately have "scan f' Value (json_dumps x @ CHR '']'' # r) = Inr (x, CHR '']'' # r)"
    using "9.IH" "9.prems"(2) by simp
  with f show ?case by (simp add: json_ws_def)
next
  case (10 x v va)
  then obtain f' where f: "f = Suc f'" by (cases f) (auto simp: fuel_need_def)
  let ?T = "dumps_items (v # va) @ CHR '']'' # r"
  have "json_stop ('', '' @ ?T)" by (simp add: json_stop_def)
  moreover have "fuel_need Value (json_dumps x @ '', '' @ ?T) < f'"
    using "10.prems"(3) f by (simp add: fuel_need_def)
  ultimately have sx: "scan f' Value (json_dumps x @ '', '' @ ?T) = Inr (x, '', '' @ ?T)"
    using "10.IH"(1) "10.prems"(2) by simp
  have sk: "skip_ws ?T = ?T"
    using skip_ws_dumps_items [of v va "CHR '']'' # r"] "10.prems"(2) by simp
  have "fuel_need (Items (acc @ [x])) ?T < f'"
    using "10.prems"(3) f by (simp add: fuel_need_def)
  then have "scan f' (Items (acc @ [x])) ?T = Inr (JArr ((acc @ [x]) @ v # va), r)"
    using "10.IH"(2) "10.prems"(2) by simp
  with f sx sk show ?case by (simp add: json_ws_def)
next
  case 11
  then show ?case by simp
next
  case (12 k v)
  then obtain f' where f: "f = Suc f'" by (cases f) (auto simp: fuel_need_def)
  have "json_stop (CHR ''}'' # r)" by (simp add: json_stop_def)
  moreover have "fuel_need Value (json_dumps v @ CHR ''}'' # r) < f'"
    using "12.prems"(4) f by (simp add: fuel_need_def json_str_def)
  ultimately have sv: "scan f' Value (json_dumps v @ CHR ''}'' # r) = Inr (v, CHR ''}'' # r)"
    using "12.IH" "12.prems"(2) by simp
  have sk: "skip_ws (json_dumps v @ CHR ''}'' # r) = json_dumps v @ CHR ''}'' # r"
    using skip_ws_dumps "12.prems"(2) by simp
  from "12.prems"(3) have "dict_set pre k v = pre @ [(k, v)]" by (simp add: dict_set_new)
  with f sv sk show ?case by (simp add: json_str_def scan_string_json_str json_ws_def)
next
  case (13 k v va vb)
  then obtain f' where f: "f = Suc f'" by (cases f) (auto simp: fuel_need_def)
  let ?T = "dumps_entries (va # vb) @ CHR ''}'' # r"
  have "json_stop ('', '' @ ?T)" by (simp add: json_stop_def)
  moreover have "fuel_need Value (json_dumps v @ '', '' @ ?T) < f'"
    using "13.prems"(4) f by (simp add: fuel_need_def json_str_def)
  ultimately have sv: "scan f' Value (json_dumps v @ '', '' @ ?T) = Inr (v, '', '' @ ?T)"
    using "13.IH"(1) "13.prems"(2) by simp
  have sk: "skip_ws (json_dumps v @ '', '' @ ?T) = json_dumps v @ '', '' @ ?T"
    using skip_ws_dumps "13.prems"(2) by simp
  have skT: "skip_ws ?T = ?T" by (rule skip_ws_dumps_entries)
  from "13.prems"(3) have ds: "dict_set pre k v = pre @ [(k, v)]" by (simp add: dict_set_new)
  have "fuel_need (Members (pre @ [(k, v)])) ?T < f'"
    using "13.prems"(4) f by (simp add: fuel_need_def json_str_def)
  moreover have "distinct (map fst ((pre @ [(k, v)]) @ va # vb))"
    using "13.prems"(3) by simp
  ultimately have "scan f' (Members (pre @ [(k, v)])) ?T = Inr (JObj ((pre @ [(k, v)]) @ va # vb), r)"
    using "13.IH"(2) [of "pre @ [(k, v)]" r f'] "13.prems"(2) by simp
  with f sv sk skT ds show ?case by (simp add: json_str_def scan_string_json_str json_ws_def)
qed

lemma loads_dumps: "dumpable v \<Longrightarrow> json_loads (json_dumps v) = Inr v"
proof -
  assume v: "dumpable v"
  have stop: "json_stop []" by (simp add: json_stop_def)
  have "fuel_need Value (json_dumps v @ []) < 3 * length (json_dumps v) + 1"
    by (simp add: fuel_need_def)
  from scan_dumps(1) [OF v stop this] skip_ws_dumps [OF v, of "[]"]
  show ?thesis by (simp add: json_loads_def)
qed

section \<open>Properties\<close>

text \<open>
  C19. Every response body the three record handlers return decodes, on the client's
  side, to exactly \<open>{"message": m}\<close>, whatever characters the message holds (a
  user id with quotes, backslashes or control characters included).
\<close>

theorem message_response_decodes:
  "json_loads (resp_body (message_response code m)) = Inr (JObj [(''message'', JStr m)])"
  using loads_dumps [of "JObj [(''message'', JStr m)]"] by (simp add: message_response_def)

theorem message_response_decodes_witness:
  "json_loads (resp_body (message_response 201 (''User '' @ ''a\"b'' @ '' created''))) =
     Inr (JObj [(''message'', JStr ''User a\"b created'')])"
  by (simp add: message_response_decodes)

end
