(* ===== verification/Dynamo.thy ===== *)
theory Dynamo
  imports Json Dynamo_Reserved
begin

text \<open>
  The key-value store behind the three record handlers: the table the handlers reach
  through \<open>boto3.resource('dynamodb').Table(os.environ['TABLE_NAME'])\<close>. The model has
  two layers, as the program has. The client layer is boto3's \<open>TypeSerializer\<close>, which
  turns Python values into DynamoDB attribute values before any request is sent, and
  raises \<open>TypeError\<close> for a \<open>float\<close> and a trapped \<open>decimal\<close> signal
  (\<open>decimal_error\<close>) for an integer of more than 38 digits. The service layer is DynamoDB's handling of \<open>PutItem\<close>,
  \<open>DeleteItem\<close> and \<open>UpdateItem\<close> against a table whose key schema is the string
  attribute \<open>id\<close> (spec, section 6): requests are validated first, and a rejected
  request raises and leaves the store as it was. The service state is a map from table
  names to tables, a table a map from key strings to items, an item a map from attribute
  names to attribute values.
\<close>

section \<open>Attribute values and the store\<close>

datatype attr =
    AS string
  | AN int
  | ABOOL bool
  | ANULL
  | AL "attr list"
  | AM "(string \<times> attr) list"

type_synonym item = "string \<rightharpoonup> attr"
type_synonym table = "string \<rightharpoonup> item"
type_synonym db = "string \<rightharpoonup> table"

text \<open>The table's partition key: attribute \<open>id\<close> of type \<open>S\<close>.\<close>

definition key_attr :: string where
  "key_attr = ''id''"

section \<open>boto3's TypeSerializer and TypeDeserializer\<close>

text \<open>Number of decimal digits of an integer's magnitude: boto3's decimal context has
  precision 38 and traps \<open>Rounded\<close>.\<close>

definition dec_digits :: "int \<Rightarrow> nat" where
  "dec_digits n = length (nat_to_str (nat \<bar>n\<bar>))"

text \<open>
  The exception \<open>DYNAMODB_CONTEXT.create_decimal(n)\<close> raises for an integer of more
  than 38 digits (boto3 \<open>types.py\<close>: \<open>Context(Emin=-128, Emax=126, prec=38,
  traps=[Clamped, Overflow, Inexact, Rounded, Underflow])\<close>, rounding
  \<open>ROUND_HALF_EVEN\<close>). The coefficient is cut to its first 38 digits \<open>q\<close>, the
  \<open>e\<close> digits dropped are \<open>r\<close>; rounding up a \<open>q\<close> of 38 nines carries into one
  more digit. CPython raises the first trapped signal in the order Overflow (adjusted
  exponent above \<open>Emax\<close>), Inexact (a dropped digit is not zero), Rounded.
\<close>

definition decimal_error :: "int \<Rightarrow> exn" where
  "decimal_error n =
     (let m = nat \<bar>n\<bar>; e = dec_digits n - 38; q = m div 10 ^ e; r = m mod 10 ^ e;
          up = (10 ^ e < 2 * r \<or> 2 * r = 10 ^ e \<and> odd q);
          adj = dec_digits n - 1 + (if up \<and> q + 1 = 10 ^ 38 then 1 else 0)
      in if 126 < adj then DecimalOverflow else if r \<noteq> 0 then DecimalInexact else DecimalRounded)"

text \<open>
  \<open>TypeSerializer.serialize\<close>, in its order of type tests: \<open>None\<close>, \<open>bool\<close>, number,
  string, then maps and lists element by element. A \<open>float\<close> raises \<open>TypeError\<close>
  ("Float types are not supported. Use Decimal types instead.").
\<close>

fun serialize :: "json \<Rightarrow> attr res"
and serialize_list :: "json list \<Rightarrow> attr list res"
and serialize_map :: "(string \<times> json) list \<Rightarrow> (string \<times> attr) list res" where
  "serialize JNull = Inr ANULL"
| "serialize (JBool b) = Inr (ABOOL b)"
| "serialize (JInt n) = (if 38 < dec_digits n then Inl (decimal_error n) else Inr (AN n))"
| "serialize (JFloat t) = Inl TypeError"
| "serialize (JStr s) = Inr (AS s)"
| "serialize (JArr xs) = res_bind (serialize_list xs) (\<lambda>as. Inr (AL as))"
| "serialize (JObj d) = res_bind (serialize_map d) (\<lambda>m. Inr (AM m))"
| "serialize_list [] = Inr []"
| "serialize_list (x # xs) =
     res_bind (serialize x) (\<lambda>a. res_bind (serialize_list xs) (\<lambda>as. Inr (a # as)))"
| "serialize_map [] = Inr []"
| "serialize_map ((k, v) # d) =
     res_bind (serialize v) (\<lambda>a. res_bind (serialize_map d) (\<lambda>m. Inr ((k, a) # m)))"

text \<open>\<open>TypeDeserializer.deserialize\<close>: a number comes back as a \<open>Decimal\<close>, which the
  model writes as the integer it equals.\<close>

fun deserialize :: "attr \<Rightarrow> json"
and deserialize_list :: "attr list \<Rightarrow> json list"
and deserialize_map :: "(string \<times> attr) list \<Rightarrow> (string \<times> json) list" where
  "deserialize (AS s) = JStr s"
| "deserialize (AN n) = JInt n"
| "deserialize (ABOOL b) = JBool b"
| "deserialize ANULL = JNull"
| "deserialize (AL as) = JArr (deserialize_list as)"
| "deserialize (AM m) = JObj (deserialize_map m)"
| "deserialize_list [] = []"
| "deserialize_list (a # as) = deserialize a # deserialize_list as"
| "deserialize_map [] = []"
| "deserialize_map ((k, a) # m) = (k, deserialize a) # deserialize_map m"

text \<open>The values \<open>TypeSerializer\<close> accepts: no \<open>float\<close> anywhere and no integer of
  more than 38 digits.\<close>

fun storable :: "json \<Rightarrow> bool"
and storable_list :: "json list \<Rightarrow> bool"
and storable_map :: "(string \<times> json) list \<Rightarrow> bool" where
  "storable (JInt n) = (dec_digits n \<le> 38)"
| "storable (JFloat t) = False"
| "storable (JArr xs) = storable_list xs"
| "storable (JObj d) = storable_map d"
| "storable _ = True"
| "storable_list [] = True"
| "storable_list (x # xs) = (storable x \<and> storable_list xs)"
| "storable_map [] = True"
| "storable_map ((k, v) # d) = (storable v \<and> storable_map d)"

section \<open>Key validation\<close>

text \<open>The service's check of a key attribute value against the key schema: present,
  of type \<open>S\<close>, and not empty.\<close>

definition key_value :: "attr option \<Rightarrow> string res" where
  "key_value a =
     (case a of
        Some (AS k) \<Rightarrow> if k = [] then Inl ValidationException else Inr k
      | _ \<Rightarrow> Inl ValidationException)"

section \<open>PutItem, GetItem and DeleteItem\<close>

text \<open>
  \<open>Table.put_item(Item=x)\<close>: botocore accepts only a dict for \<open>Item\<close>; the dict
  is serialized on the client; the service looks the table up, validates the key
  attribute and replaces the whole item under that key, whether or not one was there.
\<close>

definition put_item :: "db \<Rightarrow> string \<Rightarrow> json \<Rightarrow> db res" where
  "put_item st tn x =
     (case x of
        JObj d \<Rightarrow>
          res_bind (serialize_map d) (\<lambda>attrs.
            case st tn of
              None \<Rightarrow> Inl ResourceNotFoundException
            | Some t \<Rightarrow>
                res_bind (key_value (map_of attrs key_attr)) (\<lambda>k.
                  Inr (st(tn \<mapsto> t(k \<mapsto> map_of attrs)))))
      | _ \<Rightarrow> Inl ParamValidationError)"

text \<open>\<open>Table.get_item(Key={'id': k})\<close>, the read the spec's properties are stated
  with: the item under the key, if any.\<close>

definition get_item :: "db \<Rightarrow> string \<Rightarrow> string \<Rightarrow> item option res" where
  "get_item st tn k =
     (case st tn of
        None \<Rightarrow> Inl ResourceNotFoundException
      | Some t \<Rightarrow> res_bind (key_value (Some (AS k))) (\<lambda>k'. Inr (t k')))"

text \<open>An item as the Python program reads it back: every attribute deserialized.\<close>

definition item_view :: "item \<Rightarrow> (string \<rightharpoonup> json)" where
  "item_view it = (\<lambda>a. map_option deserialize (it a))"

text \<open>\<open>Table.delete_item(Key={'id': v})\<close>: unconditional; deleting an absent key
  succeeds and changes nothing.\<close>

definition delete_item :: "db \<Rightarrow> string \<Rightarrow> json \<Rightarrow> db res" where
  "delete_item st tn v =
     res_bind (serialize v) (\<lambda>a.
       case st tn of
         None \<Rightarrow> Inl ResourceNotFoundException
       | Some t \<Rightarrow> res_bind (key_value (Some a)) (\<lambda>k. Inr (st(tn \<mapsto> t(k := None)))))"

section \<open>UpdateItem\<close>

text \<open>
  Update expressions. The model reads the \<open>SET\<close> form the handler writes: the keyword
  \<open>SET\<close> (in any case) and a comma-separated list of actions \<open>name = :placeholder\<close>,
  tokens separated by optional whitespace. A name is a word of letters, digits and
  underscores that does not start with a digit and is not a reserved word; a placeholder
  is a colon and a non-empty word. Any other expression is rejected with a
  \<open>ValidationException\<close>: the store's full grammar (other clauses, document paths,
  functions, expression attribute names) is not modelled.
\<close>

datatype etoken = EWord string | EPlace string | EEq | EComma

definition expr_ws :: "char \<Rightarrow> bool" where
  "expr_ws c \<longleftrightarrow> c = CHR '' '' \<or> c = CHR 0x09 \<or> c = CHR 0x0A \<or> c = CHR 0x0D"

function lex_expr :: "string \<Rightarrow> etoken list res" where
  "lex_expr [] = Inr []"
| "lex_expr (c # cs) =
     (if expr_ws c then lex_expr cs
      else if c = CHR '','' then res_bind (lex_expr cs) (\<lambda>ts. Inr (EComma # ts))
      else if c = CHR ''='' then res_bind (lex_expr cs) (\<lambda>ts. Inr (EEq # ts))
      else if c = CHR '':'' then
        (if takeWhile ident_char cs = [] then Inl ValidationException
         else res_bind (lex_expr (dropWhile ident_char cs))
                (\<lambda>ts. Inr (EPlace (c # takeWhile ident_char cs) # ts)))
      else if ident_char c then
        res_bind (lex_expr (dropWhile ident_char cs))
          (\<lambda>ts. Inr (EWord (c # takeWhile ident_char cs) # ts))
      else Inl ValidationException)"
  by pat_completeness auto
termination
  by (relation "measure length") (auto simp: le_imp_less_Suc length_dropWhile_le)

fun parse_actions :: "etoken list \<Rightarrow> (string \<times> string) list res" where
  "parse_actions (EWord n # EEq # EPlace p # rest) =
     (case rest of
        [] \<Rightarrow> Inr [(n, p)]
      | EComma # ts \<Rightarrow> res_bind (parse_actions ts) (\<lambda>acts. Inr ((n, p) # acts))
      | _ \<Rightarrow> Inl ValidationException)"
| "parse_actions _ = Inl ValidationException"

definition parse_update_expr :: "string \<Rightarrow> (string \<times> string) list res" where
  "parse_update_expr e =
     res_bind (lex_expr e) (\<lambda>ts.
       case ts of
         EWord w # rest \<Rightarrow> if upper w = ''SET'' then parse_actions rest else Inl ValidationException
       | _ \<Rightarrow> Inl ValidationException)"

definition valid_placeholder :: "string \<Rightarrow> bool" where
  "valid_placeholder p \<longleftrightarrow>
     (case p of c # n \<Rightarrow> c = CHR '':'' \<and> n \<noteq> [] \<and> list_all ident_char n | [] \<Rightarrow> False)"

definition valid_name :: "string \<Rightarrow> bool" where
  "valid_name n \<longleftrightarrow> (case n of c # _ \<Rightarrow> \<not> is_digit c \<and> \<not> is_reserved n | [] \<Rightarrow> False)"

text \<open>
  The service's checks of a parsed update against its attribute values: every name is
  valid, no attribute is set twice (overlapping paths), the key attribute is not set,
  and the placeholders used are exactly the ones supplied (an undefined one and an
  unused one are both rejected).
\<close>

definition update_ok :: "(string \<times> string) list \<Rightarrow> (string \<times> attr) list \<Rightarrow> bool" where
  "update_ok acts vals \<longleftrightarrow>
     list_all (valid_name \<circ> fst) acts \<and> distinct (map fst acts) \<and>
     key_attr \<notin> set (map fst acts) \<and> set (map snd acts) = set (map fst vals)"

text \<open>The \<open>SET\<close> actions applied to an item, each attribute set to its placeholder's
  value.\<close>

definition apply_set :: "item \<Rightarrow> (string \<times> string) list \<Rightarrow> (string \<times> attr) list \<Rightarrow> item" where
  "apply_set it acts vals =
     foldl (\<lambda>it (n, p). case map_of vals p of Some a \<Rightarrow> it(n \<mapsto> a) | None \<Rightarrow> it) it acts"

text \<open>
  \<open>Table.update_item(Key={'id': v}, UpdateExpression=e, ExpressionAttributeValues=vs)\<close>.
  The client serializes the key value and the attribute values; the service rejects an
  empty \<open>ExpressionAttributeValues\<close>, malformed placeholders, an expression it cannot
  read and an update that fails \<open>update_ok\<close>, then looks up the table and validates the
  key. An absent item is created with its key attribute (update-on-missing-key creates
  the item), and the actions are applied to it.
\<close>

definition update_item :: "db \<Rightarrow> string \<Rightarrow> json \<Rightarrow> string \<Rightarrow> (string \<times> json) list \<Rightarrow> db res" where
  "update_item st tn v e vs =
     res_bind (serialize v) (\<lambda>ka.
       res_bind (serialize_map vs) (\<lambda>vals.
         if vals = [] then Inl ValidationException
         else if \<not> list_all (valid_placeholder \<circ> fst) vals then Inl ValidationException
         else res_bind (parse_update_expr e) (\<lambda>acts.
           if \<not> update_ok acts vals then Inl ValidationException
           else case st tn of
                  None \<Rightarrow> Inl ResourceNotFoundException
                | Some t \<Rightarrow>
                    res_bind (key_value (Some ka)) (\<lambda>k.
                      Inr (st(tn \<mapsto> t(k \<mapsto> apply_set (case t k of None \<Rightarrow> [key_attr \<mapsto> AS k]
                                                                | Some it \<Rightarrow> it) acts vals)))))))"

section \<open>Lemmas\<close>

subsection \<open>Serialization round trip\<close>

lemma serialize_roundtrip:
  "serialize v = Inr a \<Longrightarrow> deserialize a = v"
  "serialize_list xs = Inr as \<Longrightarrow> deserialize_list as = xs"
  "serialize_map d = Inr m \<Longrightarrow> deserialize_map m = d"
  by (induction v and xs and d arbitrary: a and as and m rule: serialize_serialize_list_serialize_map.induct)
     (auto simp: res_bind_eq_Inr split: if_splits)

lemma serialize_storable:
  "storable v \<longleftrightarrow> (\<exists>a. serialize v = Inr a)"
  "storable_list xs \<longleftrightarrow> (\<exists>as. serialize_list xs = Inr as)"
  "storable_map d \<longleftrightarrow> (\<exists>m. serialize_map d = Inr m)"
  by (induction v and xs and d rule: serialize_serialize_list_serialize_map.induct)
     (auto simp: res_bind_eq_Inr)

lemma serialize_map_keys: "serialize_map d = Inr m \<Longrightarrow> map fst m = map fst d"
  by (induction d arbitrary: m) (auto simp: res_bind_eq_Inr)

lemma deserialize_map_keys: "map fst (deserialize_map m) = map fst m"
  by (induction m) auto

lemma map_of_deserialize_map: "map_of (deserialize_map m) k = map_option deserialize (map_of m k)"
  by (induction m) auto

lemma item_view_serialize_map: "serialize_map d = Inr m \<Longrightarrow> item_view (map_of m) = map_of d"
  by (auto simp: item_view_def fun_eq_iff map_of_deserialize_map[symmetric] dest: serialize_roundtrip(3))

lemma serialize_AS: "serialize v = Inr (AS k) \<longleftrightarrow> v = JStr k"
  by (cases v) (auto simp: res_bind_eq_Inr)

lemma serialize_map_AS:
  assumes "serialize_map d = Inr m" and "map_of m n = Some (AS k)"
  shows "map_of d n = Some (JStr k)"
proof -
  from assms(2) have "map_of (deserialize_map m) n = Some (JStr k)"
    by (simp add: map_of_deserialize_map)
  then show ?thesis by (simp add: serialize_roundtrip(3) [OF assms(1)])
qed


lemma serialize_map_append:
  "serialize_map (pre @ post) = res_bind (serialize_map pre) (\<lambda>m1. res_bind (serialize_map post) (\<lambda>m2. Inr (m1 @ m2)))"
  by (induction pre) (auto simp: res_bind_def split: sum.splits)


subsection \<open>Successful requests\<close>

lemma key_value_Inr: "key_value a = Inr k \<longleftrightarrow> a = Some (AS k) \<and> k \<noteq> []"
  by (auto simp: key_value_def split: option.splits attr.splits if_splits)

lemma put_item_Inr:
  "put_item st tn x = Inr st' \<longleftrightarrow>
     (\<exists>d m t k. x = JObj d \<and> serialize_map d = Inr m \<and> st tn = Some t \<and>
        map_of m key_attr = Some (AS k) \<and> k \<noteq> [] \<and> st' = st(tn \<mapsto> t(k \<mapsto> map_of m)))"
  by (auto simp: put_item_def key_value_Inr res_bind_eq_Inr split: json.splits option.splits)

lemma delete_item_Inr:
  "delete_item st tn v = Inr st' \<longleftrightarrow>
     (\<exists>t k. v = JStr k \<and> k \<noteq> [] \<and> st tn = Some t \<and> st' = st(tn \<mapsto> t(k := None)))"
  by (auto simp: delete_item_def key_value_Inr res_bind_eq_Inr serialize_AS split: option.splits)

lemma deserialize_JStr: "deserialize a = JStr k \<longleftrightarrow> a = AS k"
  by (cases a) auto

lemma serialize_map_lookup:
  assumes "serialize_map d = Inr m" and "map_of d k = Some (JStr s)"
  shows "map_of m k = Some (AS s)"
proof -
  from assms have "map_option deserialize (map_of m k) = Some (JStr s)"
    by (simp add: map_of_deserialize_map[symmetric] serialize_roundtrip(3))
  then show ?thesis by (cases "map_of m k") (auto simp: deserialize_JStr)
qed

lemma get_item_Inr:
  "st tn = Some t \<Longrightarrow> k \<noteq> [] \<Longrightarrow> get_item st tn k = Inr (t k)"
  by (simp add: get_item_def key_value_def)

lemma key_value_Inl: "key_value a = Inl e \<Longrightarrow> e = ValidationException"
  by (auto simp: key_value_def split: option.splits attr.splits if_splits)

lemma put_item_bad_key:
  assumes ser: "serialize_map d = Inr m" and tbl: "st tn = Some t"
    and id: "map_of d key_attr = Some v" and bad: "\<not> (\<exists>k. v = JStr k \<and> k \<noteq> [])"
  shows "put_item st tn (JObj d) = Inl ValidationException"
proof -
  have "map_of (deserialize_map m) key_attr = Some v"
    using id serialize_roundtrip(3) [OF ser] by simp
  then obtain a where a: "map_of m key_attr = Some a" and "deserialize a = v"
    by (auto simp: map_of_deserialize_map)
  with bad have "\<not> (\<exists>k. key_value (map_of m key_attr) = Inr k)"
    by (auto simp: key_value_Inr)
  then obtain e where "key_value (map_of m key_attr) = Inl e"
    by (cases "key_value (map_of m key_attr)") auto
  with ser tbl show ?thesis
    by (auto simp: put_item_def dest: key_value_Inl)
qed

subsection \<open>Numbers\<close>

lemma dec_digits_eq:
  assumes "10 ^ k \<le> nat \<bar>n\<bar>" and "nat \<bar>n\<bar> < 10 ^ Suc k"
  shows "dec_digits n = Suc k"
proof -
  have le: "dec_digits n \<le> Suc k"
    using assms(2) nat_to_str_length_le [of "nat \<bar>n\<bar>" k] by (simp add: dec_digits_def)
  have "\<not> dec_digits n \<le> k"
  proof (cases k)
    case 0
    then show ?thesis by (simp add: dec_digits_def)
  next
    case (Suc j)
    with assms(1) nat_to_str_length_le [of "nat \<bar>n\<bar>" j] show ?thesis
      by (simp add: dec_digits_def)
  qed
  with le show ?thesis by simp
qed
lemma storable_JInt: "storable (JInt n) \<longleftrightarrow> \<bar>n\<bar> < 10 ^ 38"
proof -
  have "dec_digits n \<le> 38 \<longleftrightarrow> nat \<bar>n\<bar> < 10 ^ 38"
    using nat_to_str_length_le [of "nat \<bar>n\<bar>" 37] by (simp add: dec_digits_def)
  also have "\<dots> \<longleftrightarrow> \<bar>n\<bar> < 10 ^ 38" by (simp add: nat_less_iff)
  finally show ?thesis by simp
qed

end
