(* ===== verification/Create_User.thy ===== *)
theory Create_User
  imports Lambda Json_Roundtrip Dynamo
begin

text \<open>
  \<open>src/lambda/create_user.py\<close>, \<open>lambda_handler\<close>: decode the request body, read its
  \<open>id\<close>, store the whole body with \<open>put_item\<close>, answer 201. Every exception of the
  source is a value \<open>Inl e\<close> of the result, and the store is then the one the call
  started with (the only write is the last action before the return).
\<close>

definition create_user :: "string \<Rightarrow> json \<Rightarrow> db \<Rightarrow> api_response res \<times> db" where
  "create_user tn event st =
     (case res_bind (py_getitem event ''body'') py_json_loads of
        Inl e \<Rightarrow> (Inl e, st)
      | Inr body \<Rightarrow>
          (case py_getitem body ''id'' of
             Inl e \<Rightarrow> (Inl e, st)
           | Inr user_id \<Rightarrow>
               (case put_item st tn body of
                  Inl e \<Rightarrow> (Inl e, st)
                | Inr st' \<Rightarrow>
                    (Inr (message_response 201 (''User '' @ py_str user_id @ '' created'')), st'))))"

text \<open>The module as the Lambda runtime loads it: lines 5-6 run once per process,
  before the first invocation (\<open>table_init\<close>, which fails with \<open>KeyError\<close>
  when \<open>TABLE_NAME\<close> is unset), then every invocation calls \<open>lambda_handler\<close>
  with the table they bound. The environment is fixed for a process, so running the
  initialisation before each invocation gives the same results.\<close>

definition create_user_module :: "env \<Rightarrow> json \<Rightarrow> db \<Rightarrow> api_response res \<times> db" where
  "create_user_module e event st =
     (case table_init e of
        Inl err \<Rightarrow> (Inl err, st)
      | Inr tn \<Rightarrow> create_user tn event st)"

section \<open>Lemmas\<close>

lemma create_user_Inl: "create_user tn event st = (Inl e, st') \<Longrightarrow> st' = st"
  by (auto simp: create_user_def split: sum.splits)

lemma create_user_Inr:
  "create_user tn event st = (Inr r, st') \<longleftrightarrow>
     (\<exists>body user_id. res_bind (py_getitem event ''body'') py_json_loads = Inr body \<and>
        py_getitem body ''id'' = Inr user_id \<and> put_item st tn body = Inr st' \<and>
        r = message_response 201 (''User '' @ py_str user_id @ '' created''))"
  by (auto simp: create_user_def split: sum.splits)

lemma create_user_put:
  assumes body: "py_getitem event ''body'' = Inr (JStr b)" and dec: "json_loads b = Inr (JObj d)"
    and id: "map_of d ''id'' = Some (JStr k)" and ne: "k \<noteq> []"
    and ser: "serialize_map d = Inr m" and tbl: "st tn = Some t"
  shows "create_user tn event st =
           (Inr (message_response 201 (''User '' @ k @ '' created'')), st(tn \<mapsto> t(k \<mapsto> map_of m)))"
proof -
  from ser id have key: "map_of m key_attr = Some (AS k)"
    by (simp add: key_attr_def serialize_map_lookup)
  have put: "put_item st tn (JObj d) = Inr (st(tn \<mapsto> t(k \<mapsto> map_of m)))"
    using ser tbl key ne by (simp add: put_item_Inr)
  show ?thesis
    using body dec id put by (simp add: create_user_def py_json_loads_def)
qed

lemma serialize_map_float:
  "\<forall>(n, x)\<in>set d. storable x \<or> (\<exists>f. x = JFloat f) \<Longrightarrow> \<exists>n f. (n, JFloat f) \<in> set d \<Longrightarrow>
   serialize_map d = Inl TypeError"
proof (induction d)
  case Nil
  then show ?case by simp
next
  case (Cons p d)
  obtain n x where p: "p = (n, x)" by (cases p)
  show ?case
  proof (cases "\<exists>f. x = JFloat f")
    case True
    with p show ?thesis by auto
  next
    case False
    with Cons.prems p obtain a where "serialize x = Inr a"
      by (auto simp: serialize_storable(1))
    moreover from False Cons.prems p have "serialize_map d = Inl TypeError"
      by (intro Cons.IH) auto
    ultimately show ?thesis using p by simp
  qed
qed

text \<open>
  C1. A request whose body decodes to a dict \<open>R\<close> with a non-empty string \<open>id\<close>
  \<open>k\<close> and values the serializer accepts is answered with 201 and the message
  "User k created", and a read of \<open>k\<close> afterwards returns a record equal to \<open>R\<close>
  (spec, section 8, property 1).
\<close>

theorem create_user_then_get:
  assumes body: "py_getitem event ''body'' = Inr (JStr b)" and dec: "json_loads b = Inr (JObj d)"
    and id: "map_of d ''id'' = Some (JStr k)" and ne: "k \<noteq> []"
    and sto: "storable_map d" and tbl: "st tn = Some t"
  shows "\<exists>st' it. create_user tn event st = (Inr (message_response 201 (''User '' @ k @ '' created'')), st')
           \<and> get_item st' tn k = Inr (Some it) \<and> item_view it = map_of d"
proof -
  from sto obtain m where ser: "serialize_map d = Inr m"
    using serialize_storable(3) by blast
  let ?st' = "st(tn \<mapsto> t(k \<mapsto> map_of m))"
  have "create_user tn event st = (Inr (message_response 201 (''User '' @ k @ '' created'')), ?st')"
    by (rule create_user_put [where st = st and tn = tn, OF body dec id ne ser tbl])
  moreover have "get_item ?st' tn k = Inr (Some (map_of m))"
    using ne by (simp add: get_item_Inr)
  moreover have "item_view (map_of m) = map_of d"
    using ser by (rule item_view_serialize_map)
  ultimately show ?thesis by blast
qed

theorem create_user_then_get_witness:
  "\<exists>st' it. create_user ''Users'' (JObj [(''body'', JStr ''{\"id\": \"u1\", \"age\": 30}'')])
               [''Users'' \<mapsto> Map.empty]
             = (Inr (message_response 201 (''User '' @ ''u1'' @ '' created'')), st')
           \<and> get_item st' ''Users'' ''u1'' = Inr (Some it)
           \<and> item_view it = map_of [(''id'', JStr ''u1''), (''age'', JInt 30)]"
proof -
  have dec: "json_loads ''{\"id\": \"u1\", \"age\": 30}'' = Inr (JObj [(''id'', JStr ''u1''), (''age'', JInt 30)])"
    by code_simp
  have sto: "storable_map [(''id'', JStr ''u1''), (''age'', JInt 30)]"
    by code_simp
  show ?thesis
    by (rule create_user_then_get [OF _ dec _ _ sto]) simp_all
qed

text \<open>
  C14. Creating twice with the same \<open>id\<close> leaves the table holding only the second
  version under that key, and every other record as it was: the write is an
  unconditional overwrite (spec, section 8, property 2).
\<close>

theorem create_user_overwrites:
  assumes body1: "py_getitem ev1 ''body'' = Inr (JStr b1)" and dec1: "json_loads b1 = Inr (JObj d1)"
    and id1: "map_of d1 ''id'' = Some (JStr k)" and sto1: "storable_map d1"
    and body2: "py_getitem ev2 ''body'' = Inr (JStr b2)" and dec2: "json_loads b2 = Inr (JObj d2)"
    and id2: "map_of d2 ''id'' = Some (JStr k)" and sto2: "storable_map d2"
    and ne: "k \<noteq> []" and tbl: "st tn = Some t"
  shows "\<exists>st1 st2 it.
           create_user tn ev1 st = (Inr (message_response 201 (''User '' @ k @ '' created'')), st1) \<and>
           create_user tn ev2 st1 = (Inr (message_response 201 (''User '' @ k @ '' created'')), st2) \<and>
           st2 = st(tn \<mapsto> t(k \<mapsto> it)) \<and> item_view it = map_of d2"
proof -
  from sto1 obtain m1 where ser1: "serialize_map d1 = Inr m1"
    using serialize_storable(3) by blast
  from sto2 obtain m2 where ser2: "serialize_map d2 = Inr m2"
    using serialize_storable(3) by blast
  let ?st1 = "st(tn \<mapsto> t(k \<mapsto> map_of m1))"
  have c1: "create_user tn ev1 st = (Inr (message_response 201 (''User '' @ k @ '' created'')), ?st1)"
    by (rule create_user_put [where st = st and tn = tn, OF body1 dec1 id1 ne ser1 tbl])
  have "?st1 tn = Some (t(k \<mapsto> map_of m1))" by simp
  from create_user_put [where st = ?st1 and tn = tn, OF body2 dec2 id2 ne ser2 this]
  have c2: "create_user tn ev2 ?st1 =
              (Inr (message_response 201 (''User '' @ k @ '' created'')), st(tn \<mapsto> t(k \<mapsto> map_of m2)))"
    by simp
  from c1 c2 item_view_serialize_map [OF ser2] show ?thesis by blast
qed

theorem create_user_overwrites_witness:
  "\<exists>st1 st2 it.
     create_user ''Users'' (JObj [(''body'', JStr ''{\"id\": \"u1\", \"age\": 30}'')]) [''Users'' \<mapsto> Map.empty] =
       (Inr (message_response 201 (''User '' @ ''u1'' @ '' created'')), st1) \<and>
     create_user ''Users'' (JObj [(''body'', JStr ''{\"id\": \"u1\", \"city\": \"Oslo\"}'')]) st1 =
       (Inr (message_response 201 (''User '' @ ''u1'' @ '' created'')), st2) \<and>
     st2 = [''Users'' \<mapsto> Map.empty](''Users'' \<mapsto> Map.empty(''u1'' \<mapsto> it)) \<and>
     item_view it = map_of [(''id'', JStr ''u1''), (''city'', JStr ''Oslo'')]"
proof -
  have dec1: "json_loads ''{\"id\": \"u1\", \"age\": 30}'' = Inr (JObj [(''id'', JStr ''u1''), (''age'', JInt 30)])"
    by code_simp
  have sto1: "storable_map [(''id'', JStr ''u1''), (''age'', JInt 30)]"
    by code_simp
  have dec2: "json_loads ''{\"id\": \"u1\", \"city\": \"Oslo\"}'' = Inr (JObj [(''id'', JStr ''u1''), (''city'', JStr ''Oslo'')])"
    by code_simp
  have sto2: "storable_map [(''id'', JStr ''u1''), (''city'', JStr ''Oslo'')]"
    by code_simp
  show ?thesis
    by (rule create_user_overwrites [OF _ dec1 _ sto1 _ dec2 _ sto2]) simp_all
qed

text \<open>
  C8. A body with a fractional number (a Python \<open>float\<close> from \<open>json.loads\<close>) is
  never stored: boto3's serializer accepts only \<open>Decimal\<close> for numbers and raises
  \<open>TypeError\<close>, which the handler does not catch, so the request fails and the store
  is unchanged.
\<close>

theorem create_user_float_rejected:
  assumes body: "py_getitem event ''body'' = Inr (JStr b)" and dec: "json_loads b = Inr (JObj d)"
    and id: "map_of d ''id'' = Some v"
    and vals: "\<forall>(n, x)\<in>set d. storable x \<or> (\<exists>f. x = JFloat f)" and fl: "\<exists>n f. (n, JFloat f) \<in> set d"
  shows "create_user tn event st = (Inl TypeError, st)"
  using body dec id serialize_map_float [OF vals fl]
  by (simp add: create_user_def py_json_loads_def put_item_def)

theorem create_user_float_rejected_witness:
  "create_user ''Users'' (JObj [(''body'', JStr ''{\"id\": \"u1\", \"score\": 1.5}'')]) [''Users'' \<mapsto> Map.empty] =
     (Inl TypeError, [''Users'' \<mapsto> Map.empty])"
proof -
  have dec: "json_loads ''{\"id\": \"u1\", \"score\": 1.5}'' = Inr (JObj [(''id'', JStr ''u1''), (''score'', JFloat ''1.5'')])"
    by code_simp
  show ?thesis
    by (rule create_user_float_rejected [OF _ dec]) auto
qed

text \<open>
  C16. A body without an \<open>id\<close> field fails with \<open>KeyError('id')\<close> before any write.
\<close>

theorem create_user_missing_id:
  assumes "py_getitem event ''body'' = Inr (JStr b)" and "json_loads b = Inr (JObj d)"
    and "map_of d ''id'' = None"
  shows "create_user tn event st = (Inl (KeyError ''id''), st)"
  using assms by (simp add: create_user_def py_json_loads_def)

theorem create_user_missing_id_witness:
  "create_user ''Users'' (JObj [(''body'', JStr ''{\"name\": \"Bob\"}'')]) [''Users'' \<mapsto> Map.empty] =
     (Inl (KeyError ''id''), [''Users'' \<mapsto> Map.empty])"
proof -
  have dec: "json_loads ''{\"name\": \"Bob\"}'' = Inr (JObj [(''name'', JStr ''Bob'')])"
    by code_simp
  show ?thesis
    by (rule create_user_missing_id [OF _ dec]) simp_all
qed

text \<open>
  C25. A create body whose \<open>id\<close> is not a non-empty string (a number, a list, a
  dict, \<open>null\<close> or the empty string) is decoded and serialized, then rejected by
  the store's key-schema check with \<open>ValidationException\<close>; nothing is written. The
  handler reads \<open>body['id']\<close> without checking its type.
\<close>

theorem create_user_bad_key:
  assumes "py_getitem event ''body'' = Inr (JStr b)" and "json_loads b = Inr (JObj d)"
    and "map_of d ''id'' = Some v" and "\<not> (\<exists>k. v = JStr k \<and> k \<noteq> [])"
    and "storable_map d" and "st tn = Some t"
  shows "create_user tn event st = (Inl ValidationException, st)"
proof -
  from assms(5) obtain m where ser: "serialize_map d = Inr m"
    using serialize_storable(3) by blast
  from put_item_bad_key [where st = st and tn = tn, OF ser assms(6)] assms(3,4) have "put_item st tn (JObj d) = Inl ValidationException"
    by (simp add: key_attr_def)
  with assms(1-3) show ?thesis
    by (simp add: create_user_def py_json_loads_def py_getitem_def)
qed

theorem create_user_bad_key_witness:
  "create_user ''Users'' (JObj [(''body'', JStr ''{\"id\": 7, \"age\": 30}'')]) [''Users'' \<mapsto> Map.empty] =
     (Inl ValidationException, [''Users'' \<mapsto> Map.empty])"
proof -
  have dec: "json_loads ''{\"id\": 7, \"age\": 30}'' = Inr (JObj [(''id'', JInt 7), (''age'', JInt 30)])"
    by code_simp
  have sto: "storable_map [(''id'', JInt 7), (''age'', JInt 30)]"
    by code_simp
  show ?thesis
    by (rule create_user_bad_key [OF _ dec _ _ sto]) auto
qed

text \<open>
  C13. For a body that decodes to a dict \<open>R\<close> and an existing table, the request
  succeeds exactly when every value of \<open>R\<close> is one boto3's serializer accepts (no
  \<open>float\<close>, integers of at most 38 digits, at every depth) and \<open>R['id']\<close> is a
  non-empty string; otherwise it fails (with \<open>KeyError\<close>, \<open>TypeError\<close>, a \<open>decimal\<close> trap or
  \<open>ValidationException\<close>) and nothing is written. The service's checks that the
  model leaves out (an item of at most 400 KB, non-empty attribute names; see the
  header) are the exceptions to this equivalence.
\<close>

theorem create_user_ok_iff:
  assumes body: "py_getitem event ''body'' = Inr (JStr b)" and dec: "json_loads b = Inr (JObj d)"
    and tbl: "st tn = Some t"
  shows "(\<exists>r st'. create_user tn event st = (Inr r, st')) \<longleftrightarrow>
           storable_map d \<and> (\<exists>k. map_of d ''id'' = Some (JStr k) \<and> k \<noteq> [])"
proof
  assume "\<exists>r st'. create_user tn event st = (Inr r, st')"
  then obtain r st' where "create_user tn event st = (Inr r, st')" by blast
  with body dec obtain m t' k where ser: "serialize_map d = Inr m"
    and key: "map_of m key_attr = Some (AS k)" and ne: "k \<noteq> []"
    by (auto simp: create_user_Inr put_item_Inr py_json_loads_def)
  from serialize_map_AS [OF ser key] ser ne show "storable_map d \<and> (\<exists>k. map_of d ''id'' = Some (JStr k) \<and> k \<noteq> [])"
    by (auto simp: serialize_storable(3) key_attr_def)
next
  assume "storable_map d \<and> (\<exists>k. map_of d ''id'' = Some (JStr k) \<and> k \<noteq> [])"
  then obtain m k where ser: "serialize_map d = Inr m" and id: "map_of d ''id'' = Some (JStr k)"
    and ne: "k \<noteq> []" by (auto simp: serialize_storable(3))
  from create_user_put [where st = st and tn = tn, OF body dec id ne ser tbl]
  show "\<exists>r st'. create_user tn event st = (Inr r, st')" by blast
qed


theorem create_user_ok_iff_witness:
  "(\<exists>r st'. create_user ''Users'' (JObj [(''body'', JStr ''{\"id\": \"u1\", \"score\": 1.5}'')]) [''Users'' \<mapsto> Map.empty] = (Inr r, st')) \<longleftrightarrow>
     storable_map [(''id'', JStr ''u1''), (''score'', JFloat ''1.5'')] \<and>
     (\<exists>k. map_of [(''id'', JStr ''u1''), (''score'', JFloat ''1.5'')] ''id'' = Some (JStr k) \<and> k \<noteq> [])"
proof -
  have dec: "json_loads ''{\"id\": \"u1\", \"score\": 1.5}'' = Inr (JObj [(''id'', JStr ''u1''), (''score'', JFloat ''1.5'')])"
    by code_simp
  show ?thesis
    by (rule create_user_ok_iff [OF _ dec]) simp_all
qed


text \<open>
  C17. An integer of more than 38 digits in the body is never stored: boto3's decimal
  context (precision 38) raises the first trapped signal of the rounding, Overflow,
  Inexact or Rounded as \<open>decimal_error\<close> computes it, when the serializer reaches
  that value in dict order, and the handler lets it propagate with the store
  unchanged. For \<open>10^38 + 1\<close> this is \<open>decimal.Inexact\<close>.
\<close>

theorem create_user_big_int_rejected:
  assumes body: "py_getitem event ''body'' = Inr (JStr b)" and dec: "json_loads b = Inr (JObj d)"
    and id: "map_of d ''id'' = Some v"
    and split: "d = pre @ (n, JInt i) # post" and sto: "storable_map pre" and big: "38 < dec_digits i"
  shows "create_user tn event st = (Inl (decimal_error i), st)"
proof -
  from sto obtain m1 where "serialize_map pre = Inr m1" by (auto simp: serialize_storable(3))
  with split big have "serialize_map d = Inl (decimal_error i)"
    by (simp add: serialize_map_append)
  with body dec id show ?thesis
    by (simp add: create_user_def py_json_loads_def put_item_def)
qed


theorem create_user_big_int_rejected_witness:
  "create_user ''Users'' (JObj [(''body'', JStr (json_dumps (JObj [(''id'', JStr ''u1''), (''n'', JInt (10 ^ 38 + 1))])))])
     [''Users'' \<mapsto> Map.empty] = (Inl DecimalInexact, [''Users'' \<mapsto> Map.empty])"
proof -
  have dec: "json_loads (json_dumps (JObj [(''id'', JStr ''u1''), (''n'', JInt (10 ^ 38 + 1))])) =
               Inr (JObj [(''id'', JStr ''u1''), (''n'', JInt (10 ^ 38 + 1))])"
    by (rule loads_dumps) simp
  have dd: "dec_digits (10 ^ 38 + 1) = 39"
    using dec_digits_eq [where k = 38] by simp
  have "decimal_error (10 ^ 38 + 1) = DecimalInexact"
    using dd by (simp add: decimal_error_def Let_def)
  then show ?thesis
    using create_user_big_int_rejected [OF _ dec, where pre = "[(''id'', JStr ''u1'')]" and post = "[]"] dd
    by simp
qed

end
