(* ===== verification/Update_User.thy ===== *)
theory Update_User
  imports Lambda Json_Decode Dynamo
begin

text \<open>
  \<open>src/lambda/update_user.py\<close>, \<open>lambda_handler\<close>: read the id from the path
  parameters, decode the body, build an update expression \<open>"SET k = :k, ..."\<close> and
  the matching \<open>ExpressionAttributeValues\<close> in one loop over \<open>body.items()\<close>, strip
  the trailing separator with \<open>rstrip(", ")\<close>, call \<open>update_item\<close>, answer 200.
\<close>

text \<open>The loop of lines 14-16: the expression string and the placeholder dict, threaded
  through the items in order.\<close>

fun update_loop :: "(string \<times> json) list \<Rightarrow> string \<times> (string \<times> json) list \<Rightarrow> string \<times> (string \<times> json) list" where
  "update_loop [] acc = acc"
| "update_loop ((k, v) # kvs) (e, attrs) =
     update_loop kvs (e @ k @ '' = :'' @ k @ '', '', dict_set attrs (CHR '':'' # k) v)"

definition update_user :: "string \<Rightarrow> json \<Rightarrow> db \<Rightarrow> api_response res \<times> db" where
  "update_user tn event st =
     (case res_bind (py_getitem event ''pathParameters'') (\<lambda>pp. py_getitem pp ''id'') of
        Inl e \<Rightarrow> (Inl e, st)
      | Inr user_id \<Rightarrow>
          (case res_bind (res_bind (py_getitem event ''body'') py_json_loads) py_items of
             Inl e \<Rightarrow> (Inl e, st)
           | Inr items \<Rightarrow>
               (let (expr, attrs) = update_loop items (''SET '', []);
                    update_expression = py_rstrip '', '' expr
                in case update_item st tn user_id update_expression attrs of
                     Inl e \<Rightarrow> (Inl e, st)
                   | Inr st' \<Rightarrow>
                       (Inr (message_response 200 (''User '' @ py_str user_id @ '' updated'')), st'))))"


text \<open>The piece the loop appends for a key, and the keys for which the expression reads
  back as written: non-empty words of letters, digits and underscores.\<close>

definition set_piece :: "string \<Rightarrow> string" where
  "set_piece k = k @ '' = :'' @ k @ '', ''"

definition ident_word :: "string \<Rightarrow> bool" where
  "ident_word k \<longleftrightarrow> k \<noteq> [] \<and> list_all ident_char k"

text \<open>The module as the Lambda runtime loads it: lines 5-6 run once per process,
  before the first invocation (\<open>table_init\<close>, which fails with \<open>KeyError\<close>
  when \<open>TABLE_NAME\<close> is unset), then every invocation calls \<open>lambda_handler\<close>
  with the table they bound. The environment is fixed for a process, so running the
  initialisation before each invocation gives the same results.\<close>

definition update_user_module :: "env \<Rightarrow> json \<Rightarrow> db \<Rightarrow> api_response res \<times> db" where
  "update_user_module e event st =
     (case table_init e of
        Inl err \<Rightarrow> (Inl err, st)
      | Inr tn \<Rightarrow> update_user tn event st)"

section \<open>Lemmas\<close>

subsection \<open>The update expression reads back as the loop wrote it\<close>

lemma ident_char_special:
  "ident_char c \<Longrightarrow> \<not> expr_ws c \<and> c \<noteq> CHR '','' \<and> c \<noteq> CHR ''='' \<and> c \<noteq> CHR '':''"
  by (auto simp: ident_char_def is_alpha_def is_digit_def expr_ws_def)

lemma ident_char_sep [simp]:
  "\<not> ident_char (CHR '' '')" "\<not> ident_char (CHR '','')"
  by (simp_all add: ident_char_def is_alpha_def is_digit_def)

lemma takeWhile_ident_word:
  "list_all ident_char k \<Longrightarrow> \<not> ident_char c \<Longrightarrow> takeWhile ident_char (k @ c # r) = k"
  by (induction k) auto

lemma dropWhile_ident_word:
  "list_all ident_char k \<Longrightarrow> \<not> ident_char c \<Longrightarrow> dropWhile ident_char (k @ c # r) = c # r"
  by (induction k) auto

lemma lex_word:
  assumes "ident_word k" and "\<not> ident_char c"
  shows "lex_expr (k @ c # r) = res_bind (lex_expr (c # r)) (\<lambda>ts. Inr (EWord k # ts))"
proof -
  obtain c0 k' where k: "k = c0 # k'" using assms(1) by (cases k) (auto simp: ident_word_def)
  with assms have "ident_char c0" "list_all ident_char k'" by (auto simp: ident_word_def)
  with k assms(2) show ?thesis
    by (simp add: ident_char_special takeWhile_ident_word dropWhile_ident_word)
qed

lemma takeWhile_ident_all: "list_all ident_char k \<Longrightarrow> takeWhile ident_char k = k"
  by (induction k) auto

lemma dropWhile_ident_all: "list_all ident_char k \<Longrightarrow> dropWhile ident_char k = []"
  by (induction k) auto

lemma lex_piece:
  assumes "ident_word k"
  shows "lex_expr (set_piece k @ r) =
           res_bind (lex_expr r) (\<lambda>ts. Inr ([EWord k, EEq, EPlace (CHR '':'' # k), EComma] @ ts))"
proof -
  from assms have "k \<noteq> []" "list_all ident_char k" by (simp_all add: ident_word_def)
  with assms show ?thesis
    by (simp add: set_piece_def lex_word res_bind_assoc expr_ws_def takeWhile_ident_word dropWhile_ident_word)
qed

lemma lex_last:
  assumes "ident_word k"
  shows "lex_expr (k @ '' = :'' @ k) = Inr [EWord k, EEq, EPlace (CHR '':'' # k)]"
proof -
  from assms have "k \<noteq> []" "list_all ident_char k" by (simp_all add: ident_word_def)
  with assms show ?thesis
    by (simp add: lex_word res_bind_assoc expr_ws_def takeWhile_ident_all dropWhile_ident_all)
qed

lemma lex_pieces:
  assumes "\<forall>k\<in>set ks. ident_word k" and "ident_word kl"
  shows "lex_expr (concat (map set_piece ks) @ kl @ '' = :'' @ kl) =
           Inr (concat (map (\<lambda>k. [EWord k, EEq, EPlace (CHR '':'' # k), EComma]) ks) @
                [EWord kl, EEq, EPlace (CHR '':'' # kl)])"
  using assms(1)
proof (induction ks)
  case Nil
  from lex_last [OF assms(2)] show ?case by simp
next
  case (Cons k ks)
  then show ?case by (simp add: lex_piece)
qed

lemma parse_actions_pieces:
  "parse_actions (concat (map (\<lambda>k. [EWord k, EEq, EPlace (CHR '':'' # k), EComma]) ks) @
                  [EWord kl, EEq, EPlace p]) = Inr (map (\<lambda>k. (k, CHR '':'' # k)) ks @ [(kl, p)])"
  by (induction ks) auto

lemma lex_ws: "expr_ws c \<Longrightarrow> lex_expr (c # r) = lex_expr r"
  by simp

lemma ident_word_SET: "ident_word ''SET''"
  by (simp add: ident_word_def ident_char_def is_alpha_def)

lemma rstrip_pieces:
  assumes "ks \<noteq> []" and "\<forall>k\<in>set ks. ident_word k"
  shows "py_rstrip '', '' (p @ concat (map set_piece ks)) =
           p @ concat (map set_piece (butlast ks)) @ last ks @ '' = :'' @ last ks"
proof -
  obtain ks0 kl where ks: "ks = ks0 @ [kl]" using assms(1) by (cases ks rule: rev_cases) auto
  with assms(2) have "ident_word kl" by simp
  then obtain kb c where kl: "kl = kb @ [c]" and "ident_char c"
    by (cases kl rule: rev_cases) (auto simp: ident_word_def)
  then have "c \<notin> set '', ''" by auto
  then have "py_rstrip '', '' ((p @ concat (map set_piece ks0) @ kl @ '' = :'' @ kb) @ [c] @ '', '') =
               (p @ concat (map set_piece ks0) @ kl @ '' = :'' @ kb) @ [c]"
    by (intro py_rstrip_append_stop) auto
  with ks kl show ?thesis by (simp add: set_piece_def)
qed

lemma update_expr_parses:
  assumes "ks \<noteq> []" and "\<forall>k\<in>set ks. ident_word k"
  shows "parse_update_expr (py_rstrip '', '' (''SET '' @ concat (map set_piece ks))) =
           Inr (map (\<lambda>k. (k, CHR '':'' # k)) ks)"
proof -
  obtain ks0 kl where ks: "ks = ks0 @ [kl]" using assms(1) by (cases ks rule: rev_cases) auto
  with assms(2) have w: "\<forall>k\<in>set ks0. ident_word k" "ident_word kl" by simp_all
  let ?R = "concat (map set_piece ks0) @ kl @ '' = :'' @ kl"
  have l1: "lex_expr (''SET '' @ ?R) = res_bind (lex_expr (CHR '' '' # ?R)) (\<lambda>ts. Inr (EWord ''SET'' # ts))"
    using lex_word [OF ident_word_SET ident_char_sep(1), of ?R] by (simp only: append.simps)
  have l2: "lex_expr (CHR '' '' # ?R) = lex_expr ?R"
    by (rule lex_ws) (simp add: expr_ws_def)
  have "lex_expr (''SET '' @ ?R) =
          Inr (EWord ''SET'' # concat (map (\<lambda>k. [EWord k, EEq, EPlace (CHR '':'' # k), EComma]) ks0) @
               [EWord kl, EEq, EPlace (CHR '':'' # kl)])"
    by (simp only: l1 l2 lex_pieces [OF w] res_bind_Inr)
  moreover have "py_rstrip '', '' (''SET '' @ concat (map set_piece ks)) = ''SET '' @ ?R"
    using rstrip_pieces [OF assms, of "''SET ''"] ks by simp
  moreover have "upper ''SET'' = ''SET''"
    by (simp add: upper_def upper_char_def)
  ultimately show ?thesis
    using ks by (simp only: parse_update_expr_def res_bind_Inr list.case etoken.case if_True
      parse_actions_pieces map_append list.map refl)
qed

subsection \<open>The loop, the attribute values and the merge\<close>

lemma fst_update_loop: "fst (update_loop kvs (e, attrs)) = e @ concat (map (set_piece \<circ> fst) kvs)"
  by (induction kvs arbitrary: e attrs) (auto simp: set_piece_def)

lemma concat_set_piece_join:
  "ks \<noteq> [] \<Longrightarrow> concat (map set_piece ks) = py_join '', '' (map (\<lambda>k. k @ '' = :'' @ k) ks) @ '', ''"
proof (induction ks)
  case (Cons k ks)
  then show ?case by (cases ks) (auto simp: set_piece_def)
qed simp

lemma update_loop_eq:
  "distinct (map fst kvs) \<Longrightarrow> (\<forall>k\<in>set (map fst kvs). CHR '':'' # k \<notin> set (map fst attrs)) \<Longrightarrow>
   update_loop kvs (e, attrs) =
     (e @ concat (map (set_piece \<circ> fst) kvs), attrs @ map (\<lambda>(k, v). (CHR '':'' # k, v)) kvs)"
proof (induction kvs arbitrary: e attrs)
  case Nil
  then show ?case by simp
next
  case (Cons kv kvs)
  obtain k v where kv: "kv = (k, v)" by (cases kv)
  let ?attrs = "attrs @ [(CHR '':'' # k, v)]"
  from Cons.prems kv have set: "dict_set attrs (CHR '':'' # k) v = ?attrs"
    by (simp add: dict_set_new)
  from Cons.prems kv have "\<forall>k'\<in>set (map fst kvs). CHR '':'' # k' \<notin> set (map fst ?attrs)"
    by auto
  with Cons.prems kv have "update_loop kvs (e @ set_piece k, ?attrs) =
     (e @ set_piece k @ concat (map (set_piece \<circ> fst) kvs), ?attrs @ map (\<lambda>(k, v). (CHR '':'' # k, v)) kvs)"
    using Cons.IH by (simp add: comp_def)
  with set kv show ?case by (simp add: set_piece_def comp_def)
qed

lemma serialize_map_rename:
  "serialize_map (map (\<lambda>(k, v). (f k, v)) d) =
     res_bind (serialize_map d) (\<lambda>m. Inr (map (\<lambda>(k, a). (f k, a)) m))"
  by (induction d) (auto simp: res_bind_def split: sum.splits)

lemma apply_set_merge:
  assumes "distinct (map fst ps)" and "\<forall>(k, a)\<in>set ps. map_of vals (CHR '':'' # k) = Some a"
  shows "apply_set it (map (\<lambda>(k, a). (k, CHR '':'' # k)) ps) vals = it ++ map_of ps"
  using assms unfolding apply_set_def
proof (induction ps arbitrary: it)
  case Nil
  then show ?case by simp
next
  case (Cons p ps)
  obtain k a where p: "p = (k, a)" by (cases p)
  with Cons.prems have "map_of ps k = None" by (auto simp: map_of_eq_None_iff)
  then have "it(k \<mapsto> a) ++ map_of ps = it ++ map_of ((k, a) # ps)"
    by (auto simp: fun_eq_iff map_add_def split: option.splits)
  moreover from Cons.prems p have "map_of vals (CHR '':'' # k) = Some a" by simp
  ultimately show ?case using Cons p by (simp del: map_add_upd map_of.simps)
qed

lemma item_view_add: "item_view (a ++ b) = item_view a ++ item_view b"
  by (auto simp: item_view_def fun_eq_iff map_add_def split: option.splits)

lemma map_of_placeholders [simp]:
  "map_of (map (\<lambda>(k, a). (CHR '':'' # k, a)) m) (CHR '':'' # k) = map_of m k"
  by (induction m) auto

lemma item_view_key: "item_view [key_attr \<mapsto> AS k] = [key_attr \<mapsto> JStr k]"
  by (simp add: item_view_def fun_eq_iff)

lemma valid_placeholder_ident: "ident_word k \<Longrightarrow> valid_placeholder (CHR '':'' # k)"
  by (simp add: valid_placeholder_def ident_word_def)

text \<open>The service's side of an update the handler builds from a dict \<open>m\<close> of serialized
  values whose keys are plain attribute names: the item is merged with \<open>m\<close>.\<close>

lemma update_item_merge:
  assumes ne: "k \<noteq> []" and mne: "m \<noteq> []" and dist: "distinct (map fst m)"
    and names: "\<forall>n\<in>set (map fst m). ident_word n \<and> valid_name n \<and> n \<noteq> key_attr"
    and ser: "serialize_map vs = Inr (map (\<lambda>(k, a). (CHR '':'' # k, a)) m)"
    and tbl: "st tn = Some t"
  shows "update_item st tn (JStr k) (py_rstrip '', '' (''SET '' @ concat (map set_piece (map fst m)))) vs =
           Inr (st(tn \<mapsto> t(k \<mapsto> (case t k of None \<Rightarrow> [key_attr \<mapsto> AS k] | Some it \<Rightarrow> it) ++ map_of m)))"
proof -
  let ?vals = "map (\<lambda>(k, a). (CHR '':'' # k, a)) m"
  let ?acts = "map (\<lambda>(k, a). (k, CHR '':'' # k)) m"
  have acts: "map (\<lambda>k. (k, CHR '':'' # k)) (map fst m) = ?acts"
    by (induction m) auto
  have parse: "parse_update_expr (py_rstrip '', '' (''SET '' @ concat (map set_piece (map fst m)))) = Inr ?acts"
    using update_expr_parses [of "map fst m"] mne names acts by simp
  have vp: "list_all (valid_placeholder \<circ> fst) ?vals"
    using names by (auto simp: list_all_iff valid_placeholder_ident)
  have ok: "update_ok ?acts ?vals"
    using names dist by (auto simp: update_ok_def list_all_iff comp_def image_image case_prod_beta)
  have merge: "apply_set it ?acts ?vals = it ++ map_of m" for it
    by (rule apply_set_merge) (use dist in \<open>auto intro: map_of_is_SomeI\<close>)
  show ?thesis
    using ne mne ser tbl parse vp ok
    by (simp add: update_item_def merge key_value_def)
qed

lemma update_item_rejects:
  assumes mne: "m \<noteq> []" and dist: "distinct (map fst m)"
    and bad: "\<exists>n\<in>set (map fst m). \<not> (ident_word n \<and> valid_name n \<and> n \<noteq> key_attr)"
    and ser: "serialize_map vs = Inr (map (\<lambda>(k, a). (CHR '':'' # k, a)) m)"
  shows "update_item st tn (JStr k) (py_rstrip '', '' (''SET '' @ concat (map set_piece (map fst m)))) vs =
           Inl ValidationException"
proof (cases "\<forall>n\<in>set (map fst m). ident_word n")
  case True
  let ?acts = "map (\<lambda>(k, a). (k, CHR '':'' # k)) m"
  have acts: "map (\<lambda>k. (k, CHR '':'' # k)) (map fst m) = ?acts"
    by (induction m) auto
  have parse: "parse_update_expr (py_rstrip '', '' (''SET '' @ concat (map set_piece (map fst m)))) = Inr ?acts"
    using update_expr_parses [of "map fst m"] mne True acts by simp
  have "\<not> update_ok ?acts (map (\<lambda>(k, a). (CHR '':'' # k, a)) m)"
    using bad True by (force simp: update_ok_def list_all_iff key_attr_def case_prod_beta)
  with mne ser parse show ?thesis by (simp add: update_item_def)
next
  case False
  then have "\<not> list_all (valid_placeholder \<circ> fst) (map (\<lambda>(k, a). (CHR '':'' # k, a)) m)"
    by (force simp: list_all_iff valid_placeholder_def ident_word_def case_prod_beta)
  with mne ser show ?thesis by (simp add: update_item_def)
qed

lemma update_user_request:
  assumes "py_getitem event ''pathParameters'' = Inr pp" "py_getitem pp ''id'' = Inr (JStr k)"
    and "py_getitem event ''body'' = Inr (JStr b)" and "json_loads b = Inr (JObj d)"
    and "distinct (map fst d)"
  shows "update_user tn event st =
           (case update_item st tn (JStr k) (py_rstrip '', '' (''SET '' @ concat (map set_piece (map fst d))))
                   (map (\<lambda>(k, v). (CHR '':'' # k, v)) d) of
              Inl e \<Rightarrow> (Inl e, st)
            | Inr st' \<Rightarrow> (Inr (message_response 200 (''User '' @ k @ '' updated'')), st'))"
proof -
  have "update_loop d (''SET '', []) =
          (''SET '' @ concat (map set_piece (map fst d)), map (\<lambda>(k, v). (CHR '':'' # k, v)) d)"
    using update_loop_eq [of d "[]" "''SET ''"] assms(5) by simp
  with assms(1-4) show ?thesis by (simp add: update_user_def py_json_loads_def comp_def split: sum.split)
qed

lemma reserved_not_valid_name: "is_reserved n \<Longrightarrow> \<not> valid_name n"
  by (cases n) (auto simp: valid_name_def)

subsection \<open>Every successful update\<close>

lemma update_user_Inl: "update_user tn event st = (Inl e, st') \<Longrightarrow> st' = st"
  by (auto simp: update_user_def split: sum.splits prod.splits)

lemma update_user_Inr:
  "update_user tn event st = (Inr r, st') \<Longrightarrow> \<exists>v e vs. update_item st tn v e vs = Inr st'"
  by (auto simp: update_user_def split: sum.splits prod.splits)

lemma update_item_Inr:
  assumes "update_item st tn v e vs = Inr st'"
  shows "\<exists>t k base acts vals. st tn = Some t \<and> k \<noteq> [] \<and> update_ok acts vals \<and>
           serialize_map vs = Inr vals \<and> (t k = None \<and> base = [key_attr \<mapsto> AS k] \<or> t k = Some base) \<and>
           st' = st(tn \<mapsto> t(k \<mapsto> apply_set base acts vals))"
proof -
  obtain t where tbl: "st tn = Some t"
    using assms by (cases "st tn") (auto simp: update_item_def res_bind_eq_Inr split: if_splits)
  with assms obtain k acts vals where "k \<noteq> []" "update_ok acts vals" "serialize_map vs = Inr vals"
    and "st' = st(tn \<mapsto> t(k \<mapsto> apply_set (case t k of None \<Rightarrow> [key_attr \<mapsto> AS k] | Some it \<Rightarrow> it) acts vals))"
    by (auto simp: update_item_def res_bind_eq_Inr key_value_Inr split: if_splits)
  with tbl show ?thesis by (cases "t k") auto
qed

lemma apply_set_eq:
  "distinct (map fst acts) \<Longrightarrow> set (map snd acts) \<subseteq> set (map fst vals) \<Longrightarrow>
   apply_set it acts vals = it ++ map_of (map (\<lambda>(n, p). (n, the (map_of vals p))) acts)"
proof (induction acts arbitrary: it)
  case Nil
  then show ?case by (simp add: apply_set_def)
next
  case (Cons np acts)
  obtain n p where np: "np = (n, p)" by (cases np)
  let ?M = "map_of (map (\<lambda>(n, p). (n, the (map_of vals p))) acts)"
  from Cons.prems np obtain a where a: "map_of vals p = Some a"
    by (cases "map_of vals p") (auto simp: map_of_eq_None_iff)
  from Cons.prems np have "?M n = None"
    by (force simp: map_of_eq_None_iff)
  then have eq: "it(n \<mapsto> a) ++ ?M = it ++ ?M(n \<mapsto> a)"
    by (auto simp: fun_eq_iff map_add_def split: option.splits)
  have "apply_set it (np # acts) vals = apply_set (it(n \<mapsto> a)) acts vals"
    using a np by (simp add: apply_set_def)
  also have "\<dots> = it(n \<mapsto> a) ++ ?M"
    using Cons by simp
  also note eq
  also have "?M(n \<mapsto> a) = map_of (map (\<lambda>(n, p). (n, the (map_of vals p))) (np # acts))"
    using a np by simp
  finally show ?case .
qed

lemma apply_set_other: "n \<notin> set (map fst acts) \<Longrightarrow> apply_set it acts vals n = it n"
  unfolding apply_set_def by (induction acts arbitrary: it) (auto split: option.splits)

lemma update_user_store_merge:
  assumes path: "py_getitem event ''pathParameters'' = Inr pp" "py_getitem pp ''id'' = Inr (JStr k)"
    and ne: "k \<noteq> []"
    and body: "py_getitem event ''body'' = Inr (JStr b)" and dec: "json_loads b = Inr (JObj d)"
    and dne: "d \<noteq> []"
    and names: "\<forall>n\<in>set (map fst d). ident_word n \<and> valid_name n \<and> n \<noteq> key_attr"
    and ser: "serialize_map d = Inr m" and tbl: "st tn = Some t"
  shows "update_user tn event st =
           (Inr (message_response 200 (''User '' @ k @ '' updated'')),
            st(tn \<mapsto> t(k \<mapsto> (case t k of None \<Rightarrow> [key_attr \<mapsto> AS k] | Some it \<Rightarrow> it) ++ map_of m)))"
proof -
  from json_loads_wf [OF dec] have dist: "distinct (map fst d)" by simp
  from ser have keys: "map fst m = map fst d" by (rule serialize_map_keys)
  let ?attrs = "map (\<lambda>(k, v). (CHR '':'' # k, v)) d"
  have vs: "serialize_map ?attrs = Inr (map (\<lambda>(k, a). (CHR '':'' # k, a)) m)"
    using ser by (simp add: serialize_map_rename)
  have upd: "update_item st tn (JStr k) (py_rstrip '', '' (''SET '' @ concat (map set_piece (map fst m)))) ?attrs =
               Inr (st(tn \<mapsto> t(k \<mapsto> (case t k of None \<Rightarrow> [key_attr \<mapsto> AS k] | Some it \<Rightarrow> it) ++ map_of m)))"
    using ne dne dist names vs tbl keys by (intro update_item_merge) auto
  then show ?thesis
    using update_user_request [OF path body dec dist] keys by simp
qed

lemma update_item_key: "update_item st tn v e vs = Inr st' \<Longrightarrow> \<exists>k. v = JStr k \<and> k \<noteq> []"
  unfolding update_item_def
  by (cases "serialize v"; cases "serialize_map vs"; cases "parse_update_expr e"; cases "st tn")
     (auto simp: key_value_Inr res_bind_eq_Inr serialize_AS split: if_splits)


lemma update_user_Inr_merge:
  assumes "update_user tn ev st = (Inr r, st')"
  shows "\<exists>k b d m t. res_bind (py_getitem ev ''pathParameters'') (\<lambda>pp. py_getitem pp ''id'') = Inr (JStr k) \<and>
           py_getitem ev ''body'' = Inr (JStr b) \<and> json_loads b = Inr (JObj d) \<and>
           serialize_map d = Inr m \<and> st tn = Some t \<and>
           st' = st(tn \<mapsto> t(k \<mapsto> (case t k of None \<Rightarrow> [key_attr \<mapsto> AS k] | Some it \<Rightarrow> it) ++ map_of m))"
proof -
  from assms obtain uid items e vs where path: "res_bind (py_getitem ev ''pathParameters'') (\<lambda>pp. py_getitem pp ''id'') = Inr uid"
    and items: "res_bind (res_bind (py_getitem ev ''body'') py_json_loads) py_items = Inr items"
    and upd0: "update_item st tn uid e vs = Inr st'"
    by (auto simp: update_user_def split: sum.splits prod.splits)
  from update_item_key [OF upd0] obtain k where uid: "uid = JStr k" by blast
  from path uid obtain pp where pp: "py_getitem ev ''pathParameters'' = Inr pp" "py_getitem pp ''id'' = Inr (JStr k)"
    by (auto simp: res_bind_eq_Inr)
  from items obtain bd where bd: "res_bind (py_getitem ev ''body'') py_json_loads = Inr bd"
    and "py_items bd = Inr items" by (auto simp: res_bind_eq_Inr)
  then have bd_obj: "bd = JObj items" by (auto simp: py_items_def split: json.splits)
  from bd obtain x where x: "py_getitem ev ''body'' = Inr x" and "py_json_loads x = Inr bd"
    by (auto simp: res_bind_eq_Inr)
  then obtain b where "x = JStr b" and "json_loads b = Inr bd"
    by (auto simp: py_json_loads_def split: json.splits)
  with x bd_obj obtain d where body: "py_getitem ev ''body'' = Inr (JStr b)" and dec: "json_loads b = Inr (JObj d)"
    by blast
  from json_loads_wf [OF dec] have dist: "distinct (map fst d)" by simp
  let ?E = "py_rstrip '', '' (''SET '' @ concat (map set_piece (map fst d)))"
  let ?vs = "map (\<lambda>(k, v). (CHR '':'' # k, v)) d"
  from update_user_request [OF pp body dec dist, of tn st] assms
  have upd: "update_item st tn (JStr k) ?E ?vs = Inr st'"
    by (auto split: sum.splits)
  from update_item_Inr [OF upd] obtain t vals where tbl: "st tn = Some t" and "serialize_map ?vs = Inr vals"
    by blast
  then obtain m where ser: "serialize_map d = Inr m"
    by (auto simp: serialize_map_rename res_bind_eq_Inr)
  then have keys: "map fst m = map fst d" by (rule serialize_map_keys)
  have vs: "serialize_map ?vs = Inr (map (\<lambda>(k, a). (CHR '':'' # k, a)) m)"
    using ser by (simp add: serialize_map_rename)
  have ne: "k \<noteq> []" using update_item_key [OF upd] by simp
  have mne: "m \<noteq> []"
  proof
    assume "m = []"
    with keys have "d = []" by simp
    with upd show False by (simp add: update_item_def)
  qed
  have names: "\<forall>n\<in>set (map fst m). ident_word n \<and> valid_name n \<and> n \<noteq> key_attr"
  proof (rule ccontr)
    assume "\<not> ?thesis"
    with update_item_rejects [OF mne _ _ vs, of st tn k] dist keys upd show False by simp
  qed
  from update_item_merge [where st = st and tn = tn, OF ne mne _ names vs tbl] dist keys upd
  have "st' = st(tn \<mapsto> t(k \<mapsto> (case t k of None \<Rightarrow> [key_attr \<mapsto> AS k] | Some it \<Rightarrow> it) ++ map_of m))"
    by simp
  with path uid body dec ser tbl show ?thesis by blast
qed


lemma item_view_merge:
  "serialize_map d = Inr m \<Longrightarrow>
   item_view ((case t k of None \<Rightarrow> [key_attr \<mapsto> AS k] | Some it \<Rightarrow> it) ++ map_of m) =
     (case t k of None \<Rightarrow> [key_attr \<mapsto> JStr k] | Some old \<Rightarrow> item_view old) ++ map_of d"
  by (simp add: item_view_add item_view_serialize_map item_view_key split: option.split)

text \<open>
  C2. A request whose path id is a non-empty string \<open>k\<close> and whose body decodes to a
  non-empty dict \<open>R\<close> of storable values, keyed by plain attribute names (letters,
  digits, underscores, not starting with a digit, not reserved words, not \<open>id\<close>), is
  answered with 200 and "User k updated"; a read of \<open>k\<close> afterwards returns the old
  record (or \<open>{id: k}\<close> if there was none) with every field of \<open>R\<close> overwritten or
  added and no other field changed (spec, section 8, property 3).
\<close>

theorem update_user_merges:
  assumes path: "py_getitem event ''pathParameters'' = Inr pp" "py_getitem pp ''id'' = Inr (JStr k)"
    and ne: "k \<noteq> []"
    and body: "py_getitem event ''body'' = Inr (JStr b)" and dec: "json_loads b = Inr (JObj d)"
    and dne: "d \<noteq> []"
    and names: "\<forall>n\<in>set (map fst d). ident_word n \<and> valid_name n \<and> n \<noteq> key_attr"
    and sto: "storable_map d" and tbl: "st tn = Some t"
  shows "\<exists>st' it. update_user tn event st = (Inr (message_response 200 (''User '' @ k @ '' updated'')), st')
           \<and> get_item st' tn k = Inr (Some it)
           \<and> item_view it = (case t k of None \<Rightarrow> [key_attr \<mapsto> JStr k] | Some old \<Rightarrow> item_view old) ++ map_of d"
proof -
  from sto obtain m where ser: "serialize_map d = Inr m"
    using serialize_storable(3) by blast
  from update_user_store_merge [where st = st and tn = tn, OF path ne body dec dne names ser tbl] ne
    item_view_merge [OF ser, where t = t and k = k]
  show ?thesis by (simp add: get_item_Inr)
qed

theorem update_user_merges_witness:
  "\<exists>st' it.
     update_user ''Users''
       (JObj [(''pathParameters'', JObj [(''id'', JStr ''u1'')]),
              (''body'', JStr ''{\"age\": 31, \"nick\": \"x\"}'')])
       [''Users'' \<mapsto> [''u1'' \<mapsto> [''id'' \<mapsto> AS ''u1'', ''age'' \<mapsto> AN 30]]]
       = (Inr (message_response 200 (''User '' @ ''u1'' @ '' updated'')), st')
     \<and> get_item st' ''Users'' ''u1'' = Inr (Some it)
     \<and> item_view it = item_view [''id'' \<mapsto> AS ''u1'', ''age'' \<mapsto> AN 30]
                     ++ map_of [(''age'', JInt 31), (''nick'', JStr ''x'')]"
proof -
  have dec: "json_loads ''{\"age\": 31, \"nick\": \"x\"}'' = Inr (JObj [(''age'', JInt 31), (''nick'', JStr ''x'')])"
    by code_simp
  have names: "\<forall>n\<in>set (map fst [(''age'', JInt 31), (''nick'', JStr ''x'')]).
                 ident_word n \<and> valid_name n \<and> n \<noteq> key_attr"
    by code_simp
  have sto: "storable_map [(''age'', JInt 31), (''nick'', JStr ''x'')]"
    by code_simp
  show ?thesis
    using update_user_merges [OF _ _ _ _ dec _ names sto,
        of "JObj [(''pathParameters'', JObj [(''id'', JStr ''u1'')]),
                  (''body'', JStr ''{\"age\": 31, \"nick\": \"x\"}'')]"
           "JObj [(''id'', JStr ''u1'')]" "''u1''"
           "[''Users'' \<mapsto> [''u1'' \<mapsto> [''id'' \<mapsto> AS ''u1'', ''age'' \<mapsto> AN 30]]]" "''Users''"]
    by simp
qed
text \<open>
  C7. A body with a key that is a reserved word of the store (such as \<open>name\<close> or
  \<open>status\<close>) or that is \<open>id\<close> is rejected by the store with a
  \<open>ValidationException\<close>, which the handler does not catch, and nothing is
  written: the handler puts every key verbatim into the expression and never uses
  \<open>ExpressionAttributeNames\<close>.
\<close>

theorem update_user_rejects_reserved:
  assumes path: "py_getitem event ''pathParameters'' = Inr pp" "py_getitem pp ''id'' = Inr (JStr k)"
    and body: "py_getitem event ''body'' = Inr (JStr b)" and dec: "json_loads b = Inr (JObj d)"
    and sto: "storable_map d"
    and bad: "\<exists>n\<in>set (map fst d). is_reserved n \<or> n = ''id''"
  shows "update_user tn event st = (Inl ValidationException, st)"
proof -
  from json_loads_wf [OF dec] have dist: "distinct (map fst d)" by simp
  from sto obtain m where ser: "serialize_map d = Inr m"
    using serialize_storable(3) by blast
  then have keys: "map fst m = map fst d" by (rule serialize_map_keys)
  have "update_item st tn (JStr k) (py_rstrip '', '' (''SET '' @ concat (map set_piece (map fst m))))
          (map (\<lambda>(k, v). (CHR '':'' # k, v)) d) = Inl ValidationException"
  proof (rule update_item_rejects)
    show "m \<noteq> []" using bad keys by auto
    show "distinct (map fst m)" using dist keys by simp
    show "\<exists>n\<in>set (map fst m). \<not> (ident_word n \<and> valid_name n \<and> n \<noteq> key_attr)"
      using bad keys by (auto simp: key_attr_def dest: reserved_not_valid_name)
    show "serialize_map (map (\<lambda>(k, v). (CHR '':'' # k, v)) d) = Inr (map (\<lambda>(k, a). (CHR '':'' # k, a)) m)"
      using ser by (simp add: serialize_map_rename)
  qed
  with update_user_request [OF path body dec dist] keys show ?thesis by simp
qed

theorem update_user_rejects_reserved_witness:
  "update_user ''Users''
     (JObj [(''pathParameters'', JObj [(''id'', JStr ''u1'')]), (''body'', JStr ''{\"name\": \"Bob\"}'')])
     [''Users'' \<mapsto> Map.empty]
   = (Inl ValidationException, [''Users'' \<mapsto> Map.empty])"
proof -
  have dec: "json_loads ''{\"name\": \"Bob\"}'' = Inr (JObj [(''name'', JStr ''Bob'')])"
    by code_simp
  have bad: "\<exists>n\<in>set (map fst [(''name'', JStr ''Bob'')]). is_reserved n \<or> n = ''id''"
    by code_simp
  show ?thesis
    by (rule update_user_rejects_reserved [OF _ _ _ dec _ bad, where pp="JObj [(''id'', JStr ''u1'')]" and k="''u1''"])
       simp_all
qed

text \<open>
  C15. An empty body builds the expression \<open>"SET"\<close> (\<open>rstrip(", ")\<close> also removes
  the space after \<open>SET\<close>) and an empty \<open>ExpressionAttributeValues\<close>; the store
  rejects the request with a \<open>ValidationException\<close> and nothing is written (spec,
  section 9, open question on empty updates).
\<close>

theorem update_user_rejects_empty:
  assumes "py_getitem event ''pathParameters'' = Inr pp" "py_getitem pp ''id'' = Inr (JStr k)"
    and "py_getitem event ''body'' = Inr (JStr b)" and "json_loads b = Inr (JObj [])"
  shows "update_user tn event st = (Inl ValidationException, st)"
  using update_user_request [OF assms] by (simp add: update_item_def)

theorem update_user_rejects_empty_witness:
  "update_user ''Users''
     (JObj [(''pathParameters'', JObj [(''id'', JStr ''u1'')]), (''body'', JStr ''{}'')])
     [''Users'' \<mapsto> Map.empty]
   = (Inl ValidationException, [''Users'' \<mapsto> Map.empty])"
proof -
  have dec: "json_loads ''{}'' = Inr (JObj [])"
    by code_simp
  show ?thesis
    by (rule update_user_rejects_empty [OF _ _ _ dec, where pp = "JObj [(''id'', JStr ''u1'')]" and k = "''u1''"])
       simp_all
qed

text \<open>
  C18. For a body that decodes to a dict of storable values, on an existing table and a
  non-empty path id, the update succeeds exactly when the dict is non-empty and every key
  is a plain attribute name: a word of letters, digits and underscores, not starting
  with a digit, not a reserved word, not \<open>id\<close>. Any other key (with a hyphen, a
  space, a dot, a reserved word) makes the whole request fail. The service's size
  limits (an update expression of at most 4 KB, an item of at most 400 KB) are not
  modelled: the equivalence holds for requests within them.
\<close>

theorem update_user_ok_iff:
  assumes path: "py_getitem event ''pathParameters'' = Inr pp" "py_getitem pp ''id'' = Inr (JStr k)"
    and ne: "k \<noteq> []"
    and body: "py_getitem event ''body'' = Inr (JStr b)" and dec: "json_loads b = Inr (JObj d)"
    and sto: "storable_map d" and tbl: "st tn = Some t"
  shows "(\<exists>r st'. update_user tn event st = (Inr r, st')) \<longleftrightarrow>
           d \<noteq> [] \<and> (\<forall>n\<in>set (map fst d). ident_word n \<and> valid_name n \<and> n \<noteq> key_attr)"
proof -
  from json_loads_wf [OF dec] have dist: "distinct (map fst d)" by simp
  from sto obtain m where ser: "serialize_map d = Inr m"
    using serialize_storable(3) by blast
  then have keys: "map fst m = map fst d" by (rule serialize_map_keys)
  have vs: "serialize_map (map (\<lambda>(k, v). (CHR '':'' # k, v)) d) = Inr (map (\<lambda>(k, a). (CHR '':'' # k, a)) m)"
    using ser by (simp add: serialize_map_rename)
  note req = update_user_request [OF path body dec dist, of tn st]
  show ?thesis
  proof
    assume ok: "\<exists>r st'. update_user tn event st = (Inr r, st')"
    show "d \<noteq> [] \<and> (\<forall>n\<in>set (map fst d). ident_word n \<and> valid_name n \<and> n \<noteq> key_attr)"
    proof (rule ccontr)
      assume "\<not> ?thesis"
      then consider "d = []" | "\<exists>n\<in>set (map fst d). \<not> (ident_word n \<and> valid_name n \<and> n \<noteq> key_attr)"
        by blast
      then have "\<exists>e. update_item st tn (JStr k) (py_rstrip '', '' (''SET '' @ concat (map set_piece (map fst d))))
                      (map (\<lambda>(k, v). (CHR '':'' # k, v)) d) = Inl e"
      proof cases
        case 1
        then show ?thesis by (simp add: update_item_def)
      next
        case 2
        have "m \<noteq> []" using 2 keys by auto
        from update_item_rejects [OF this _ _ vs] 2 dist keys show ?thesis by auto
      qed
      with req ok show False by (auto split: sum.splits)
    qed
  next
    assume "d \<noteq> [] \<and> (\<forall>n\<in>set (map fst d). ident_word n \<and> valid_name n \<and> n \<noteq> key_attr)"
    then have "m \<noteq> []" "\<forall>n\<in>set (map fst m). ident_word n \<and> valid_name n \<and> n \<noteq> key_attr"
      using keys by auto
    from update_item_merge [where st = st and tn = tn, OF ne this(1) _ this(2) vs tbl] dist keys req
    show "\<exists>r st'. update_user tn event st = (Inr r, st')" by simp
  qed
qed

theorem update_user_ok_iff_witness:
  "(\<exists>r st'. update_user ''Users''
       (JObj [(''pathParameters'', JObj [(''id'', JStr ''u1'')]), (''body'', JStr ''{\"first-name\": \"Ann\"}'')])
       [''Users'' \<mapsto> Map.empty] = (Inr r, st')) \<longleftrightarrow>
   [(''first-name'', JStr ''Ann'')] \<noteq> [] \<and>
   (\<forall>n\<in>set (map fst [(''first-name'', JStr ''Ann'')]). ident_word n \<and> valid_name n \<and> n \<noteq> key_attr)"
proof -
  have dec: "json_loads ''{\"first-name\": \"Ann\"}'' = Inr (JObj [(''first-name'', JStr ''Ann'')])"
    by code_simp
  have sto: "storable_map [(''first-name'', JStr ''Ann'')]"
    by code_simp
  show ?thesis
    by (rule update_user_ok_iff [OF _ _ _ _ dec sto, where pp = "JObj [(''id'', JStr ''u1'')]" and k = "''u1''"
          and t = Map.empty]) simp_all
qed

text \<open>
  C26. The loop and \<open>rstrip\<close> build the expression Python's idiom
  \<open>"SET " + ", ".join(f"{k} = :{k}" for k in body)\<close> would build, for every
  non-empty body whose keys do not end in a comma or a space. (\<open>rstrip(", ")\<close>
  removes a set of characters, not the separator, so a last key ending in one of them
  would lose characters too.)
\<close>

theorem update_expression_join:
  assumes "kvs \<noteq> []" and "list_all (\<lambda>k. py_rstrip '', '' k = k) (map fst kvs)"
  shows "py_rstrip '', '' (fst (update_loop kvs (''SET '', attrs))) =
           ''SET '' @ py_join '', '' (map (\<lambda>k. k @ '' = :'' @ k) (map fst kvs))"
proof -
  let ?J = "py_join '', '' (map (\<lambda>k. k @ '' = :'' @ k) (map fst kvs))"
  let ?kl = "fst (last kvs)"
  have e: "fst (update_loop kvs (''SET '', attrs)) = (''SET '' @ ?J) @ '', ''"
    using concat_set_piece_join [of "map fst kvs"] assms(1) by (simp add: fst_update_loop comp_def)
  have r: "py_rstrip '', '' ((''SET '' @ ?J) @ '', '') = py_rstrip '', '' (''SET '' @ ?J)"
    by (rule py_rstrip_all) simp
  from e r have strip: "py_rstrip '', '' (fst (update_loop kvs (''SET '', attrs))) = py_rstrip '', '' (''SET '' @ ?J)"
    by (simp only:)
  from assms(1) obtain p where J: "?J = p @ ?kl @ '' = :'' @ ?kl"
    using py_join_last [of "map (\<lambda>k. k @ '' = :'' @ k) (map fst kvs)" "'', ''"] by (auto simp: last_map)
  from assms have "py_rstrip '', '' ?kl = ?kl"
    by (simp add: list_all_iff)
  then have "?kl = [] \<or> last ?kl \<notin> set '', ''"
    by (simp only: py_rstrip_id_iff)
  then have "last (''SET '' @ p @ ?kl @ '' = :'' @ ?kl) \<notin> set '', ''"
    by (cases "?kl = []") auto
  then have "last (''SET '' @ ?J) \<notin> set '', ''"
    by (simp only: J not_False_eq_True)
  then show ?thesis
    by (simp only: strip py_rstrip_id_iff) simp
qed

theorem update_expression_join_witness:
  "py_rstrip '', '' (fst (update_loop [(''age'', JInt 31), (''city'', JStr ''Oslo'')] (''SET '', []))) =
     ''SET '' @ py_join '', '' (map (\<lambda>k. k @ '' = :'' @ k) [''age'', ''city''])"
  using update_expression_join [of "[(''age'', JInt 31), (''city'', JStr ''Oslo'')]" "[]"]
  by (simp add: py_rstrip_def)

end
