(* ===== verification/Delete_User.thy ===== *)
theory Delete_User
  imports Lambda Dynamo
begin

text \<open>
  \<open>src/lambda/delete_user.py\<close>, \<open>lambda_handler\<close>: read the id from the path
  parameters, delete the item under it, answer 200 whether or not there was one.
\<close>

definition delete_user :: "string \<Rightarrow> json \<Rightarrow> db \<Rightarrow> api_response res \<times> db" where
  "delete_user tn event st =
     (case res_bind (py_getitem event ''pathParameters'') (\<lambda>pp. py_getitem pp ''id'') of
        Inl e \<Rightarrow> (Inl e, st)
      | Inr user_id \<Rightarrow>
          (case delete_item st tn user_id of
             Inl e \<Rightarrow> (Inl e, st)
           | Inr st' \<Rightarrow>
               (Inr (message_response 200 (''User '' @ py_str user_id @ '' deleted'')), st')))"

text \<open>The module as the Lambda runtime loads it: lines 5-6 run once per process,
  before the first invocation (\<open>table_init\<close>, which fails with \<open>KeyError\<close>
  when \<open>TABLE_NAME\<close> is unset), then every invocation calls \<open>lambda_handler\<close>
  with the table they bound. The environment is fixed for a process, so running the
  initialisation before each invocation gives the same results.\<close>

definition delete_user_module :: "env \<Rightarrow> json \<Rightarrow> db \<Rightarrow> api_response res \<times> db" where
  "delete_user_module e event st =
     (case table_init e of
        Inl err \<Rightarrow> (Inl err, st)
      | Inr tn \<Rightarrow> delete_user tn event st)"

section \<open>Lemmas\<close>

lemma delete_user_Inl: "delete_user tn event st = (Inl e, st') \<Longrightarrow> st' = st"
  by (auto simp: delete_user_def split: sum.splits)

lemma delete_user_path_id:
  assumes "py_getitem event ''pathParameters'' = Inr pp" and "py_getitem pp ''id'' = Inr (JStr k)"
    and "k \<noteq> []" and "st tn = Some t"
  shows "delete_user tn event st = (Inr (message_response 200 (''User '' @ k @ '' deleted'')), st(tn \<mapsto> t(k := None)))"
  using assms by (simp add: delete_user_def delete_item_def key_value_def)

text \<open>
  C3. Deleting an existing or absent record by its path id answers 200 with "User k
  deleted", and a store read of \<open>k\<close> afterwards finds nothing (spec, section 8,
  property 5); every other record of the table is left as it was.
\<close>

theorem delete_user_then_get:
  assumes "py_getitem event ''pathParameters'' = Inr pp" and "py_getitem pp ''id'' = Inr (JStr k)"
    and "k \<noteq> []" and "st tn = Some t"
  shows "\<exists>st' t'. delete_user tn event st = (Inr (message_response 200 (''User '' @ k @ '' deleted'')), st')
           \<and> get_item st' tn k = Inr None \<and> st' tn = Some t' \<and> (\<forall>k'. k' \<noteq> k \<longrightarrow> t' k' = t k')"
  using assms by (simp add: delete_user_path_id get_item_Inr)

theorem delete_user_then_get_witness:
  "\<exists>st' t'. delete_user ''Users'' (JObj [(''pathParameters'', JObj [(''id'', JStr ''u1'')])])
               [''Users'' \<mapsto> [''u1'' \<mapsto> [''id'' \<mapsto> AS ''u1''], ''u2'' \<mapsto> [''id'' \<mapsto> AS ''u2'']]]
             = (Inr (message_response 200 (''User '' @ ''u1'' @ '' deleted'')), st')
           \<and> get_item st' ''Users'' ''u1'' = Inr None \<and> st' ''Users'' = Some t'
           \<and> (\<forall>k'. k' \<noteq> ''u1'' \<longrightarrow> t' k' = [''u1'' \<mapsto> [''id'' \<mapsto> AS ''u1''], ''u2'' \<mapsto> [''id'' \<mapsto> AS ''u2'']] k')"
proof -
  let ?t = "[''u1'' \<mapsto> [''id'' \<mapsto> AS ''u1''], ''u2'' \<mapsto> [''id'' \<mapsto> AS ''u2'']]"
  have "py_getitem (JObj [(''id'', JStr ''u1'')]) ''id'' = Inr (JStr ''u1'')" by simp
  from delete_user_then_get [OF _ this, of "JObj [(''pathParameters'', JObj [(''id'', JStr ''u1'')])]"
      "[''Users'' \<mapsto> ?t]" "''Users''" ?t]
  show ?thesis by simp
qed

text \<open>
  C12. Deleting a key that is not in the table is not an error: the handler answers 200
  with the confirmation and the store is unchanged (spec, sections 4.3 and 8, property 4).
\<close>

theorem delete_user_missing_ok:
  assumes "py_getitem event ''pathParameters'' = Inr pp" and "py_getitem pp ''id'' = Inr (JStr k)"
    and "k \<noteq> []" and "st tn = Some t" and "t k = None"
  shows "delete_user tn event st = (Inr (message_response 200 (''User '' @ k @ '' deleted'')), st)"
proof -
  from assms(4,5) have "st(tn \<mapsto> t(k := None)) = st"
    by (simp add: fun_upd_idem)
  with assms(1-4) show ?thesis by (simp add: delete_user_path_id)
qed

theorem delete_user_missing_ok_witness:
  "delete_user ''Users'' (JObj [(''pathParameters'', JObj [(''id'', JStr ''ghost'')])]) [''Users'' \<mapsto> Map.empty]
     = (Inr (message_response 200 (''User '' @ ''ghost'' @ '' deleted'')), [''Users'' \<mapsto> Map.empty])"
proof -
  have "py_getitem (JObj [(''id'', JStr ''ghost'')]) ''id'' = Inr (JStr ''ghost'')" by simp
  from delete_user_missing_ok [OF _ this, of "JObj [(''pathParameters'', JObj [(''id'', JStr ''ghost'')])]"
      "[''Users'' \<mapsto> Map.empty]" "''Users''" Map.empty]
  show ?thesis by simp
qed

text \<open>
  C33. A delete succeeds exactly when the path id is a non-empty string and the table
  exists: any other id (missing path parameters, a non-string or an empty id) or a
  missing table is an exception that writes nothing. Whether the record exists plays
  no part.
\<close>

theorem delete_user_ok_iff:
  "(\<exists>r st'. delete_user tn ev st = (Inr r, st')) \<longleftrightarrow>
     (\<exists>k. res_bind (py_getitem ev ''pathParameters'') (\<lambda>pp. py_getitem pp ''id'') = Inr (JStr k) \<and>
          k \<noteq> [] \<and> st tn \<noteq> None)"
proof
  assume "\<exists>r st'. delete_user tn ev st = (Inr r, st')"
  then show "\<exists>k. res_bind (py_getitem ev ''pathParameters'') (\<lambda>pp. py_getitem pp ''id'') = Inr (JStr k) \<and>
               k \<noteq> [] \<and> st tn \<noteq> None"
    by (auto simp: delete_user_def delete_item_Inr split: sum.splits)
next
  assume "\<exists>k. res_bind (py_getitem ev ''pathParameters'') (\<lambda>pp. py_getitem pp ''id'') = Inr (JStr k) \<and>
            k \<noteq> [] \<and> st tn \<noteq> None"
  then obtain k t where path: "res_bind (py_getitem ev ''pathParameters'') (\<lambda>pp. py_getitem pp ''id'') = Inr (JStr k)"
    and ne: "k \<noteq> []" and tbl: "st tn = Some t" by auto
  from ne tbl have "delete_item st tn (JStr k) = Inr (st(tn \<mapsto> t(k := None)))"
    by (simp add: delete_item_Inr)
  with path show "\<exists>r st'. delete_user tn ev st = (Inr r, st')"
    by (simp add: delete_user_def)
qed

theorem delete_user_ok_iff_witness:
  "(\<exists>r st'. delete_user ''Users'' (JObj [(''pathParameters'', JObj [(''id'', JStr '''')])])
              [''Users'' \<mapsto> Map.empty] = (Inr r, st')) = False"
  by (subst delete_user_ok_iff) (simp add: py_getitem_def)

end
