(* ===== verification/Api.thy ===== *)
theory Api
  imports Create_User Update_User Delete_User
begin

text \<open>
  The three record handlers composed over the shared store: a request datatype and a
  dispatch function, the reachable stores as an inductive relation, the invariant that
  every item sits under its own \<open>id\<close>, and the abstract store of records with the
  abstract operation of each request, with the lemmas that every successful request
  implements its abstract operation and every failed one changes nothing.
\<close>

text \<open>A request to one of the three record handlers, carrying its API-Gateway event.\<close>

datatype api_request = CreateUser json | UpdateUser json | DeleteUser json

text \<open>The three \<open>lambda_handler\<close>s against a store with the table named by
  \<open>TABLE_NAME\<close>.\<close>

fun handle :: "string \<Rightarrow> api_request \<Rightarrow> db \<Rightarrow> api_response res \<times> db" where
  "handle tn (CreateUser ev) st = create_user tn ev st"
| "handle tn (UpdateUser ev) st = update_user tn ev st"
| "handle tn (DeleteUser ev) st = delete_user tn ev st"

text \<open>The stores reachable from \<open>st0\<close> by any sequence of requests, each answered or
  failed: the handlers share nothing but the store, and invocations are sequential
  (each runs to completion; the store's operations are atomic per item).\<close>

inductive reach :: "string \<Rightarrow> db \<Rightarrow> db \<Rightarrow> bool" for tn st0 where
  reach_init: "reach tn st0 st0"
| reach_step: "reach tn st0 st \<Longrightarrow> handle tn q st = (r, st') \<Longrightarrow> reach tn st0 st'"

text \<open>A given sequence of requests, executed in order.\<close>

fun run :: "string \<Rightarrow> api_request list \<Rightarrow> db \<Rightarrow> api_response res list \<times> db" where
  "run tn [] st = ([], st)"
| "run tn (q # qs) st =
     (case handle tn q st of
        (r, st') \<Rightarrow> (case run tn qs st' of (rs, st'') \<Rightarrow> (r # rs, st'')))"

text \<open>The store's key invariant: every item is stored under the string value of its
  \<open>id\<close> attribute, and that value is not empty.\<close>

definition well_keyed :: "db \<Rightarrow> bool" where
  "well_keyed st \<longleftrightarrow>
     (\<forall>tn t k it. st tn = Some t \<longrightarrow> t k = Some it \<longrightarrow> it key_attr = Some (AS k) \<and> k \<noteq> [])"

text \<open>
  The abstract contract of spec sections 4 and 8: a table is a map from ids to records
  (Python dicts, as the handlers read them back). Create stores a record whose
  \<open>id\<close> is its key; update merges fields other than \<open>id\<close> into the record (or
  into \<open>{id: k}\<close>); delete removes the record if there is one.
\<close>

type_synonym records = "string \<rightharpoonup> (string \<rightharpoonup> json)"

definition abs_table :: "table \<Rightarrow> records" where
  "abs_table t = (\<lambda>k. map_option item_view (t k))"

text \<open>The abstract operation of a request on the records: what spec sections 4 and 8
  promise of it, read from the request alone.\<close>

fun abs_request :: "api_request \<Rightarrow> records \<Rightarrow> records" where
  "abs_request (CreateUser ev) R =
     (case res_bind (py_getitem ev ''body'') py_json_loads of
        Inr (JObj d) \<Rightarrow> (case map_of d ''id'' of Some (JStr k) \<Rightarrow> R(k \<mapsto> map_of d) | _ \<Rightarrow> R)
      | _ \<Rightarrow> R)"
| "abs_request (UpdateUser ev) R =
     (case (res_bind (py_getitem ev ''pathParameters'') (\<lambda>pp. py_getitem pp ''id''),
            res_bind (py_getitem ev ''body'') py_json_loads) of
        (Inr (JStr k), Inr (JObj d)) \<Rightarrow>
          R(k \<mapsto> (case R k of None \<Rightarrow> [''id'' \<mapsto> JStr k] | Some r \<Rightarrow> r) ++ map_of d)
      | _ \<Rightarrow> R)"
| "abs_request (DeleteUser ev) R =
     (case res_bind (py_getitem ev ''pathParameters'') (\<lambda>pp. py_getitem pp ''id'') of
        Inr (JStr k) \<Rightarrow> R(k := None)
      | _ \<Rightarrow> R)"


section \<open>Lemmas\<close>

lemma create_user_store:
  "create_user tn ev st = (Inr r, st') \<Longrightarrow>
     \<exists>t k it. st tn = Some t \<and> k \<noteq> [] \<and> it key_attr = Some (AS k) \<and> st' = st(tn \<mapsto> t(k \<mapsto> it))"
  by (auto simp: create_user_Inr put_item_Inr)

lemma delete_user_store:
  "delete_user tn ev st = (Inr r, st') \<Longrightarrow>
     \<exists>t k. st tn = Some t \<and> k \<noteq> [] \<and> st' = st(tn \<mapsto> t(k := None))"
  by (auto simp: delete_user_def delete_item_Inr split: sum.splits)

lemma update_user_store:
  "update_user tn ev st = (Inr r, st') \<Longrightarrow>
     \<exists>t k base acts vals. st tn = Some t \<and> k \<noteq> [] \<and> update_ok acts vals \<and>
       (t k = None \<and> base = [key_attr \<mapsto> AS k] \<or> t k = Some base) \<and>
       st' = st(tn \<mapsto> t(k \<mapsto> apply_set base acts vals))"
  by (blast dest: update_user_Inr update_item_Inr)

lemma handle_Inl: "handle tn q st = (Inl e, st') \<Longrightarrow> st' = st"
  by (cases q) (auto dest: create_user_Inl update_user_Inl delete_user_Inl)

lemma abs_table_upd: "abs_table (t(k \<mapsto> it)) = (abs_table t)(k \<mapsto> item_view it)"
  by (simp add: abs_table_def fun_eq_iff)

lemma abs_table_del: "abs_table (t(k := None)) = (abs_table t)(k := None)"
  by (simp add: abs_table_def fun_eq_iff)

lemma abs_table_merge:
  "serialize_map d = Inr m \<Longrightarrow>
   abs_table (t(k \<mapsto> (case t k of None \<Rightarrow> [key_attr \<mapsto> AS k] | Some it \<Rightarrow> it) ++ map_of m)) =
     (abs_table t)(k \<mapsto> (case abs_table t k of None \<Rightarrow> [''id'' \<mapsto> JStr k] | Some r \<Rightarrow> r) ++ map_of d)"
proof -
  assume ser: "serialize_map d = Inr m"
  have "item_view ((case t k of None \<Rightarrow> [key_attr \<mapsto> AS k] | Some it \<Rightarrow> it) ++ map_of m) =
          (case abs_table t k of None \<Rightarrow> [''id'' \<mapsto> JStr k] | Some r \<Rightarrow> r) ++ map_of d"
    using item_view_merge [OF ser, where t = t and k = k]
    by (cases "t k") (simp_all add: abs_table_def key_attr_def)
  then show ?thesis by (simp only: abs_table_upd)
qed


lemma create_user_refines:
  assumes "create_user tn ev st = (Inr r, st')"
  shows "\<exists>t t'. st tn = Some t \<and> st' = st(tn \<mapsto> t') \<and> abs_table t' = abs_request (CreateUser ev) (abs_table t)"
proof -
  from assms obtain body where dec: "res_bind (py_getitem ev ''body'') py_json_loads = Inr body"
    and put: "put_item st tn body = Inr st'" by (auto simp: create_user_Inr)
  from put obtain d m t k where body: "body = JObj d" and ser: "serialize_map d = Inr m"
    and tbl: "st tn = Some t" and key: "map_of m key_attr = Some (AS k)"
    and st': "st' = st(tn \<mapsto> t(k \<mapsto> map_of m))"
    by (auto simp: put_item_Inr)
  from serialize_map_AS [OF ser key] have id: "map_of d ''id'' = Some (JStr k)"
    by (simp add: key_attr_def)
  have "abs_table (t(k \<mapsto> map_of m)) = (abs_table t)(k \<mapsto> map_of d)"
    using ser by (simp add: abs_table_upd item_view_serialize_map)
  with dec body id tbl st' show ?thesis by auto
qed


lemma update_user_refines:
  assumes "update_user tn ev st = (Inr r, st')"
  shows "\<exists>t t'. st tn = Some t \<and> st' = st(tn \<mapsto> t') \<and> abs_table t' = abs_request (UpdateUser ev) (abs_table t)"
proof -
  from update_user_Inr_merge [OF assms] obtain k b d m t where
        path: "res_bind (py_getitem ev ''pathParameters'') (\<lambda>pp. py_getitem pp ''id'') = Inr (JStr k)"
    and body: "py_getitem ev ''body'' = Inr (JStr b)" and dec: "json_loads b = Inr (JObj d)"
    and ser: "serialize_map d = Inr m" and tbl: "st tn = Some t"
    and st': "st' = st(tn \<mapsto> t(k \<mapsto> (case t k of None \<Rightarrow> [key_attr \<mapsto> AS k] | Some it \<Rightarrow> it) ++ map_of m))"
    by blast
  from path body dec have "abs_request (UpdateUser ev) (abs_table t) =
      (abs_table t)(k \<mapsto> (case abs_table t k of None \<Rightarrow> [''id'' \<mapsto> JStr k] | Some r \<Rightarrow> r) ++ map_of d)"
    by (simp add: py_json_loads_def)
  with abs_table_merge [OF ser, of t k] tbl st' show ?thesis by auto
qed


lemma delete_user_refines:
  assumes "delete_user tn ev st = (Inr r, st')"
  shows "\<exists>t t'. st tn = Some t \<and> st' = st(tn \<mapsto> t') \<and> abs_table t' = abs_request (DeleteUser ev) (abs_table t)"
proof -
  from assms obtain k t where path: "res_bind (py_getitem ev ''pathParameters'') (\<lambda>pp. py_getitem pp ''id'') = Inr (JStr k)"
    and tbl: "st tn = Some t" and st': "st' = st(tn \<mapsto> t(k := None))"
    by (auto simp: delete_user_def delete_item_Inr split: sum.splits)
  from path have "abs_request (DeleteUser ev) (abs_table t) = (abs_table t)(k := None)" by simp
  with tbl st' show ?thesis by (auto simp: abs_table_del)
qed


lemma handle_Inr_store:
  "handle tn q st = (Inr r, st') \<Longrightarrow> \<exists>t k v. st tn = Some t \<and> st' = st(tn \<mapsto> t(k := v))"
proof (cases q)
  case (UpdateUser ev)
  moreover assume "handle tn q st = (Inr r, st')"
  ultimately show ?thesis by (fastforce dest!: update_user_store)
qed (fastforce dest!: create_user_store delete_user_store)+

lemma run_reach: "reach tn st0 st \<Longrightarrow> reach tn st0 (snd (run tn qs st))"
proof (induction qs arbitrary: st)
  case Nil
  then show ?case by simp
next
  case (Cons q qs)
  obtain r st' where h: "handle tn q st = (r, st')" by (cases "handle tn q st")
  with Cons.prems have "reach tn st0 st'" by (rule reach_step)
  then have "reach tn st0 (snd (run tn qs st'))" by (rule Cons.IH)
  with h show ?case by (cases "run tn qs st'") simp
qed

end
