(* ===== verification/Api_Local.thy ===== *)
theory Api_Local
  imports Api
begin

text \<open>
  What a request touches: the record key it addresses (\<open>request_key\<close>), the lemmas
  that a handler reads nothing of the store but its table's existence and its own item
  and writes only that item, that a failed request writes nothing whatever the other
  items are, and that deleting keys one by one empties a table. The claims that
  requests on different keys commute and that every table can be emptied rest on
  them.
\<close>

text \<open>The key a request addresses: the decoded body's \<open>id\<close> for create, the path's
  \<open>id\<close> for update and delete, when it is a string (any other request writes nothing).\<close>

fun request_key :: "api_request \<Rightarrow> string option" where
  "request_key (CreateUser ev) =
     (case res_bind (res_bind (py_getitem ev ''body'') py_json_loads) (\<lambda>b. py_getitem b ''id'') of
        Inr (JStr k) \<Rightarrow> Some k | _ \<Rightarrow> None)"
| "request_key (UpdateUser ev) =
     (case res_bind (py_getitem ev ''pathParameters'') (\<lambda>pp. py_getitem pp ''id'') of
        Inr (JStr k) \<Rightarrow> Some k | _ \<Rightarrow> None)"
| "request_key (DeleteUser ev) =
     (case res_bind (py_getitem ev ''pathParameters'') (\<lambda>pp. py_getitem pp ''id'') of
        Inr (JStr k) \<Rightarrow> Some k | _ \<Rightarrow> None)"

text \<open>The API-Gateway event of \<open>DELETE /users/{k}\<close>.\<close>

definition delete_request :: "string \<Rightarrow> api_request" where
  "delete_request k = DeleteUser (JObj [(''pathParameters'', JObj [(''id'', JStr k)])])"

text \<open>The events a client sends for a record \<open>d\<close> (spec, section 6): the body is
  \<open>json.dumps(d)\<close>, the path carries the id.\<close>

definition create_request :: "(string \<times> json) list \<Rightarrow> api_request" where
  "create_request d = CreateUser (JObj [(''body'', JStr (json_dumps (JObj d)))])"

definition update_request :: "string \<Rightarrow> (string \<times> json) list \<Rightarrow> api_request" where
  "update_request k d =
     UpdateUser (JObj [(''pathParameters'', JObj [(''id'', JStr k)]), (''body'', JStr (json_dumps (JObj d)))])"

section \<open>Lemmas\<close>

text \<open>Locality: a request reads nothing of the store but the existence of its table
  and the item under its own key, and writes only that item.\<close>

lemma create_user_Inl_local:
  "create_user tn ev st = (Inl e, st') \<Longrightarrow> st tn = Some t \<Longrightarrow> stb tn = Some tb \<Longrightarrow>
   create_user tn ev stb = (Inl e, stb)"
  by (auto simp: create_user_def put_item_def res_bind_eq_Inl split: sum.splits json.splits)

lemma delete_user_Inl_local:
  "delete_user tn ev st = (Inl e, st') \<Longrightarrow> st tn = Some t \<Longrightarrow> stb tn = Some tb \<Longrightarrow>
   delete_user tn ev stb = (Inl e, stb)"
  by (auto simp: delete_user_def delete_item_def res_bind_eq_Inl split: sum.splits)

lemma update_item_Inl_local:
  assumes "update_item st tn v e vs = Inl err" and "st tn = Some t" and "stb tn = Some tb"
  shows "update_item stb tn v e vs = Inl err"
  using assms unfolding update_item_def
  by (cases "serialize v"; cases "serialize_map vs"; cases "parse_update_expr e")
     (simp_all add: res_bind_eq_Inl split: if_splits)

lemma update_user_Inl_local:
  assumes "update_user tn ev st = (Inl e, st')" and "st tn = Some t" and "stb tn = Some tb"
  shows "update_user tn ev stb = (Inl e, stb)"
  using assms update_item_Inl_local [of st tn _ _ _ _ t stb tb]
  by (auto simp: update_user_def split: sum.splits prod.splits)

lemma update_item_Inr_local:
  assumes "update_item st tn (JStr k) e vs = Inr st'" and "st tn = Some t" and "stb tn = Some tb"
    and "tb k = t k"
  shows "\<exists>it. st' = st(tn \<mapsto> t(k \<mapsto> it)) \<and> update_item stb tn (JStr k) e vs = Inr (stb(tn \<mapsto> tb(k \<mapsto> it)))"
  using assms unfolding update_item_def
  by (cases "serialize_map vs"; cases "parse_update_expr e")
     (auto simp: key_value_def split: if_splits)

lemma create_user_Inr_local:
  assumes "request_key (CreateUser ev) = Some k" and "create_user tn ev st = (Inr r, st')"
    and "st tn = Some t" and "stb tn = Some tb"
  shows "\<exists>it. st' = st(tn \<mapsto> t(k \<mapsto> it)) \<and> create_user tn ev stb = (Inr r, stb(tn \<mapsto> tb(k \<mapsto> it)))"
proof -
  from assms(2) obtain body user_id where dec: "res_bind (py_getitem ev ''body'') py_json_loads = Inr body"
    and uid: "py_getitem body ''id'' = Inr user_id" and put: "put_item st tn body = Inr st'"
    and r: "r = message_response 201 (''User '' @ py_str user_id @ '' created'')"
    by (auto simp: create_user_Inr)
  from assms(1) dec uid have "user_id = JStr k" by (simp split: sum.splits json.splits)
  from put assms(3) obtain d m k' where body: "body = JObj d" and ser: "serialize_map d = Inr m"
    and key: "map_of m key_attr = Some (AS k')" and "k' \<noteq> []" and st': "st' = st(tn \<mapsto> t(k' \<mapsto> map_of m))"
    by (auto simp: put_item_Inr)
  from uid body \<open>user_id = JStr k\<close> have "map_of d key_attr = Some (JStr k)"
    by (simp add: py_getitem_def key_attr_def split: option.splits)
  with ser key have "k' = k" by (auto dest: serialize_map_lookup)
  with body ser key \<open>k' \<noteq> []\<close> assms(4) have "put_item stb tn body = Inr (stb(tn \<mapsto> tb(k \<mapsto> map_of m)))"
    by (auto simp: put_item_Inr)
  with dec uid r st' \<open>k' = k\<close> show ?thesis by (auto simp: create_user_Inr)
qed

lemma delete_user_Inr_local:
  assumes "request_key (DeleteUser ev) = Some k" and "delete_user tn ev st = (Inr r, st')"
    and "st tn = Some t" and "stb tn = Some tb"
  shows "st' = st(tn \<mapsto> t(k := None)) \<and> delete_user tn ev stb = (Inr r, stb(tn \<mapsto> tb(k := None)))"
proof -
  from assms(1,2) have uid: "res_bind (py_getitem ev ''pathParameters'') (\<lambda>pp. py_getitem pp ''id'') = Inr (JStr k)"
    and del: "delete_item st tn (JStr k) = Inr st'"
    and r: "r = message_response 200 (''User '' @ k @ '' deleted'')"
    by (auto simp: delete_user_def split: sum.splits json.splits)
  from del assms(3) have "k \<noteq> []" and st': "st' = st(tn \<mapsto> t(k := None))"
    by (auto simp: delete_item_Inr)
  with assms(4) have "delete_item stb tn (JStr k) = Inr (stb(tn \<mapsto> tb(k := None)))"
    by (simp add: delete_item_Inr)
  with uid r st' show ?thesis by (simp add: delete_user_def)
qed

lemma update_user_Inr_local:
  assumes "request_key (UpdateUser ev) = Some k" and "update_user tn ev st = (Inr r, st')"
    and "st tn = Some t" and "stb tn = Some tb" and "tb k = t k"
  shows "\<exists>it. st' = st(tn \<mapsto> t(k \<mapsto> it)) \<and> update_user tn ev stb = (Inr r, stb(tn \<mapsto> tb(k \<mapsto> it)))"
proof -
  from assms(1,2) obtain items e vs where
        uid: "res_bind (py_getitem ev ''pathParameters'') (\<lambda>pp. py_getitem pp ''id'') = Inr (JStr k)"
    and items: "res_bind (res_bind (py_getitem ev ''body'') py_json_loads) py_items = Inr items"
    and loop: "update_loop items (''SET '', []) = (e, vs)"
    and upd: "update_item st tn (JStr k) (py_rstrip '', '' e) vs = Inr st'"
    and r: "r = message_response 200 (''User '' @ k @ '' updated'')"
    by (auto simp: update_user_def split: sum.splits json.splits prod.splits)
  from update_item_Inr_local [where st = st and stb = stb and tn = tn, OF upd assms(3-5)] obtain it where st': "st' = st(tn \<mapsto> t(k \<mapsto> it))"
    and upd2: "update_item stb tn (JStr k) (py_rstrip '', '' e) vs = Inr (stb(tn \<mapsto> tb(k \<mapsto> it)))"
    by blast
  from uid items loop upd2 r have "update_user tn ev stb = (Inr r, stb(tn \<mapsto> tb(k \<mapsto> it)))"
    by (simp add: update_user_def)
  with st' show ?thesis by blast
qed

lemma handle_local:
  assumes "request_key q = Some k" and "handle tn q st = (r, st')"
    and "st tn = Some t" and "stb tn = Some tb" and "tb k = t k"
  shows "\<exists>v. st' = (case r of Inl e \<Rightarrow> st | Inr x \<Rightarrow> st(tn \<mapsto> t(k := v))) \<and>
             handle tn q stb = (r, case r of Inl e \<Rightarrow> stb | Inr x \<Rightarrow> stb(tn \<mapsto> tb(k := v)))"
proof (cases r)
  case (Inl e)
  with assms have "st' = st" by (auto dest: handle_Inl)
  moreover from assms Inl have "handle tn q stb = (Inl e, stb)"
    by (cases q) (auto intro: create_user_Inl_local update_user_Inl_local delete_user_Inl_local)
  ultimately show ?thesis using Inl by simp
next
  case (Inr x)
  show ?thesis
  proof (cases q)
    case (CreateUser ev)
    with assms Inr have "create_user tn ev st = (Inr x, st')" "request_key (CreateUser ev) = Some k" by simp_all
    from create_user_Inr_local [where st = st and stb = stb and tn = tn, OF this(2,1) assms(3,4)] obtain it where
      "st' = st(tn \<mapsto> t(k \<mapsto> it))" "create_user tn ev stb = (Inr x, stb(tn \<mapsto> tb(k \<mapsto> it)))" by blast
    with CreateUser Inr show ?thesis by (intro exI [of _ "Some it"]) simp
  next
    case (UpdateUser ev)
    with assms Inr have "update_user tn ev st = (Inr x, st')" "request_key (UpdateUser ev) = Some k" by simp_all
    from update_user_Inr_local [where st = st and stb = stb and tn = tn, OF this(2,1) assms(3-5)] obtain it where
      "st' = st(tn \<mapsto> t(k \<mapsto> it))" "update_user tn ev stb = (Inr x, stb(tn \<mapsto> tb(k \<mapsto> it)))" by blast
    with UpdateUser Inr show ?thesis by (intro exI [of _ "Some it"]) simp
  next
    case (DeleteUser ev)
    with assms Inr have "delete_user tn ev st = (Inr x, st')" "request_key (DeleteUser ev) = Some k" by simp_all
    from delete_user_Inr_local [where st = st and stb = stb and tn = tn, OF this(2,1) assms(3,4)]
    have "st' = st(tn \<mapsto> t(k := None))" "delete_user tn ev stb = (Inr x, stb(tn \<mapsto> tb(k := None)))" by blast+
    with DeleteUser Inr show ?thesis by (intro exI [of _ None]) simp
  qed
qed

lemma handle_no_table: "st tn = None \<Longrightarrow> handle tn q st = (r, st') \<Longrightarrow> st' = st"
  by (cases r) (auto dest: handle_Inl handle_Inr_store)

lemma handle_delete_request:
  "st tn = Some t \<Longrightarrow> k \<noteq> [] \<Longrightarrow>
   handle tn (delete_request k) st = (Inr (message_response 200 (''User '' @ k @ '' deleted'')), st(tn \<mapsto> t(k := None)))"
  by (simp add: delete_request_def delete_user_def py_getitem_def delete_item_def key_value_def)

lemma run_delete_requests:
  assumes "st tn = Some t" and "list_all (\<lambda>k. k \<noteq> []) ks"
  shows "run tn (map delete_request ks) st =
           (map (\<lambda>k. Inr (message_response 200 (''User '' @ k @ '' deleted''))) ks,
            st(tn \<mapsto> t |` (- set ks)))"
  using assms
proof (induction ks arbitrary: st t)
  case Nil
  then show ?case by (simp add: fun_upd_idem)
next
  case (Cons k ks)
  from Cons.prems have tbl: "st tn = Some t" and k: "k \<noteq> []" and ks: "list_all (\<lambda>k. k \<noteq> []) ks"
    by simp_all
  from tbl k have h: "handle tn (delete_request k) st =
      (Inr (message_response 200 (''User '' @ k @ '' deleted'')), st(tn \<mapsto> t(k := None)))"
    by (rule handle_delete_request)
  have r: "run tn (map delete_request ks) (st(tn \<mapsto> t(k := None))) =
      (map (\<lambda>k. Inr (message_response 200 (''User '' @ k @ '' deleted''))) ks,
       (st(tn \<mapsto> t(k := None)))(tn \<mapsto> t(k := None) |` (- set ks)))"
    by (rule Cons.IH) (simp_all add: ks fun_eq_iff)
  show ?case using h r by (simp add: fun_eq_iff restrict_map_def)
qed

end
