(* ===== verification/Slack_Alert.thy ===== *)
theory Slack_Alert
  imports Json_Roundtrip
begin

text \<open>
  \<open>src/lambda/slack_alert.py\<close>: the alert relay. Module initialisation reads the
  webhook URL from \<open>SLACK_WEBHOOK_URL\<close>; \<open>lambda_handler\<close> iterates over
  \<open>event['Records']\<close>, decodes each record's SNS message, formats a three-line text
  from its \<open>AlarmName\<close>, \<open>NewStateValue\<close> and \<open>NewStateReason\<close>, and POSTs
  \<open>{"text": ...}\<close> as UTF-8 JSON to the webhook, then answers \<open>{"status": "ok"}\<close>.
  The network is an oracle \<open>net i q\<close> giving the outcome of the \<open>i\<close>-th POST of the
  invocation for request \<open>q\<close>; the state is the list of requests sent so far, in
  order, so that the number and order of POSTs is part of every result.
\<close>

section \<open>HTTP requests\<close>

record http_request =
  req_method :: string
  req_url :: string
  req_body :: "8 word list"
  req_headers :: "(string \<times> string) list"

text \<open>The outcome of \<open>http.request\<close>: urllib3 returns a response for every HTTP status
  (4xx and 5xx included) and raises \<open>MaxRetryError\<close> when no response arrives.\<close>

datatype http_outcome = HttpResponse nat | HttpFailure

type_synonym network = "nat \<Rightarrow> http_request \<Rightarrow> http_outcome"

text \<open>\<open>str.encode('utf-8')\<close> on the code points of the model (below 256): one byte
  below 128, two bytes \<open>110xxxxx 10xxxxxx\<close> above.\<close>

definition utf8_char :: "char \<Rightarrow> 8 word list" where
  "utf8_char c =
     (if cp c < 128 then [of_nat (cp c)]
      else [of_nat (192 + cp c div 64), of_nat (128 + cp c mod 64)])"

definition utf8_encode :: "string \<Rightarrow> 8 word list" where
  "utf8_encode s = concat (map utf8_char s)"

section \<open>The handler\<close>

text \<open>\<open>SLACK_WEBHOOK = os.environ['SLACK_WEBHOOK_URL']\<close>.\<close>

definition webhook_init :: "env \<Rightarrow> string res" where
  "webhook_init e = getenv e ''SLACK_WEBHOOK_URL''"

text \<open>Line 11: the f-string calls \<open>message.get\<close> three times, left to right; an absent
  key gives \<open>None\<close>, which \<open>str()\<close> prints as \<open>None\<close>.\<close>

definition alert_text :: "json \<Rightarrow> string res" where
  "alert_text message =
     res_bind (py_dict_get message ''AlarmName'') (\<lambda>a.
       res_bind (py_dict_get message ''NewStateValue'') (\<lambda>s.
         res_bind (py_dict_get message ''NewStateReason'') (\<lambda>r.
           Inr (''ALERT: '' @ py_str a @ '' triggered'' @ [CHR 0x0A] @
                ''Status: '' @ py_str s @ [CHR 0x0A] @
                ''Reason: '' @ py_str r))))"

text \<open>Lines 10-11 for one record: \<open>json.loads(record['Sns']['Message'])\<close>, then the
  text.\<close>

definition record_alert :: "json \<Rightarrow> string res" where
  "record_alert record =
     res_bind (py_getitem record ''Sns'') (\<lambda>sns.
       res_bind (py_getitem sns ''Message'') (\<lambda>m.
         res_bind (py_json_loads m) alert_text))"

text \<open>Lines 13-15: the request \<open>http.request\<close> sends for a text.\<close>

definition alert_request :: "string \<Rightarrow> string \<Rightarrow> http_request" where
  "alert_request url t =
     \<lparr>req_method = ''POST'', req_url = url,
      req_body = utf8_encode (json_dumps (JObj [(''text'', JStr t)])),
      req_headers = [(''Content-Type'', ''application/json'')]\<rparr>"

text \<open>One POST: the request is sent (it is in the trace whatever the outcome); a
  failure raises, a response of any status is ignored (\<open>resp\<close> is never read).\<close>

definition http_post :: "network \<Rightarrow> http_request list \<Rightarrow> http_request \<Rightarrow> unit res \<times> http_request list" where
  "http_post net sent q =
     (case net (length sent) q of
        HttpFailure \<Rightarrow> (Inl ConnectionFailure, sent @ [q])
      | HttpResponse _ \<Rightarrow> (Inr (), sent @ [q]))"

text \<open>The loop of lines 9-15: records in order; the first exception ends the
  invocation with the requests sent so far.\<close>

fun send_loop :: "string \<Rightarrow> network \<Rightarrow> json list \<Rightarrow> http_request list \<Rightarrow> unit res \<times> http_request list" where
  "send_loop url net [] sent = (Inr (), sent)"
| "send_loop url net (r # rs) sent =
     (case record_alert r of
        Inl e \<Rightarrow> (Inl e, sent)
      | Inr t \<Rightarrow>
          (case http_post net sent (alert_request url t) of
             (Inl e, sent') \<Rightarrow> (Inl e, sent')
           | (Inr _, sent') \<Rightarrow> send_loop url net rs sent'))"

definition slack_ok :: json where
  "slack_ok = JObj [(''status'', JStr ''ok'')]"

definition slack_handler :: "string \<Rightarrow> network \<Rightarrow> json \<Rightarrow> json res \<times> http_request list" where
  "slack_handler url net event =
     (case res_bind (py_getitem event ''Records'') py_iter of
        Inl e \<Rightarrow> (Inl e, [])
      | Inr rs \<Rightarrow>
          (case send_loop url net rs [] of
             (Inl e, sent) \<Rightarrow> (Inl e, sent)
           | (Inr _, sent) \<Rightarrow> (Inr slack_ok, sent)))"

text \<open>The module as the runtime loads it: \<open>http = urllib3.PoolManager()\<close> and
  \<open>SLACK_WEBHOOK = os.environ['SLACK_WEBHOOK_URL']\<close> run once per process (the latter
  fails with \<open>KeyError\<close> when the variable is unset), then every invocation calls
  \<open>lambda_handler\<close> with that URL.\<close>

definition slack_module :: "env \<Rightarrow> network \<Rightarrow> json \<Rightarrow> json res \<times> http_request list" where
  "slack_module e net event =
     (case webhook_init e of
        Inl err \<Rightarrow> (Inl err, [])
      | Inr url \<Rightarrow> slack_handler url net event)"

section \<open>Lemmas\<close>

lemma send_loop_ok:
  "res_map record_alert rs = Inr ts \<Longrightarrow> (\<forall>i q. net i q \<noteq> HttpFailure) \<Longrightarrow>
   send_loop url net rs sent = (Inr (), sent @ map (alert_request url) ts)"
  by (induction rs arbitrary: sent ts)
     (auto simp: res_bind_eq_Inr http_post_def split: http_outcome.splits)

lemma send_loop_fail:
  "res_map record_alert rs = Inr ts \<Longrightarrow> i < length rs \<Longrightarrow>
   (\<forall>j<i. \<forall>q. net (length sent + j) q \<noteq> HttpFailure) \<Longrightarrow>
   net (length sent + i) (alert_request url (ts ! i)) = HttpFailure \<Longrightarrow>
   send_loop url net rs sent = (Inl ConnectionFailure, sent @ take (Suc i) (map (alert_request url) ts))"
proof (induction rs arbitrary: sent ts i)
  case Nil
  then show ?case by simp
next
  case (Cons r rs)
  from Cons.prems(1) obtain t ts' where r: "record_alert r = Inr t" and rs: "res_map record_alert rs = Inr ts'"
    and ts: "ts = t # ts'" by (auto simp: res_bind_eq_Inr)
  show ?case
  proof (cases i)
    case 0
    with Cons.prems r ts show ?thesis by (simp add: http_post_def)
  next
    case (Suc i')
    from Cons.prems(3) Suc have "net (length sent) (alert_request url t) \<noteq> HttpFailure" by auto
    then obtain n where net: "net (length sent) (alert_request url t) = HttpResponse n"
      by (cases "net (length sent) (alert_request url t)") auto
    have "send_loop url net rs (sent @ [alert_request url t]) =
            (Inl ConnectionFailure, (sent @ [alert_request url t]) @ take (Suc i') (map (alert_request url) ts'))"
      using Cons.prems Suc ts by (intro Cons.IH [OF rs]) auto
    with r net ts Suc show ?thesis by (simp add: http_post_def)
  qed
qed

lemma utf8_encode_ascii:
  "\<forall>c\<in>set s. cp c < 128 \<Longrightarrow> utf8_encode s = map (\<lambda>c. of_nat (cp c)) s"
  by (induction s) (auto simp: utf8_encode_def utf8_char_def)

lemma alert_text_JObj:
  "alert_text (JObj d) =
     Inr (''ALERT: '' @ py_str (case map_of d ''AlarmName'' of None \<Rightarrow> JNull | Some x \<Rightarrow> x) @ '' triggered'' @ [CHR 0x0A] @
          ''Status: '' @ py_str (case map_of d ''NewStateValue'' of None \<Rightarrow> JNull | Some x \<Rightarrow> x) @ [CHR 0x0A] @
          ''Reason: '' @ py_str (case map_of d ''NewStateReason'' of None \<Rightarrow> JNull | Some x \<Rightarrow> x))"
  by (simp add: alert_text_def)

lemma alert_body_enc:
  "req_body (alert_request url t) = map (\<lambda>c. of_nat (cp c)) (json_dumps (JObj [(''text'', JStr t)]))"
  and alert_body_asc: "\<forall>c\<in>set (json_dumps (JObj [(''text'', JStr t)])). cp c < 128"
proof -
  show asc: "\<forall>c\<in>set (json_dumps (JObj [(''text'', JStr t)])). cp c < 128"
    by (auto simp: json_str_ascii)
  then show "req_body (alert_request url t) = map (\<lambda>c. of_nat (cp c)) (json_dumps (JObj [(''text'', JStr t)]))"
    by (simp add: alert_request_def utf8_encode_ascii)
qed

lemma alert_body_chars:
  "map (\<lambda>b. char_of (unat b)) (req_body (alert_request url t)) = json_dumps (JObj [(''text'', JStr t)])"
proof -
  have conv: "map (\<lambda>b. char_of (unat b)) (map (\<lambda>c. of_nat (cp c) :: 8 word) s) = s"
    if "\<forall>c\<in>set s. cp c < 128" for s
    using that by (induction s) (simp_all add: unat_of_nat)
  show ?thesis unfolding alert_body_enc by (rule conv [OF alert_body_asc])
qed

lemma alert_body_decodes:
  "json_loads (map (\<lambda>b. char_of (unat b)) (req_body (alert_request url t))) = Inr (JObj [(''text'', JStr t)])"
  using loads_dumps [of "JObj [(''text'', JStr t)]"] by (simp only: alert_body_chars) simp

lemma send_loop_sent:
  "send_loop url net rs sent0 = (r, sent) \<Longrightarrow>
     \<exists>ts. sent = sent0 @ map (alert_request url) ts \<and> length ts \<le> length rs \<and>
          (\<forall>i<length ts. record_alert (rs ! i) = Inr (ts ! i))"
proof (induction rs arbitrary: sent0)
  case Nil
  then show ?case by simp
next
  case (Cons x rs)
  show ?case
  proof (cases "record_alert x")
    case (Inl e)
    with Cons.prems show ?thesis by (intro exI [of _ "[]"]) simp
  next
    case (Inr t)
    show ?thesis
    proof (cases "net (length sent0) (alert_request url t)")
      case HttpFailure
      with Cons.prems Inr show ?thesis
        by (intro exI [of _ "[t]"]) (simp add: http_post_def)
    next
      case (HttpResponse n)
      with Cons.prems Inr have "send_loop url net rs (sent0 @ [alert_request url t]) = (r, sent)"
        by (simp add: http_post_def)
      from Cons.IH [OF this] obtain ts where "sent = (sent0 @ [alert_request url t]) @ map (alert_request url) ts"
        and "length ts \<le> length rs" and "\<forall>i<length ts. record_alert (rs ! i) = Inr (ts ! i)" by blast
      with Inr show ?thesis
        by (intro exI [of _ "t # ts"]) (auto simp: nth_Cons split: nat.split)
    qed
  qed
qed

lemma send_loop_bad:
  "res_map record_alert (take i rs) = Inr ts \<Longrightarrow> i < length rs \<Longrightarrow> record_alert (rs ! i) = Inl e \<Longrightarrow>
   (\<forall>j q. net j q \<noteq> HttpFailure) \<Longrightarrow>
   send_loop url net rs sent = (Inl e, sent @ map (alert_request url) ts)"
proof (induction rs arbitrary: sent i ts)
  case Nil
  then show ?case by simp
next
  case (Cons x rs)
  show ?case
  proof (cases i)
    case 0
    with Cons.prems show ?thesis by simp
  next
    case (Suc i')
    with Cons.prems obtain t ts' where x: "record_alert x = Inr t" and ts: "ts = t # ts'"
      and rs: "res_map record_alert (take i' rs) = Inr ts'"
      by (auto simp: res_bind_eq_Inr)
    from Cons.prems(4) obtain n where "net (length sent) (alert_request url t) = HttpResponse n"
      by (cases "net (length sent) (alert_request url t)") auto
    moreover have "send_loop url net rs (sent @ [alert_request url t]) =
                     (Inl e, (sent @ [alert_request url t]) @ map (alert_request url) ts')"
      using Cons.prems Suc by (intro Cons.IH [OF rs]) auto
    ultimately show ?thesis using x ts by (simp add: http_post_def)
  qed
qed

lemma send_loop_Inr_iff:
  "send_loop url net rs sent0 = (Inr u, sent) \<longleftrightarrow>
     (\<exists>ts. res_map record_alert rs = Inr ts \<and>
          (\<forall>i<length ts. net (length sent0 + i) (alert_request url (ts ! i)) \<noteq> HttpFailure) \<and>
          sent = sent0 @ map (alert_request url) ts)"
proof (induction rs arbitrary: sent0)
  case Nil
  then show ?case by auto
next
  case (Cons r rs)
  show ?case
  proof (cases "record_alert r")
    case (Inl e)
    then show ?thesis by simp
  next
    case (Inr t)
    show ?thesis
    proof (cases "net (length sent0) (alert_request url t)")
      case HttpFailure
      with Inr show ?thesis by (auto simp: http_post_def res_bind_eq_Inr)
    next
      case (HttpResponse c)
      let ?q = "alert_request url t"
      have step: "send_loop url net (r # rs) sent0 = send_loop url net rs (sent0 @ [?q])"
        using Inr HttpResponse by (simp add: http_post_def)
      have "\<And>ts'. (\<forall>i<length (t # ts'). net (length sent0 + i) (alert_request url ((t # ts') ! i)) \<noteq> HttpFailure) \<longleftrightarrow>
                (\<forall>i<length ts'. net (length (sent0 @ [?q]) + i) (alert_request url (ts' ! i)) \<noteq> HttpFailure)"
        using HttpResponse by (simp add: All_less_Suc2)
      then have "(\<exists>ts. res_map record_alert (r # rs) = Inr ts \<and>
                   (\<forall>i<length ts. net (length sent0 + i) (alert_request url (ts ! i)) \<noteq> HttpFailure) \<and>
                   sent = sent0 @ map (alert_request url) ts) \<longleftrightarrow>
                 (\<exists>ts'. res_map record_alert rs = Inr ts' \<and>
                   (\<forall>i<length ts'. net (length (sent0 @ [?q]) + i) (alert_request url (ts' ! i)) \<noteq> HttpFailure) \<and>
                   sent = (sent0 @ [?q]) @ map (alert_request url) ts')"
        using Inr by (auto simp: res_bind_eq_Inr)
      with step Cons.IH [of "sent0 @ [?q]"] show ?thesis by simp
    qed
  qed
qed

section \<open>Properties\<close>

text \<open>
  C9. When every record carries a decodable alarm message and no POST fails to
  connect, the relay answers \<open>{"status": "ok"}\<close> after exactly one POST per record,
  in the order of the records, each with that record's text; a response with an error
  status (such as 500) does not stop the loop (spec, section 8, property 6).
\<close>

theorem slack_handler_posts_all:
  assumes "py_getitem event ''Records'' = Inr (JArr rs)" and "res_map record_alert rs = Inr ts"
    and "\<forall>i q. net i q \<noteq> HttpFailure"
  shows "slack_handler url net event = (Inr slack_ok, map (alert_request url) ts)"
  using assms by (simp add: slack_handler_def send_loop_ok)

theorem slack_handler_posts_all_witness:
  "slack_handler ''https://hooks.example/T1'' (\<lambda>i q. if i = 1 then HttpResponse 500 else HttpResponse 200)
     (JObj [(''Records'', JArr
       [JObj [(''Sns'', JObj [(''Message'', JStr ''{\"AlarmName\": \"cpu\", \"NewStateValue\": \"ALARM\", \"NewStateReason\": \"high\"}'')])],
           JObj [(''Sns'', JObj [(''Message'', JStr ''{\"AlarmName\": \"disk\"}'')])],
           JObj [(''Sns'', JObj [(''Message'', JStr ''{\"AlarmName\": \"mem\", \"NewStateValue\": \"OK\"}'')])]])]) =
   (Inr slack_ok, map (alert_request ''https://hooks.example/T1'')
      [''ALERT: cpu triggered\<newline>Status: ALARM\<newline>Reason: high'',
       ''ALERT: disk triggered\<newline>Status: None\<newline>Reason: None'',
       ''ALERT: mem triggered\<newline>Status: OK\<newline>Reason: None''])"
proof -
  have texts: "res_map record_alert
      [JObj [(''Sns'', JObj [(''Message'', JStr ''{\"AlarmName\": \"cpu\", \"NewStateValue\": \"ALARM\", \"NewStateReason\": \"high\"}'')])],
           JObj [(''Sns'', JObj [(''Message'', JStr ''{\"AlarmName\": \"disk\"}'')])],
           JObj [(''Sns'', JObj [(''Message'', JStr ''{\"AlarmName\": \"mem\", \"NewStateValue\": \"OK\"}'')])]] =
     Inr [''ALERT: cpu triggered\<newline>Status: ALARM\<newline>Reason: high'',
          ''ALERT: disk triggered\<newline>Status: None\<newline>Reason: None'',
          ''ALERT: mem triggered\<newline>Status: OK\<newline>Reason: None'']"
    by code_simp
  show ?thesis
    by (rule slack_handler_posts_all [OF _ texts]) simp_all
qed

text \<open>
  C10. A POST that fails to connect ends the invocation with the exception: the
  records after it are never sent. The spec requires that a failure on one envelope
  does not prevent attempting the rest (sections 4.4 and 7).
\<close>

theorem slack_handler_stops_on_failure:
  assumes "py_getitem event ''Records'' = Inr (JArr rs)" and "res_map record_alert rs = Inr ts"
    and "i < length rs" and "\<forall>j<i. \<forall>q. net j q \<noteq> HttpFailure"
    and "net i (alert_request url (ts ! i)) = HttpFailure"
  shows "slack_handler url net event = (Inl ConnectionFailure, take (Suc i) (map (alert_request url) ts))"
  using assms send_loop_fail [of rs ts i net "[]" url] by (simp add: slack_handler_def)

theorem slack_handler_stops_on_failure_witness:
  "slack_handler ''https://hooks.example/T1'' (\<lambda>i q. if i = 0 then HttpFailure else HttpResponse 200)
     (JObj [(''Records'', JArr
       [JObj [(''Sns'', JObj [(''Message'', JStr ''{\"AlarmName\": \"cpu\", \"NewStateValue\": \"ALARM\", \"NewStateReason\": \"high\"}'')])],
           JObj [(''Sns'', JObj [(''Message'', JStr ''{\"AlarmName\": \"disk\"}'')])],
           JObj [(''Sns'', JObj [(''Message'', JStr ''{\"AlarmName\": \"mem\", \"NewStateValue\": \"OK\"}'')])]])]) =
   (Inl ConnectionFailure, [alert_request ''https://hooks.example/T1'' ''ALERT: cpu triggered\<newline>Status: ALARM\<newline>Reason: high''])"
proof -
  have texts: "res_map record_alert
      [JObj [(''Sns'', JObj [(''Message'', JStr ''{\"AlarmName\": \"cpu\", \"NewStateValue\": \"ALARM\", \"NewStateReason\": \"high\"}'')])],
           JObj [(''Sns'', JObj [(''Message'', JStr ''{\"AlarmName\": \"disk\"}'')])],
           JObj [(''Sns'', JObj [(''Message'', JStr ''{\"AlarmName\": \"mem\", \"NewStateValue\": \"OK\"}'')])]] =
     Inr [''ALERT: cpu triggered\<newline>Status: ALARM\<newline>Reason: high'',
          ''ALERT: disk triggered\<newline>Status: None\<newline>Reason: None'',
          ''ALERT: mem triggered\<newline>Status: OK\<newline>Reason: None'']"
    by code_simp
  show ?thesis
    using slack_handler_stops_on_failure [OF _ texts, of "JObj [(''Records'', JArr
      [JObj [(''Sns'', JObj [(''Message'', JStr ''{\"AlarmName\": \"cpu\", \"NewStateValue\": \"ALARM\", \"NewStateReason\": \"high\"}'')])],
           JObj [(''Sns'', JObj [(''Message'', JStr ''{\"AlarmName\": \"disk\"}'')])],
           JObj [(''Sns'', JObj [(''Message'', JStr ''{\"AlarmName\": \"mem\", \"NewStateValue\": \"OK\"}'')])]])]" 0] by simp
qed

text \<open>
  C11. A message without \<open>NewStateReason\<close> does not raise: its text ends with the
  line \<open>Reason: None\<close> (Python's \<open>str(None)\<close>), where the spec asks for an empty
  reason line (section 8, property 7).
\<close>

theorem alert_missing_reason:
  assumes "map_of d ''NewStateReason'' = None"
  shows "\<exists>a s. alert_text (JObj d) =
           Inr (''ALERT: '' @ a @ '' triggered'' @ [CHR 0x0A] @ ''Status: '' @ s @ [CHR 0x0A] @ ''Reason: None'')"
proof -
  have "py_str JNull = ''None''" by (simp add: py_str_def)
  with assms show ?thesis
    by (intro exI [where x = "py_str (case map_of d ''AlarmName'' of None \<Rightarrow> JNull | Some x \<Rightarrow> x)"]
              exI [where x = "py_str (case map_of d ''NewStateValue'' of None \<Rightarrow> JNull | Some x \<Rightarrow> x)"])
       (simp add: alert_text_JObj)
qed


theorem alert_missing_reason_witness:
  "\<exists>a s. alert_text (JObj [(''AlarmName'', JStr ''cpu''), (''NewStateValue'', JStr ''ALARM'')]) =
     Inr (''ALERT: '' @ a @ '' triggered'' @ [CHR 0x0A] @ ''Status: '' @ s @ [CHR 0x0A] @ ''Reason: None'')"
  by (rule alert_missing_reason) simp

text \<open>
  C20. What the webhook receives: decoding the body bytes of the POST for a text gives
  exactly the document \<open>{"text": t}\<close>, for every text the relay formats.
\<close>

theorem alert_request_decodes:
  "json_loads (map (\<lambda>b. char_of (unat b)) (req_body (alert_request url t))) = Inr (JObj [(''text'', JStr t)])"
  by (rule alert_body_decodes)

theorem alert_request_decodes_witness:
  "json_loads (map (\<lambda>b. char_of (unat b)) (req_body (alert_request ''https://hooks.example/T1''
      (''ALERT: cpu triggered'' @ [CHR 0x0A] @ ''Reason: \"x\"'')))) =
   Inr (JObj [(''text'', JStr (''ALERT: cpu triggered'' @ [CHR 0x0A] @ ''Reason: \"x\"''))])"
  by (rule alert_request_decodes)

text \<open>
  C21. Whatever the network does, the relay never retries, reorders or invents a POST:
  the requests of an invocation are at most one per record, and the \<open>i\<close>-th request
  carries the text of the \<open>i\<close>-th record (spec section 4: sequential, no retry, no
  batching).
\<close>

theorem slack_handler_sends_records:
  assumes "slack_handler url net event = (r, sent)" and "py_getitem event ''Records'' = Inr (JArr rs)"
  shows "length sent \<le> length rs \<and>
         (\<forall>i<length sent. \<exists>t. record_alert (rs ! i) = Inr t \<and> sent ! i = alert_request url t)"
proof -
  obtain r' where "send_loop url net rs [] = (r', sent)"
    using assms by (cases "send_loop url net rs []") (auto simp: slack_handler_def split: sum.splits)
  from send_loop_sent [OF this] obtain ts where "sent = map (alert_request url) ts"
    and "length ts \<le> length rs" and "\<forall>i<length ts. record_alert (rs ! i) = Inr (ts ! i)" by auto
  then show ?thesis by auto
qed

theorem slack_handler_sends_records_witness:
  "let rs = [JObj [(''Sns'', JObj [(''Message'', JStr ''{}'')])], JNull];
       sent = snd (slack_handler ''https://hooks.example/T1''
                     (\<lambda>i q. if i = 1 then HttpFailure else HttpResponse 200)
                     (JObj [(''Records'', JArr rs)]))
   in length sent \<le> length rs \<and>
      list_all (\<lambda>i. \<exists>t. record_alert (rs ! i) = Inr t \<and>
                         sent ! i = alert_request ''https://hooks.example/T1'' t) [0..<length sent]"
proof -
  let ?rs = "[JObj [(''Sns'', JObj [(''Message'', JStr ''{}'')])], JNull]"
  let ?sent = "snd (slack_handler ''https://hooks.example/T1''
                 (\<lambda>i q. if i = 1 then HttpFailure else HttpResponse 200) (JObj [(''Records'', JArr ?rs)]))"
  have "length ?sent \<le> length ?rs \<and>
        (\<forall>i<length ?sent. \<exists>t. record_alert (?rs ! i) = Inr t \<and>
                               ?sent ! i = alert_request ''https://hooks.example/T1'' t)"
    by (rule slack_handler_sends_records [OF prod.collapse [symmetric]]) simp
  then show ?thesis by (simp only: Let_def list_all_iff set_upt atLeastLessThan_iff) simp
qed

text \<open>
  C22. A record that cannot be read (no \<open>Sns\<close>, a message that is not JSON, a
  message that is not a dict) ends the invocation with its exception after the POSTs
  of the records before it; the records after it are not sent.
\<close>

theorem slack_handler_bad_record:
  assumes "py_getitem event ''Records'' = Inr (JArr rs)" and "i < length rs"
    and "res_map record_alert (take i rs) = Inr ts" and "record_alert (rs ! i) = Inl e"
    and "\<forall>j q. net j q \<noteq> HttpFailure"
  shows "slack_handler url net event = (Inl e, map (alert_request url) ts)"
  using assms send_loop_bad [of i rs ts e net url "[]"] by (simp add: slack_handler_def)

theorem slack_handler_bad_record_witness:
  "slack_handler ''https://hooks.example/T1'' (\<lambda>i q. HttpResponse 200)
     (JObj [(''Records'', JArr [JObj [(''Sns'', JObj [(''Message'', JStr ''{\"AlarmName\": \"cpu\"}'')])],
                                 JObj [(''Sns'', JObj [(''Message'', JStr ''not json'')])],
                                 JObj [(''Sns'', JObj [(''Message'', JStr ''{}'')])]])]) =
   (Inl JSONDecodeError,
    map (alert_request ''https://hooks.example/T1'')
      [''ALERT: cpu triggered'' @ [CHR 0x0A] @ ''Status: None'' @ [CHR 0x0A] @ ''Reason: None''])"
proof -
  have ok: "res_map record_alert (take 1 [JObj [(''Sns'', JObj [(''Message'', JStr ''{\"AlarmName\": \"cpu\"}'')])],
                                 JObj [(''Sns'', JObj [(''Message'', JStr ''not json'')])],
                                 JObj [(''Sns'', JObj [(''Message'', JStr ''{}'')])]]) =
     Inr [''ALERT: cpu triggered'' @ [CHR 0x0A] @ ''Status: None'' @ [CHR 0x0A] @ ''Reason: None'']"
    by code_simp
  have bad: "record_alert ([JObj [(''Sns'', JObj [(''Message'', JStr ''{\"AlarmName\": \"cpu\"}'')])],
                                 JObj [(''Sns'', JObj [(''Message'', JStr ''not json'')])],
                                 JObj [(''Sns'', JObj [(''Message'', JStr ''{}'')])]] ! 1) = Inl JSONDecodeError"
    by code_simp
  show ?thesis
    by (rule slack_handler_bad_record [OF _ _ ok bad]) simp_all
qed

text \<open>
  C31. The relay answers \<open>{"status": "ok"}\<close> exactly when \<open>event['Records']\<close>
  is iterable, every record is readable, and no POST fails to connect; the requests sent
  are then one per record, in order. Any HTTP status counts as delivered, since the
  code never reads \<open>resp\<close> (spec, section 9).
\<close>

theorem slack_handler_ok_iff:
  "slack_handler url net event = (Inr slack_ok, sent) \<longleftrightarrow>
     (\<exists>rs ts. res_bind (py_getitem event ''Records'') py_iter = Inr rs \<and>
        res_map record_alert rs = Inr ts \<and>
        list_all (\<lambda>i. net i (alert_request url (ts ! i)) \<noteq> HttpFailure) [0..<length ts] \<and>
        sent = map (alert_request url) ts)"
proof (cases "res_bind (py_getitem event ''Records'') py_iter")
  case (Inl e)
  then show ?thesis by (simp add: slack_handler_def)
next
  case (Inr rs)
  obtain r s where sl: "send_loop url net rs [] = (r, s)" by fastforce
  have "slack_handler url net event = (Inr slack_ok, sent) \<longleftrightarrow> (\<exists>u. send_loop url net rs [] = (Inr u, sent))"
    using Inr sl by (cases r) (auto simp: slack_handler_def)
  also have "\<dots> \<longleftrightarrow> (\<exists>ts. res_map record_alert rs = Inr ts \<and>
        (\<forall>i<length ts. net i (alert_request url (ts ! i)) \<noteq> HttpFailure) \<and> sent = map (alert_request url) ts)"
    by (simp add: send_loop_Inr_iff)
  finally show ?thesis using Inr by (simp add: list_all_iff atLeast0LessThan Ball_def lessThan_iff)
qed

theorem slack_handler_ok_iff_witness:
  "slack_handler ''https://hooks.example/T1'' (\<lambda>i q. HttpResponse 500)
     (JObj [(''Records'', JArr [JObj [(''Sns'', JObj [(''Message'', JStr ''{}'')])]])]) =
     (Inr slack_ok, [alert_request ''https://hooks.example/T1'' (''ALERT: None triggered'' @ [CHR 0x0A] @ ''Status: None'' @ [CHR 0x0A] @ ''Reason: None'')])"
proof -
  have dec: "json_loads ''{}'' = Inr (JObj [])" by code_simp
  have t: "record_alert (JObj [(''Sns'', JObj [(''Message'', JStr ''{}'')])]) =
             Inr (''ALERT: None triggered'' @ [CHR 0x0A] @ ''Status: None'' @ [CHR 0x0A] @ ''Reason: None'')"
    by (simp add: record_alert_def py_getitem_def py_json_loads_def dec alert_text_def py_dict_get_def py_str_def)
  show ?thesis
    by (subst slack_handler_ok_iff) (simp add: t py_getitem_def py_iter_def)
qed

end
