(* ===== verification/Spec2Isabelle.thy ===== *)
theory Spec2Isabelle
  imports Api_Local Slack_Alert
begin

text \<open>
  \<^bold>\<open>A verification model of the serverless user API and alert relay\<close>

  The program, \<open>src/lambda/\<close>, is four independent AWS Lambda handlers in Python.
  \<open>create_user.py\<close>, \<open>update_user.py\<close> and \<open>delete_user.py\<close> read an API
  Gateway event and write one DynamoDB table through boto3, whose name comes from
  \<open>TABLE_NAME\<close>; \<open>slack_alert.py\<close> reads a batch of SNS records and POSTs one
  chat message per record to the webhook in \<open>SLACK_WEBHOOK_URL\<close> with urllib3. The
  handlers share nothing but the table; each returns a dict (a status code and a JSON
  body, or \<open>{"status": "ok"}\<close>) or raises.

  \<^bold>\<open>Theories.\<close>
  \<^item> \<open>Prelude\<close>: the exceptions (\<open>exn\<close>), the result type \<open>'a res = exn + 'a\<close>
    with \<open>res_bind\<close> and \<open>res_map\<close> (every raise of the source is an \<open>Inl\<close>),
    Python dicts as association lists (\<open>dict_set\<close> is \<open>d[k] = v\<close>),
    \<open>str.rstrip\<close> (\<open>py_rstrip\<close>), \<open>str(int)\<close>, character classes.
  \<^item> \<open>Json\<close>: the decoded Python values (\<open>json\<close>), \<open>str()\<close>/\<open>repr()\<close>
    (\<open>py_str\<close>, \<open>py_repr\<close>, CPython's \<open>unicode_repr\<close>), \<open>json.dumps\<close>
    (\<open>json_dumps\<close>, \<open>ensure_ascii\<close> escaping) and the operations the handlers apply
    to decoded values: \<open>v[k]\<close> (\<open>py_getitem\<close>), \<open>v.get(k)\<close>
    (\<open>py_dict_get\<close>), \<open>for x in v\<close> (\<open>py_iter\<close>), \<open>v.items()\<close>.
  \<^item> \<open>Json_Decode\<close>: \<open>json.loads\<close> following CPython's C scanner
    (\<open>scan_string\<close>, \<open>scan_number\<close>, \<open>scan_literal\<close>, and \<open>scan\<close> for values,
    objects and arrays, with Python's last-key-wins dicts), and \<open>json_wf\<close>: every
    decoded dict has distinct keys at every depth.
  \<^item> \<open>Json_Roundtrip\<close>: the encoder against the decoder: \<open>json.loads\<close> reads
    back what \<open>json.dumps\<close> wrote, for the values without finite floats
    (\<open>dumpable\<close>), by a mutual induction over values, lists and dicts.
  \<^item> \<open>Dynamo_Reserved\<close>, \<open>Dynamo\<close>: the store \<open>db = string \<rightharpoonup> table\<close>,
    \<open>table = string \<rightharpoonup> item\<close>, \<open>item = string \<rightharpoonup> attr\<close>; boto3's
    \<open>TypeSerializer\<close> (\<open>serialize\<close>: floats raise \<open>TypeError\<close>, integers of 39
    digits or more the first trapped signal of boto3's decimal context, Overflow,
    Inexact or Rounded, as \<open>decimal_error\<close> computes it) and \<open>TypeDeserializer\<close>; the service's
    \<open>put_item\<close>, \<open>get_item\<close>, \<open>delete_item\<close> and \<open>update_item\<close>, the last
    with the parser of the \<open>SET\<close> expressions the handler builds, the reserved words
    and the request checks (\<open>update_ok\<close>).
  \<^item> \<open>Lambda\<close>: the environment (\<open>getenv\<close>, \<open>table_init\<close>) and the response dict
    (\<open>api_response\<close>, \<open>message_response\<close>).
  \<^item> \<open>Create_User\<close>, \<open>Update_User\<close>, \<open>Delete_User\<close>: each \<open>lambda_handler\<close>
    as a function \<open>string \<Rightarrow> json \<Rightarrow> db \<Rightarrow> api_response res \<times> db\<close> (table name,
    event, store in; answer or exception, store out), step by step as the source
    runs it; \<open>update_loop\<close> is the loop of \<open>update_user.py\<close> lines 14-16. Each
    theory also has the module as the runtime loads it (\<open>create_user_module\<close> and
    so on: lines 5-6, the table binding, then the handler), as \<open>Slack_Alert\<close> has
    \<open>slack_module\<close>.
  \<^item> \<open>Api\<close>: the three handlers composed over the store: \<open>handle\<close> dispatches an
    \<open>api_request\<close>, \<open>reach\<close> is the inductive set of stores reachable by any
    sequence of requests, \<open>run\<close> executes a given sequence, \<open>well_keyed\<close> is the
    store invariant, and \<open>abs_request\<close> is the abstract contract: the operation
    of a request, read from the request alone, on
    \<open>records = string \<rightharpoonup> (string \<rightharpoonup> json)\<close>, the table as the program reads
    it back (\<open>abs_table\<close>).
  \<^item> \<open>Api_Local\<close>: \<open>request_key\<close>, the record a request addresses, with the
    locality lemmas that a handler reads only its table's existence and its own item
    and writes only that item.
  \<^item> \<open>Slack_Alert\<close>: the relay, with the network as an oracle
    \<open>net :: nat \<Rightarrow> http_request \<Rightarrow> http_outcome\<close> for the \<open>i\<close>-th POST of an
    invocation and the list of sent requests (\<open>8 word\<close> bodies) as its state.

  \<^bold>\<open>What is proved.\<close> C1-C3, C12 and C14: the functional behaviour of create (a
  read returns the record; a second create overwrites), update (the body's fields are
  merged into the record, or into \<open>{id: k}\<close> when there is none) and delete (a read
  finds nothing; deleting an absent key succeeds). C4, C5 span the handlers: a request
  changes at most one key of its own table and a failed one nothing, and every
  successful request refines the abstract operation \<open>abs_request\<close> of that request
  (a functional refinement through \<open>abs_table\<close>). C6: the decoder never runs out of
  fuel. C7, C8, C15, C16, C17, C25: the error paths (reserved words or \<open>id\<close> in an
  update, a float in a record, an empty update, a missing \<open>id\<close>, an integer of more
  than 38 digits with the \<open>decimal\<close> signal CPython raises for it, an \<open>id\<close> that is
  not a non-empty string), each leaving the store unchanged. C13, C18, C33: create,
  update and delete succeed exactly when (conditions on the decoded body and the path
  id). C9-C11: the relay POSTs one request per record in order when nothing fails to
  connect, stops at the first connection failure, and prints \<open>None\<close> for a missing
  reason. C19, C20: every response body and every webhook body decodes to exactly the
  dict the code built. C21, C22: for every network behaviour the relay sends at most
  one POST per record, the i-th for the i-th record; an unreadable record ends the
  invocation after the POSTs before it. C23: requests on different keys commute,
  responses and final store alike. C24: from a well-keyed store, deleting a table's
  keys in any order empties it, every delete answering 200. C26: the loop and
  \<open>rstrip\<close> build the expression \<open>", ".join\<close> would, when no key ends in a comma or
  space. C27: a missing environment variable fails every invocation at module
  initialisation, with no write and no POST. C28, C29: a client sending
  \<open>json.dumps(d)\<close> (\<open>create_request\<close>, \<open>update_request\<close>) gets the abstract
  operation, so encoder, decoder, handler, serializer and store compose. C30: a body
  that is JSON but not an object fails create with \<open>TypeError\<close> and update with
  \<open>AttributeError\<close>. C31: the relay answers ok exactly when every record is readable
  and no POST fails to connect. C32: creating a record under a fresh id and deleting
  it restores the store exactly.

  \<^bold>\<open>Bounds and fuel.\<close> \<open>json_loads\<close> gives the scanner \<open>3 * n + 1\<close> units of
  fuel for an input of \<open>n\<close> characters after leading whitespace: every nested value
  consumes at least one character and costs at most three recursive calls
  (\<open>fuel_need\<close>), and C7 proves that \<open>FuelExhausted\<close> never results, so the
  bounded function is Python's unbounded recursion. Characters are 8-bit code points
  (Isabelle's \<open>char\<close>), which covers Latin-1 exactly; a \<open>\uXXXX\<close> escape above
  \<open>U+00FF\<close> yields \<open>UnrepresentableChar\<close>.

  \<^bold>\<open>Not modelled.\<close> The Lambda runtime, API Gateway and SNS delivery (events are
  inputs); boto3 and urllib3 client construction, credentials, retries and timeouts
  (inside the network oracle and the store's error results); the store's 400 KB item
  size limit (the service documents the size of a number only approximately), its
  32-level nesting limit (an item nested deeper is rejected; the model accepts it),
  its 4 KB limit on an expression (an update body with enough keys builds a longer
  \<open>UpdateExpression\<close> and is rejected; the model accepts it) and its rejection of
  an empty attribute name (\<open>put_item\<close> accepts a body with a \<open>""\<close> key, which the
  service refuses with \<open>ValidationException\<close>; \<open>update_item\<close> rejects it through
  \<open>ident_word\<close>); Python 3.11's limit of 4300 digits on \<open>int\<close>/\<open>str\<close>
  conversion (\<open>json.loads\<close>, \<open>json.dumps\<close> and \<open>str()\<close> raise \<open>ValueError\<close>
  beyond it; the model converts every integer, and none of that size is storable);
  the type of numbers read back (\<open>TypeDeserializer\<close> returns \<open>Decimal\<close>, which
  \<open>item_view\<close> writes as the \<open>int\<close> it equals: a record read back equals the body
  as Python's \<open>==\<close> compares them, \<open>Decimal(30) == 30\<close>);
  conditional writes, other update clauses and \<open>ExpressionAttributeNames\<close>
  (the handlers never use them); binary doubles (a float is its literal text);
  Python's recursion limit (a body nested about a thousand deep raises
  \<open>RecursionError\<close> in CPython and decodes in the model); concurrent invocations
  inside a request (the spec leaves them to the store's per-item consistency;
  \<open>reach\<close> interleaves whole requests, and C23 shows that the order of requests on
  different keys does not matter); the import lines, which bind library modules.
  Everything else of \<open>src/lambda/\<close> is a definition of this development: what
  remains outside is library or service behaviour that the repository does not contain
  and that is documented too loosely to be modelled faithfully.
\<close>

section \<open>Properties of the store across handlers\<close>

text \<open>
  C4. Each request either leaves the store exactly as it was, or it succeeded and
  changed a single item slot (one key) of the handler's table: a failed request
  (an exception in the handler, the client or the service) never writes, and no
  request touches another record or another table.
\<close>

theorem handle_frame:
  assumes "handle tn q st = (r, st')"
  shows "st' = st \<or> (\<exists>x. r = Inr x) \<and> (\<exists>t t' k. st tn = Some t \<and> st' = st(tn \<mapsto> t') \<and> (\<forall>k'. k' \<noteq> k \<longrightarrow> t' k' = t k'))"
proof (cases r)
  case (Inl e)
  with assms show ?thesis by (auto dest: handle_Inl)
next
  case (Inr x)
  with assms obtain t k v where "st tn = Some t" "st' = st(tn \<mapsto> t(k := v))"
    by (blast dest: handle_Inr_store)
  with Inr show ?thesis by auto
qed

theorem handle_frame_witness:
  "let st0 = [''Users'' \<mapsto> Map.empty] in
   handle ''Users'' (CreateUser (JObj [(''body'', JStr ''{}'')])) st0 = (Inl (KeyError ''id''), st0) \<and>
   (st0 = st0 \<or> (\<exists>x. (Inl (KeyError ''id'') :: api_response res) = Inr x) \<and> (\<exists>t t' k. st0 ''Users'' = Some t \<and> st0 = st0(''Users'' \<mapsto> t') \<and> (\<forall>k'. k' \<noteq> k \<longrightarrow> t' k' = t k')))"
proof -
  have dec: "json_loads ''{}'' = Inr (JObj [])" by code_simp
  have h: "handle ''Users'' (CreateUser (JObj [(''body'', JStr ''{}'')])) [''Users'' \<mapsto> Map.empty] =
             (Inl (KeyError ''id''), [''Users'' \<mapsto> Map.empty])"
    using dec by (simp add: create_user_def py_json_loads_def)
  show ?thesis using h handle_frame [OF h] by (simp add: Let_def)
qed

text \<open>
  C5. The handlers implement the abstract contract of spec sections 4 and 8: every
  successful request changes only the handler's table, and the records that table
  reads back as are exactly the abstract operation of that request
  (\<open>abs_request\<close>: create stores the decoded body under its \<open>id\<close>, update merges
  the body into the record or into \<open>{id: k}\<close>, delete removes the path's key) applied
  to the records before.
\<close>

theorem handle_refines:
  assumes "handle tn q st = (Inr r, st')"
  shows "\<exists>t t'. st tn = Some t \<and> st' = st(tn \<mapsto> t') \<and> abs_table t' = abs_request q (abs_table t)"
proof (cases q)
  case (CreateUser ev)
  with assms create_user_refines [of tn ev st r st'] show ?thesis by (simp del: abs_request.simps)
next
  case (UpdateUser ev)
  with assms update_user_refines [of tn ev st r st'] show ?thesis by (simp del: abs_request.simps)
next
  case (DeleteUser ev)
  with assms delete_user_refines [of tn ev st r st'] show ?thesis by (simp del: abs_request.simps)
qed


theorem handle_refines_witness:
  "\<exists>t t'. [''Users'' \<mapsto> Map.empty] ''Users'' = Some t \<and>
     snd (handle ''Users'' (CreateUser (JObj [(''body'', JStr ''{\"id\": \"u1\", \"age\": 30}'')])) [''Users'' \<mapsto> Map.empty]) =
       [''Users'' \<mapsto> Map.empty](''Users'' \<mapsto> t') \<and>
     abs_table t' = abs_request (CreateUser (JObj [(''body'', JStr ''{\"id\": \"u1\", \"age\": 30}'')])) (abs_table t)"
proof -
  have dec: "json_loads ''{\"id\": \"u1\", \"age\": 30}'' = Inr (JObj [(''id'', JStr ''u1''), (''age'', JInt 30)])"
    by code_simp
  have "\<exists>x st'. handle ''Users'' (CreateUser (JObj [(''body'', JStr ''{\"id\": \"u1\", \"age\": 30}'')]))
                 [''Users'' \<mapsto> Map.empty] = (Inr x, st')"
  proof -
    have ser: "serialize_map [(''id'', JStr ''u1''), (''age'', JInt 30)] = Inr [(''id'', AS ''u1''), (''age'', AN 30)]"
      by code_simp
    have dd: "dec_digits 30 = 2" by code_simp
    show ?thesis
      by (simp add: dec ser dd create_user_def py_getitem_def py_json_loads_def put_item_def key_value_def key_attr_def)
  qed
  then obtain x st' where h: "handle ''Users'' (CreateUser (JObj [(''body'', JStr ''{\"id\": \"u1\", \"age\": 30}'')]))
                 [''Users'' \<mapsto> Map.empty] = (Inr x, st')" by blast
  from handle_refines [OF h] h show ?thesis by simp
qed


text \<open>
  C23. Requests on different keys commute: running two requests whose keys differ in
  either order gives the same responses and the same final store. The handlers share
  only the store, each reads the existence of its table and its own item and writes
  only that item, so concurrent invocations on different records cannot interfere,
  whatever their interleaving at the request level.
\<close>

theorem run_commute:
  assumes k1: "request_key q1 = Some k1" and k2: "request_key q2 = Some k2" and "k1 \<noteq> k2"
  shows "fst (run tn [q1, q2] st) = rev (fst (run tn [q2, q1] st)) \<and>
         snd (run tn [q1, q2] st) = snd (run tn [q2, q1] st)"
proof (cases "st tn")
  case None
  obtain r1 st1 where h1: "handle tn q1 st = (r1, st1)" by fastforce
  obtain r2 st2 where h2: "handle tn q2 st = (r2, st2)" by fastforce
  from None h1 h2 have "st1 = st" "st2 = st" by (auto dest: handle_no_table)
  with h1 h2 show ?thesis by simp
next
  case (Some t)
  obtain r1 st1 where h1: "handle tn q1 st = (r1, st1)" by fastforce
  obtain r2 st2 where h2: "handle tn q2 st = (r2, st2)" by fastforce
  from handle_local [where st = st and stb = st and tn = tn, OF k1 h1 Some Some refl]
  obtain u1 where s1: "st1 = (case r1 of Inl e \<Rightarrow> st | Inr x \<Rightarrow> st(tn \<mapsto> t(k1 := u1)))" by blast
  from handle_local [where st = st and stb = st and tn = tn, OF k2 h2 Some Some refl]
  obtain u2 where s2: "st2 = (case r2 of Inl e \<Rightarrow> st | Inr x \<Rightarrow> st(tn \<mapsto> t(k2 := u2)))" by blast
  define t1 where "t1 = (case r1 of Inl e \<Rightarrow> t | Inr x \<Rightarrow> t(k1 := u1))"
  define t2 where "t2 = (case r2 of Inl e \<Rightarrow> t | Inr x \<Rightarrow> t(k2 := u2))"
  have st1: "st1 tn = Some t1" and t1: "t1 k2 = t k2"
    using s1 Some \<open>k1 \<noteq> k2\<close> by (auto simp: t1_def split: sum.split)
  have st2: "st2 tn = Some t2" and t2: "t2 k1 = t k1"
    using s2 Some \<open>k1 \<noteq> k2\<close> by (auto simp: t2_def split: sum.split)
  from handle_local [where st = st and stb = st1 and tn = tn, OF k2 h2 Some st1 t1]
  obtain v2 where c2: "handle tn q2 st1 = (r2, case r2 of Inl e \<Rightarrow> st1 | Inr x \<Rightarrow> st1(tn \<mapsto> t1(k2 := v2)))"
    and s2': "st2 = (case r2 of Inl e \<Rightarrow> st | Inr x \<Rightarrow> st(tn \<mapsto> t(k2 := v2)))" by blast
  from handle_local [where st = st and stb = st2 and tn = tn, OF k1 h1 Some st2 t2]
  obtain v1 where c1: "handle tn q1 st2 = (r1, case r1 of Inl e \<Rightarrow> st2 | Inr x \<Rightarrow> st2(tn \<mapsto> t2(k1 := v1)))"
    and s1': "st1 = (case r1 of Inl e \<Rightarrow> st | Inr x \<Rightarrow> st(tn \<mapsto> t(k1 := v1)))" by blast
  from s1' s2' st1 st2 Some have "t1 = (case r1 of Inl e \<Rightarrow> t | Inr x \<Rightarrow> t(k1 := v1))"
    and "t2 = (case r2 of Inl e \<Rightarrow> t | Inr x \<Rightarrow> t(k2 := v2))"
    by (auto split: sum.splits)
  with h1 h2 c1 c2 s1' s2' \<open>k1 \<noteq> k2\<close> Some show ?thesis
    by (cases r1; cases r2) (simp_all add: fun_upd_twist)
qed

theorem run_commute_witness:
  "let q1 = CreateUser (JObj [(''body'', JStr ''{\"id\": \"u1\", \"age\": 30}'')]);
       q2 = UpdateUser (JObj [(''pathParameters'', JObj [(''id'', JStr ''u2'')]),
                              (''body'', JStr ''{\"age\": 31}'')]);
       st0 = [''Users'' \<mapsto> Map.empty]
   in request_key q1 = Some ''u1'' \<and> request_key q2 = Some ''u2'' \<and>
      fst (run ''Users'' [q1, q2] st0) = rev (fst (run ''Users'' [q2, q1] st0)) \<and>
      snd (run ''Users'' [q1, q2] st0) = snd (run ''Users'' [q2, q1] st0)"
proof -
  let ?q1 = "CreateUser (JObj [(''body'', JStr ''{\"id\": \"u1\", \"age\": 30}'')])"
  let ?q2 = "UpdateUser (JObj [(''pathParameters'', JObj [(''id'', JStr ''u2'')]),
                              (''body'', JStr ''{\"age\": 31}'')])"
  have dec: "json_loads ''{\"id\": \"u1\", \"age\": 30}'' = Inr (JObj [(''id'', JStr ''u1''), (''age'', JInt 30)])"
    by code_simp
  have k1: "request_key ?q1 = Some ''u1''" by (simp add: dec py_json_loads_def py_getitem_def)
  have k2: "request_key ?q2 = Some ''u2''" by (simp add: py_getitem_def)
  from run_commute [OF k1 k2] k1 k2 show ?thesis by (simp add: Let_def)
qed

text \<open>
  C24. Every table can be emptied: from a well-keyed store, deleting the keys of the
  table one by one, in any order, answers 200 to each request and leaves the table
  empty. No stored record is stuck: its key is always a string the delete handler
  accepts.
\<close>

theorem delete_all_empties:
  assumes "well_keyed st" and "st tn = Some t" and "set ks = dom t"
  shows "run tn (map delete_request ks) st =
           (map (\<lambda>k. Inr (message_response 200 (''User '' @ k @ '' deleted''))) ks, st(tn \<mapsto> Map.empty))"
proof -
  from assms have "list_all (\<lambda>k. k \<noteq> []) ks"
    by (auto simp: well_keyed_def list_all_iff)
  moreover have "t |` (- dom t) = Map.empty"
    by (auto simp: restrict_map_def)
  ultimately show ?thesis using assms(2,3) by (simp add: run_delete_requests)
qed

theorem delete_all_empties_witness:
  "run ''Users'' (map delete_request [''u2'', ''u1''])
       [''Users'' \<mapsto> [''u1'' \<mapsto> [''id'' \<mapsto> AS ''u1''], ''u2'' \<mapsto> [''id'' \<mapsto> AS ''u2'', ''age'' \<mapsto> AN 3]]] =
     ([Inr (message_response 200 ''User u2 deleted''), Inr (message_response 200 ''User u1 deleted'')],
      [''Users'' \<mapsto> Map.empty])"
proof -
  have "well_keyed [''Users'' \<mapsto> [''u1'' \<mapsto> [''id'' \<mapsto> AS ''u1''], ''u2'' \<mapsto> [''id'' \<mapsto> AS ''u2'', ''age'' \<mapsto> AN 3]]]"
    by (simp add: well_keyed_def key_attr_def)
  from delete_all_empties [OF this, of "''Users''" _ "[''u2'', ''u1'']"] show ?thesis by auto
qed

text \<open>
  C27. Configuration fails fast, at module initialisation (spec, section 6): without
  \<open>TABLE_NAME\<close> every invocation of each record handler's module fails with
  \<open>KeyError('TABLE_NAME')\<close> whatever the event, before reading it, and writes
  nothing; without \<open>SLACK_WEBHOOK_URL\<close> every invocation of the relay fails with
  \<open>KeyError('SLACK_WEBHOOK_URL')\<close> and sends nothing.
\<close>

theorem modules_fail_fast:
  assumes "e ''TABLE_NAME'' = None" and "e ''SLACK_WEBHOOK_URL'' = None"
  shows "create_user_module e ev st = (Inl (KeyError ''TABLE_NAME''), st) \<and>
         update_user_module e ev st = (Inl (KeyError ''TABLE_NAME''), st) \<and>
         delete_user_module e ev st = (Inl (KeyError ''TABLE_NAME''), st) \<and>
         slack_module e net ev = (Inl (KeyError ''SLACK_WEBHOOK_URL''), [])"
  using assms
  by (simp add: create_user_module_def update_user_module_def delete_user_module_def
      slack_module_def table_init_def webhook_init_def getenv_def)

theorem modules_fail_fast_witness:
  "create_user_module Map.empty (JObj []) [''Users'' \<mapsto> Map.empty] = (Inl (KeyError ''TABLE_NAME''), [''Users'' \<mapsto> Map.empty]) \<and>
   update_user_module Map.empty (JObj []) [''Users'' \<mapsto> Map.empty] = (Inl (KeyError ''TABLE_NAME''), [''Users'' \<mapsto> Map.empty]) \<and>
   delete_user_module Map.empty (JObj []) [''Users'' \<mapsto> Map.empty] = (Inl (KeyError ''TABLE_NAME''), [''Users'' \<mapsto> Map.empty]) \<and>
   slack_module Map.empty (\<lambda>i q. HttpResponse 200) (JObj []) = (Inl (KeyError ''SLACK_WEBHOOK_URL''), [])"
  by (rule modules_fail_fast) simp_all

text \<open>
  C28. The handlers implement the abstract create of every storable record: a client
  that sends \<open>json.dumps(d)\<close> as the body, for a dict \<open>d\<close> without floats whose
  \<open>id\<close> is a non-empty string \<open>k\<close>, gets 201 and "User k created", and the table
  read back is the old one with \<open>k\<close> mapped to exactly \<open>d\<close>: encoder, decoder,
  handler, serializer and store compose to the contract's create step.
\<close>

theorem create_request_realises:
  assumes tbl: "st tn = Some t" and sto: "storable_map d" and dmp: "dumpable (JObj d)"
    and id: "map_of d ''id'' = Some (JStr k)" and ne: "k \<noteq> []"
  shows "\<exists>t'. handle tn (create_request d) st =
               (Inr (message_response 201 (''User '' @ k @ '' created'')), st(tn \<mapsto> t')) \<and>
             abs_table t' = (abs_table t)(k \<mapsto> map_of d)"
proof -
  from sto obtain m where ser: "serialize_map d = Inr m"
    using serialize_storable(3) by blast
  have dec: "json_loads (json_dumps (JObj d)) = Inr (JObj d)" using dmp by (rule loads_dumps)
  have "create_user tn (JObj [(''body'', JStr (json_dumps (JObj d)))]) st =
          (Inr (message_response 201 (''User '' @ k @ '' created'')), st(tn \<mapsto> t(k \<mapsto> map_of m)))"
    by (rule create_user_put [where st = st and tn = tn, OF _ dec id ne ser tbl]) (simp add: py_getitem_def)
  moreover have "abs_table (t(k \<mapsto> map_of m)) = (abs_table t)(k \<mapsto> map_of d)"
    using ser by (simp add: abs_table_upd item_view_serialize_map)
  ultimately show ?thesis by (auto simp: create_request_def)
qed

theorem create_request_realises_witness:
  "\<exists>t'. handle ''Users'' (create_request [(''id'', JStr ''u1''), (''age'', JInt 30)]) [''Users'' \<mapsto> Map.empty] =
         (Inr (message_response 201 (''User u1 created'')), [''Users'' \<mapsto> Map.empty](''Users'' \<mapsto> t')) \<and>
       abs_table t' = (abs_table Map.empty)(''u1'' \<mapsto> map_of [(''id'', JStr ''u1''), (''age'', JInt 30)])"
proof -
  have sto: "storable_map [(''id'', JStr ''u1''), (''age'', JInt 30)]" by code_simp
  have dmp: "dumpable (JObj [(''id'', JStr ''u1''), (''age'', JInt 30)])" by code_simp
  show ?thesis
    using create_request_realises [OF _ sto dmp, of "[''Users'' \<mapsto> Map.empty]" "''Users''" Map.empty "''u1''"]
    by simp
qed

text \<open>
  C29. The handlers implement the abstract update for every body of plain attribute
  names: a client that sends \<open>json.dumps(d)\<close> for a non-empty dict of storable
  values keyed by plain, non-reserved names other than \<open>id\<close>, with the path id
  \<open>k\<close>, gets 200 and the table read back has \<open>k\<close> mapped to the old record (or
  \<open>{id: k}\<close>) merged with \<open>d\<close>, the contract's update step.
\<close>

theorem update_request_realises:
  assumes tbl: "st tn = Some t" and sto: "storable_map d" and dmp: "dumpable (JObj d)"
    and ne: "k \<noteq> []" and dne: "d \<noteq> []"
    and names: "list_all (\<lambda>n. ident_word n \<and> valid_name n \<and> n \<noteq> key_attr) (map fst d)"
  shows "\<exists>t'. handle tn (update_request k d) st =
               (Inr (message_response 200 (''User '' @ k @ '' updated'')), st(tn \<mapsto> t')) \<and>
             abs_table t' = (abs_table t)(k \<mapsto> (case abs_table t k of None \<Rightarrow> [''id'' \<mapsto> JStr k] | Some r \<Rightarrow> r) ++ map_of d)"
proof -
  from sto obtain m where ser: "serialize_map d = Inr m"
    using serialize_storable(3) by blast
  have dec: "json_loads (json_dumps (JObj d)) = Inr (JObj d)" using dmp by (rule loads_dumps)
  let ?ev = "JObj [(''pathParameters'', JObj [(''id'', JStr k)]), (''body'', JStr (json_dumps (JObj d)))]"
  have "update_user tn ?ev st =
          (Inr (message_response 200 (''User '' @ k @ '' updated'')),
           st(tn \<mapsto> t(k \<mapsto> (case t k of None \<Rightarrow> [key_attr \<mapsto> AS k] | Some it \<Rightarrow> it) ++ map_of m)))"
    using names
    by (intro update_user_store_merge [where pp = "JObj [(''id'', JStr k)]" and st = st and tn = tn, OF _ _ ne _ dec dne _ ser tbl])
       (simp_all add: py_getitem_def list_all_iff)
  moreover have "abs_table (t(k \<mapsto> (case t k of None \<Rightarrow> [key_attr \<mapsto> AS k] | Some it \<Rightarrow> it) ++ map_of m)) =
                   (abs_table t)(k \<mapsto> (case abs_table t k of None \<Rightarrow> [''id'' \<mapsto> JStr k] | Some r \<Rightarrow> r) ++ map_of d)"
  proof -
    have "item_view ((case t k of None \<Rightarrow> [key_attr \<mapsto> AS k] | Some it \<Rightarrow> it) ++ map_of m) =
            (case abs_table t k of None \<Rightarrow> [''id'' \<mapsto> JStr k] | Some r \<Rightarrow> r) ++ map_of d"
      using item_view_merge [OF ser, where t = t and k = k]
      by (cases "t k") (simp_all add: abs_table_def key_attr_def)
    then show ?thesis by (simp only: abs_table_upd)
  qed
  ultimately show ?thesis by (auto simp: update_request_def)
qed

theorem update_request_realises_witness:
  "\<exists>t'. handle ''Users'' (update_request ''u1'' [(''age'', JInt 31)])
            [''Users'' \<mapsto> [''u1'' \<mapsto> [''id'' \<mapsto> AS ''u1'', ''age'' \<mapsto> AN 30]]] =
         (Inr (message_response 200 (''User u1 updated'')),
          [''Users'' \<mapsto> [''u1'' \<mapsto> [''id'' \<mapsto> AS ''u1'', ''age'' \<mapsto> AN 30]]](''Users'' \<mapsto> t')) \<and>
       abs_table t' = (abs_table [''u1'' \<mapsto> [''id'' \<mapsto> AS ''u1'', ''age'' \<mapsto> AN 30]])(''u1'' \<mapsto>
         (case abs_table [''u1'' \<mapsto> [''id'' \<mapsto> AS ''u1'', ''age'' \<mapsto> AN 30]] ''u1'' of
            None \<Rightarrow> [''id'' \<mapsto> JStr ''u1''] | Some r \<Rightarrow> r) ++ map_of [(''age'', JInt 31)])"
proof -
  have sto: "storable_map [(''age'', JInt 31)]" by code_simp
  have dmp: "dumpable (JObj [(''age'', JInt 31)])" by code_simp
  have names: "list_all (\<lambda>n. ident_word n \<and> valid_name n \<and> n \<noteq> key_attr) (map fst [(''age'', JInt 31)])"
    by code_simp
  show ?thesis
    using update_request_realises [OF _ sto dmp _ _ names,
        where st = "[''Users'' \<mapsto> [''u1'' \<mapsto> [''id'' \<mapsto> AS ''u1'', ''age'' \<mapsto> AN 30]]]"
          and tn = "''Users''" and t = "[''u1'' \<mapsto> [''id'' \<mapsto> AS ''u1'', ''age'' \<mapsto> AN 30]]" and k = "''u1''"]
    by simp
qed

text \<open>
  C30. A body that is valid JSON but not an object (a list, a string, a number,
  \<open>true\<close>, \<open>null\<close>) is an unhandled error of each writing handler, raised
  before any store call: create fails with \<open>TypeError\<close> at \<open>body['id']\<close>
  and update with \<open>AttributeError\<close> at \<open>body.items()\<close> (spec, section 7,
  malformed input left unhandled); neither writes.
\<close>

theorem non_object_body_rejected:
  assumes body: "py_getitem ev ''body'' = Inr (JStr b)" and dec: "json_loads b = Inr v"
    and nobj: "\<not> (\<exists>d. v = JObj d)"
    and path: "res_bind (py_getitem ev ''pathParameters'') (\<lambda>pp. py_getitem pp ''id'') = Inr uid"
  shows "create_user tn ev st = (Inl TypeError, st) \<and> update_user tn ev st = (Inl AttributeError, st)"
proof -
  from nobj have "py_getitem v ''id'' = Inl TypeError" and "py_items v = Inl AttributeError"
    by (cases v; simp add: py_getitem_def py_items_def)+
  with body dec path show ?thesis
    by (simp add: create_user_def update_user_def py_json_loads_def)
qed

theorem non_object_body_rejected_witness:
  "create_user ''Users'' (JObj [(''pathParameters'', JObj [(''id'', JStr ''u1'')]), (''body'', JStr ''[1, 2]'')])
      [''Users'' \<mapsto> Map.empty] = (Inl TypeError, [''Users'' \<mapsto> Map.empty]) \<and>
   update_user ''Users'' (JObj [(''pathParameters'', JObj [(''id'', JStr ''u1'')]), (''body'', JStr ''[1, 2]'')])
      [''Users'' \<mapsto> Map.empty] = (Inl AttributeError, [''Users'' \<mapsto> Map.empty])"
proof -
  have dec: "json_loads ''[1, 2]'' = Inr (JArr [JInt 1, JInt 2])" by code_simp
  show ?thesis
    by (rule non_object_body_rejected [OF _ dec]) (simp_all add: py_getitem_def)
qed

text \<open>
  C32. Create and delete are inverse on the store: creating a record under an id the
  table does not hold and then deleting that id answers 201 and 200 and leaves the
  store exactly as it was, every other record and table included.
\<close>

theorem create_delete_roundtrip:
  assumes tbl: "st tn = Some t" and new: "t k = None"
    and sto: "storable_map d" and dmp: "dumpable (JObj d)"
    and id: "map_of d ''id'' = Some (JStr k)" and ne: "k \<noteq> []"
  shows "run tn [create_request d, delete_request k] st =
           ([Inr (message_response 201 (''User '' @ k @ '' created'')),
             Inr (message_response 200 (''User '' @ k @ '' deleted''))], st)"
proof -
  from sto obtain m where ser: "serialize_map d = Inr m"
    using serialize_storable(3) by blast
  have dec: "json_loads (json_dumps (JObj d)) = Inr (JObj d)" using dmp by (rule loads_dumps)
  have c: "handle tn (create_request d) st =
             (Inr (message_response 201 (''User '' @ k @ '' created'')), st(tn \<mapsto> t(k \<mapsto> map_of m)))"
    unfolding create_request_def handle.simps
    by (rule create_user_put [where st = st and tn = tn, OF _ dec id ne ser tbl]) (simp add: py_getitem_def)
  have d: "handle tn (delete_request k) (st(tn \<mapsto> t(k \<mapsto> map_of m))) =
             (Inr (message_response 200 (''User '' @ k @ '' deleted'')), st(tn \<mapsto> t(k \<mapsto> map_of m, k := None)))"
    using ne by (simp add: handle_delete_request)
  have "st(tn \<mapsto> t(k \<mapsto> map_of m, k := None)) = st"
    using tbl new by (simp add: fun_upd_idem)
  with c d show ?thesis by simp
qed

theorem create_delete_roundtrip_witness:
  "run ''Users'' [create_request [(''id'', JStr ''u1''), (''age'', JInt 30)], delete_request ''u1'']
       [''Users'' \<mapsto> [''u2'' \<mapsto> [''id'' \<mapsto> AS ''u2'']]] =
     ([Inr (message_response 201 ''User u1 created''), Inr (message_response 200 ''User u1 deleted'')],
      [''Users'' \<mapsto> [''u2'' \<mapsto> [''id'' \<mapsto> AS ''u2'']]])"
proof -
  have sto: "storable_map [(''id'', JStr ''u1''), (''age'', JInt 30)]" by code_simp
  have dmp: "dumpable (JObj [(''id'', JStr ''u1''), (''age'', JInt 30)])" by code_simp
  show ?thesis
    using create_delete_roundtrip [OF _ _ sto dmp, where st = "[''Users'' \<mapsto> [''u2'' \<mapsto> [''id'' \<mapsto> AS ''u2'']]]"
        and tn = "''Users''" and t = "[''u2'' \<mapsto> [''id'' \<mapsto> AS ''u2'']]" and k = "''u1''"]
    by simp
qed

end
